(* ===== verification/Prelude.thy ===== *)
theory Prelude
  imports Main "HOL-Library.Word" "HOL-Library.Sublist"
begin

text \<open>
  Shared vocabulary of the development: the types that name Go's values
  (\<open>[]byte\<close>, \<open>byte\<close>, \<open>int64\<close>), the error values that the builders return,
  decimal digits, and the collections of rules that the component theories
  evaluate and rewrite with.
\<close>

named_theorems model_simps "rules that evaluate the model's operations on concrete inputs"
named_theorems str_simps "rewriting rules for strings built by the model"

type_synonym bytes = string
type_synonym byte = "8 word"
type_synonym int64 = "64 word"

section \<open>Go error values\<close>

text \<open>
  Go returns an \<open>error\<close> interface value next to the result. The model keeps the
  error kinds the builders distinguish: a malformed version, a failed base
  preparation, a failed rendering, and an error wrapped with context by
  \<open>errors.Wrapf\<close> of \<open>github.com/pkg/errors\<close>, which keeps its cause.
\<close>

datatype error =
    VersionFormatError string
  | PreparationError string
  | RenderError string
  | Wrapped string error

text \<open>\<open>err.Error()\<close>: a wrapped error prints its context, a colon and its cause.\<close>

fun error_msg :: "error \<Rightarrow> string" where
  "error_msg (VersionFormatError m) = m"
| "error_msg (PreparationError m) = m"
| "error_msg (RenderError m) = m"
| "error_msg (Wrapped m e) = m @ '': '' @ error_msg e"

text \<open>\<open>errors.Cause\<close>: unwrap every layer of context.\<close>

fun cause :: "error \<Rightarrow> error" where
  "cause (Wrapped m e) = cause e"
| "cause e = e"

text \<open>\<open>errors.Wrapf(err, msg)\<close> for a non-nil \<open>err\<close>.\<close>

definition wrapf :: "error \<Rightarrow> string \<Rightarrow> error" where
  "wrapf e m = Wrapped m e"

lemma cause_wrapf [simp]: "cause (wrapf e m) = cause e"
  by (simp add: wrapf_def)

lemma error_msg_wrapf [simp]: "error_msg (wrapf e m) = m @ '': '' @ error_msg e"
  by (simp add: wrapf_def)

lemma cause_idem [simp]: "cause (cause e) = cause e"
  by (induction e rule: cause.induct) simp_all

section \<open>Decimal digits\<close>

definition is_digit :: "char \<Rightarrow> bool" where
  "is_digit c \<longleftrightarrow> (48::nat) \<le> of_char c \<and> of_char c \<le> (57::nat)"

definition digit_val :: "char \<Rightarrow> nat" where
  "digit_val c = of_char c - (48::nat)"

text \<open>The decimal numeral of a natural number, most significant digit first.\<close>

fun dec_of_nat :: "nat \<Rightarrow> string" where
  "dec_of_nat n =
     (let d = [char_of (48 + n mod 10)] in if n < 10 then d else dec_of_nat (n div 10) @ d)"

declare dec_of_nat.simps [simp del]

text \<open>The value of a string of digits (Horner's rule, left to right).\<close>

definition dec_value :: "string \<Rightarrow> nat" where
  "dec_value s = foldl (\<lambda>acc c. 10 * acc + digit_val c) 0 s"

declare is_digit_def [model_simps] digit_val_def [model_simps] dec_value_def [model_simps]
  char_of_eq_iff [model_simps]

lemma dec_value_Nil [simp]: "dec_value [] = 0"
  by (simp add: dec_value_def)

lemma dec_value_snoc [simp]: "dec_value (s @ [c]) = 10 * dec_value s + digit_val c"
  by (simp add: dec_value_def)

lemma dec_value_single [simp]: "dec_value [c] = digit_val c"
  by (simp add: dec_value_def)

lemma digit_char [simp]:
  fixes k :: nat
  assumes "k < 10"
  shows "is_digit (char_of (48 + k))" "digit_val (char_of (48 + k)) = k"
proof -
  from assms have "(48 + k) mod 256 = 48 + k" by simp
  then show "is_digit (char_of (48 + k))" "digit_val (char_of (48 + k)) = k"
    using assms by (simp_all add: is_digit_def digit_val_def)
qed

lemma dec_of_nat_unfold:
  "dec_of_nat n =
     (if n < 10 then [char_of (48 + n)] else dec_of_nat (n div 10) @ [char_of (48 + n mod 10)])"
  by (subst dec_of_nat.simps) (simp add: Let_def)

lemma dec_of_nat_digits: "c \<in> set (dec_of_nat n) \<Longrightarrow> is_digit c"
proof (induction n rule: dec_of_nat.induct)
  case (1 n)
  show ?case
  proof (cases "n < 10")
    case True
    with "1.prems" show ?thesis by (simp add: dec_of_nat_unfold [of n])
  next
    case False
    with "1.prems" have "c \<in> set (dec_of_nat (n div 10)) \<or> c = char_of (48 + n mod 10)"
      by (auto simp: dec_of_nat_unfold [of n])
    with False "1.IH" show ?thesis by (auto simp: Let_def)
  qed
qed

lemma dec_of_nat_not_Nil [simp]: "dec_of_nat n \<noteq> []"
  by (simp add: dec_of_nat_unfold [of n])

lemma dec_value_dec_of_nat [simp]: "dec_value (dec_of_nat n) = n"
proof (induction n rule: dec_of_nat.induct)
  case (1 n)
  show ?case
  proof (cases "n < 10")
    case True
    then show ?thesis by (simp add: dec_of_nat_unfold [of n])
  next
    case False
    with "1.IH" have "dec_value (dec_of_nat (n div 10)) = n div 10" by (simp add: Let_def)
    with False show ?thesis by (simp add: dec_of_nat_unfold [of n])
  qed
qed

lemma dec_of_nat_inj: "dec_of_nat m = dec_of_nat n \<Longrightarrow> m = n"
  by (metis dec_value_dec_of_nat)

lemma dec_value_append: "dec_value (xs @ ys) = dec_value xs * 10 ^ length ys + dec_value ys"
proof (induction ys rule: rev_induct)
  case (snoc y ys)
  have "dec_value (xs @ ys @ [y]) = 10 * dec_value (xs @ ys) + digit_val y"
    using dec_value_snoc [of "xs @ ys" y] by simp
  with snoc show ?case by (simp add: algebra_simps)
qed simp

text \<open>The only digit of value zero is \<open>0\<close>.\<close>

lemma digit_zero: "is_digit d \<Longrightarrow> digit_val d = 0 \<Longrightarrow> d = CHR ''0''"
proof -
  assume "is_digit d" "digit_val d = 0"
  then have "of_char d = (48::nat)" by (simp add: is_digit_def digit_val_def)
  then have "of_char d = (of_char (CHR ''0'') :: nat)" by simp
  then show "d = CHR ''0''" by (simp only: of_char_eq_iff)
qed

text \<open>A numeral has no leading zero: its first digit is \<open>0\<close> only for zero itself.\<close>

lemma dec_of_nat_hd_zero: "hd (dec_of_nat n) = CHR ''0'' \<Longrightarrow> n = 0"
proof (induction n rule: dec_of_nat.induct)
  case (1 n)
  show ?case
  proof (cases "n < 10")
    case True
    with "1.prems" have "of_char (char_of (48 + n) :: char) = (of_char (CHR ''0'') :: nat)"
      by (simp add: dec_of_nat_unfold [of n])
    with True show ?thesis by simp
  next
    case False
    with "1.prems" have "hd (dec_of_nat (n div 10)) = CHR ''0''"
      by (simp add: dec_of_nat_unfold [of n])
    with False "1.IH" show ?thesis by (simp add: Let_def)
  qed
qed

section \<open>Go int64\<close>

text \<open>
  An \<open>int64\<close> is a 64-bit word read as two's complement: it is negative exactly
  when its unsigned reading reaches \<open>2^63\<close>.
\<close>

lemma int64_negative_iff: "sint (w :: int64) < 0 \<longleftrightarrow> 2 ^ 63 \<le> unat w"
proof -
  have "sint w < 0 \<longleftrightarrow> bit w 63" using bit_last_iff [of w] by simp
  also have "\<dots> \<longleftrightarrow> bit (unat w) 63" by (simp add: bit_unsigned_iff)
  also have "\<dots> \<longleftrightarrow> odd (unat w div 2 ^ 63)" by (simp add: bit_iff_odd)
  also have "\<dots> \<longleftrightarrow> 2 ^ 63 \<le> unat w"
  proof -
    have "unat w < 2 ^ LENGTH(64)" by (rule unsigned_less)
    then have lt: "unat w div 2 ^ 63 < 2" by (simp add: less_mult_imp_div_less)
    have odd2: "odd k \<longleftrightarrow> k = 1" if "k < 2" for k :: nat using that by presburger
    have "odd (unat w div 2 ^ 63) \<longleftrightarrow> unat w div 2 ^ 63 = 1" by (rule odd2 [OF lt])
    also have "\<dots> \<longleftrightarrow> 2 ^ 63 \<le> unat w" using lt by (auto simp: le_div_geq div_eq_0_iff le_less_trans)
    finally show ?thesis .
  qed
  finally show ?thesis .
qed

end
