(* ===== verification/GoStdlib.thy ===== *)
theory GoStdlib
  imports Prelude
begin

text \<open>
  The functions of Go's standard library that the builders and their
  collaborators call on strings: \<open>strings.Split\<close> on a one-byte separator,
  \<open>strings.Join\<close>, \<open>strings.Replace\<close> with \<open>n = -1\<close>, \<open>strconv.Itoa\<close> and
  the parsing of an unsigned decimal field. \<open>strings.Contains\<close> is the library's
  \<open>sublist\<close> of \<open>HOL-Library.Sublist\<close> and \<open>strings.Repeat\<close> is \<open>replicate\<close>.
  Strings are byte lists, as Go's are.
\<close>

section \<open>strings.Split and strings.Join\<close>

text \<open>
  \<open>strings.Split(s, sep)\<close> for a one-byte \<open>sep\<close>: the fields between the
  separators, in order; the empty string gives one empty field.
\<close>

fun split_on :: "'a \<Rightarrow> 'a list \<Rightarrow> 'a list list" where
  "split_on d [] = [[]]"
| "split_on d (c # cs) =
     (let r = split_on d cs in if c = d then [] # r else (c # hd r) # tl r)"

lemma split_on_not_Nil [simp]: "split_on d s \<noteq> []"
  by (cases s) (simp_all add: Let_def)

text \<open>\<open>strings.Join(elems, sep)\<close>.\<close>

fun join_with :: "'a list \<Rightarrow> 'a list list \<Rightarrow> 'a list" where
  "join_with sep [] = []"
| "join_with sep [x] = x"
| "join_with sep (x # y # zs) = x @ sep @ join_with sep (y # zs)"

lemma join_with_Cons: "xs \<noteq> [] \<Longrightarrow> join_with sep (x # xs) = x @ sep @ join_with sep xs"
  by (cases xs) simp_all

lemma join_with_Cons_Cons: "join_with sep ((c # x) # xs) = c # join_with sep (x # xs)"
  by (cases xs) simp_all

text \<open>Joining the fields of a split, with any separator, replaces each separator byte.\<close>

lemma join_split_on_map:
  "join_with sep (split_on d s) = concat (map (\<lambda>c. if c = d then sep else [c]) s)"
proof (induction s)
  case Nil
  then show ?case by simp
next
  case (Cons c cs)
  obtain f fs where r: "split_on d cs = f # fs"
    using split_on_not_Nil by (metis list.exhaust)
  show ?case
  proof (cases "c = d")
    case True
    with Cons.IH r show ?thesis by (simp add: join_with_Cons)
  next
    case False
    with Cons.IH r show ?thesis by (simp add: join_with_Cons_Cons)
  qed
qed

text \<open>Splitting and joining on the same byte are inverse.\<close>

lemma join_split_on [simp]: "join_with [d] (split_on d s) = s"
proof (induction s)
  case Nil
  then show ?case by simp
next
  case (Cons c cs)
  obtain f fs where r: "split_on d cs = f # fs"
    using split_on_not_Nil by (metis list.exhaust)
  with Cons.IH have "join_with [d] (f # fs) = cs" by simp
  with r show ?case by (cases fs) (auto simp: Let_def)
qed

lemma split_on_no_sep: "d \<notin> set s \<Longrightarrow> split_on d s = [s]"
  by (induction s) (auto simp: Let_def)

lemma split_on_append_sep:
  "d \<notin> set s \<Longrightarrow> split_on d (s @ d # t) = s # split_on d t"
  by (induction s) (auto simp: Let_def)

section \<open>strings.Replace with n = -1\<close>

text \<open>
  For a non-empty \<open>old\<close>, Go's \<open>Replace\<close> finds the leftmost occurrence,
  writes \<open>new\<close> in its place and continues after it: the occurrences replaced do
  not overlap, and the text \<open>new\<close> brings in is never searched again.
\<close>

function replace_scan :: "'a list \<Rightarrow> 'a list \<Rightarrow> 'a list \<Rightarrow> 'a list" where
  "replace_scan old new [] = []"
| "replace_scan old new (c # cs) =
     (if old \<noteq> [] \<and> prefix old (c # cs)
      then new @ replace_scan old new (drop (length old) (c # cs))
      else c # replace_scan old new cs)"
  by pat_completeness auto
termination
  by (relation "measure (\<lambda>(old, new, s). length s)") auto

text \<open>
  \<open>strings.Replace(s, old, new, -1)\<close>. An empty \<open>old\<close> matches before every
  byte and at the end (Go steps over UTF-8 sequences there; the strings of this
  program are ASCII).
\<close>

definition replace_all :: "'a list \<Rightarrow> 'a list \<Rightarrow> 'a list \<Rightarrow> 'a list" where
  "replace_all s old new =
     (if old = [] then new @ concat (map (\<lambda>c. c # new) s) else replace_scan old new s)"

lemma replace_scan_absent: "\<not> sublist old s \<Longrightarrow> replace_scan old new s = s"
proof (induction old new s rule: replace_scan.induct)
  case (1 old new)
  then show ?case by simp
next
  case (2 old new c cs)
  from "2.prems" have "\<not> prefix old (c # cs)" and "\<not> sublist old cs"
    by (simp_all add: sublist_Cons_right)
  with "2.IH"(2) show ?case by simp
qed

lemma replace_all_absent [simp]:
  "old \<noteq> [] \<Longrightarrow> \<not> sublist old s \<Longrightarrow> replace_all s old new = s"
  by (simp add: replace_all_def replace_scan_absent)

text \<open>
  Replacement distributes over a concatenation whose left part ends with a byte
  that \<open>old\<close> does not contain: no occurrence can straddle the boundary.
  Templates are split at newlines this way and the placeholder has none.
\<close>

lemma prefix_append_last:
  assumes "prefix old (xs @ ys)" and "xs \<noteq> []" and "last xs \<notin> set old"
  shows "prefix old xs"
proof -
  from assms(1) have "prefix old xs \<or> prefix xs old" by (rule prefix_same_cases [OF _ prefix_prefix [OF prefix_order.refl]])
  moreover have "\<not> prefix xs old"
  proof
    assume "prefix xs old"
    then have "set xs \<subseteq> set old" by (rule set_mono_prefix)
    with assms(2,3) show False by (meson last_in_set subsetD)
  qed
  ultimately show ?thesis by blast
qed

lemma replace_scan_append:
  "xs = [] \<or> last xs \<notin> set old \<Longrightarrow>
   replace_scan old new (xs @ ys) = replace_scan old new xs @ replace_scan old new ys"
proof (induction old new xs rule: replace_scan.induct)
  case (1 old new)
  then show ?case by simp
next
  case (2 old new c cs)
  let ?xs = "c # cs"
  from "2.prems" have last: "last ?xs \<notin> set old" by simp
  show ?case
  proof (cases "old \<noteq> [] \<and> prefix old ?xs")
    case True
    then have len: "length old \<le> length ?xs" by (auto dest: prefix_length_le)
    have rest: "drop (length old) ?xs = [] \<or> last (drop (length old) ?xs) \<notin> set old"
      using last by (cases "length old < length ?xs") simp_all
    have "prefix old (?xs @ ys)" using True prefix_prefix [of old ?xs ys] by simp
    moreover have "drop (length old) (?xs @ ys) = drop (length old) ?xs @ ys"
      using len by (simp only: drop_append) simp
    ultimately show ?thesis using True rest "2.IH"(1) by simp
  next
    case False
    have np: "\<not> (old \<noteq> [] \<and> prefix old (c # cs @ ys))"
      using False last prefix_append_last [of old ?xs ys] by auto
    have "cs = [] \<or> last cs \<notin> set old" using last by (cases cs) simp_all
    with False "2.IH"(2) have "replace_scan old new (cs @ ys) =
      replace_scan old new cs @ replace_scan old new ys" by simp
    moreover have "replace_scan old new (?xs @ ys) = c # replace_scan old new (cs @ ys)"
      by (simp only: append_Cons replace_scan.simps(2) [of old new c "cs @ ys"] if_not_P [OF np])
    moreover have "replace_scan old new ?xs = c # replace_scan old new cs"
      by (simp only: replace_scan.simps(2) [of old new c cs] if_not_P [OF False])
    ultimately show ?thesis by simp
  qed
qed

lemma replace_all_append:
  "old \<noteq> [] \<Longrightarrow> xs = [] \<or> last xs \<notin> set old \<Longrightarrow>
   replace_all (xs @ ys) old new = replace_all xs old new @ replace_all ys old new"
  by (simp add: replace_all_def replace_scan_append)

text \<open>A string that is exactly the placeholder is replaced whole.\<close>

lemma replace_all_self [simp]: "old \<noteq> [] \<Longrightarrow> replace_all old old new = new"
  by (cases old) (simp_all add: replace_all_def)

section \<open>Decimal numbers: strconv\<close>

text \<open>\<open>strconv.Itoa\<close> and the \<open>%d\<close> verb of \<open>fmt\<close> on a signed integer.\<close>

definition itoa :: "int \<Rightarrow> string" where
  "itoa i = (if i < 0 then ''-'' @ dec_of_nat (nat (- i)) else dec_of_nat (nat i))"

text \<open>
  An unsigned decimal field: a non-empty string of the digits \<open>0\<close> to \<open>9\<close>, read
  as a natural number.
\<close>

definition parse_uint :: "string \<Rightarrow> nat option" where
  "parse_uint s = (if s \<noteq> [] \<and> list_all is_digit s then Some (dec_value s) else None)"

declare parse_uint_def [model_simps] itoa_def [model_simps] replace_all_def [model_simps]

lemma parse_uint_dec_of_nat [simp]: "parse_uint (dec_of_nat n) = Some n"
  by (simp add: parse_uint_def list_all_iff dec_of_nat_digits)

lemma parse_uint_Some_digits:
  "parse_uint s = Some n \<Longrightarrow> s \<noteq> [] \<and> (\<forall>c \<in> set s. is_digit c)"
  by (simp add: parse_uint_def list_all_iff split: if_splits)

lemma itoa_nonneg [simp]: "0 \<le> i \<Longrightarrow> itoa i = dec_of_nat (nat i)"
  by (simp add: itoa_def)

lemma dot_not_digit [simp]: "\<not> is_digit CHR ''.''" "\<not> is_digit CHR ''/''"
  by (simp_all add: is_digit_def)

lemma dec_of_nat_no_dot [simp]: "CHR ''.'' \<notin> set (dec_of_nat n)" "CHR ''/'' \<notin> set (dec_of_nat n)"
  using dec_of_nat_digits dot_not_digit by blast+

end
