(* ===== verification/Version.thy ===== *)
theory Version
  imports GoStdlib
begin

text \<open>
  The version helpers both builders call: \<open>extractVersionParts\<close> reads the
  major and minor numbers of a Kubernetes version \<open>major.minor[.patch...]\<close>,
  and \<open>generateSnapChannelArgument\<close> turns them into the argument of
  \<open>snap install microk8s\<close> that selects the release track. Neither is under
  \<open>src/\<close>: both follow the contract of the specification (section 6): at least
  two dot-separated numeric components, the rest ignored; a channel that encodes
  major and minor. Numbers are Go \<open>int\<close>s (64 bits): a component beyond
  \<open>2^63 - 1\<close> is out of range and rejected, as \<open>strconv.Atoi\<close> rejects it.
\<close>

definition max_go_int :: int where
  "max_go_int = 2 ^ 63 - 1"

definition version_error :: "string \<Rightarrow> error" where
  "version_error v = VersionFormatError (''failed to parse version from: '' @ v)"

definition go_int_of :: "string \<Rightarrow> int option" where
  "go_int_of s =
     (case parse_uint s of
        Some n \<Rightarrow> if int n \<le> max_go_int then Some (int n) else None
      | None \<Rightarrow> None)"

definition extractVersionParts :: "string \<Rightarrow> error + (int \<times> int)" where
  "extractVersionParts version =
     (case split_on CHR ''.'' version of
        major # minor # _ \<Rightarrow>
          (case (go_int_of major, go_int_of minor) of
             (Some a, Some b) \<Rightarrow> Inr (a, b)
           | _ \<Rightarrow> Inl (version_error version))
      | _ \<Rightarrow> Inl (version_error version))"

definition generateSnapChannelArgument :: "int \<Rightarrow> int \<Rightarrow> string" where
  "generateSnapChannelArgument major minor =
     ''--channel='' @ itoa major @ ''.'' @ itoa minor @ ''/stable''"

text \<open>
  The track of a channel argument: the text between \<open>--channel=\<close> and
  \<open>/stable\<close>. A reading function of the specification, used to state what
  the channel encodes.
\<close>

definition channel_track :: "string \<Rightarrow> string option" where
  "channel_track s =
     (if prefix ''--channel='' s \<and> suffix ''/stable'' s \<and> 17 \<le> length s
      then Some (take (length s - 17) (drop 10 s)) else None)"

section \<open>Lemmas\<close>

declare max_go_int_def [model_simps] version_error_def [model_simps] go_int_of_def [model_simps]
  extractVersionParts_def [model_simps] generateSnapChannelArgument_def [model_simps]

lemma go_int_of_dec [simp]: "int n \<le> max_go_int \<Longrightarrow> go_int_of (dec_of_nat n) = Some (int n)"
  by (simp add: go_int_of_def)

lemma go_int_of_Some: "go_int_of s = Some i \<Longrightarrow> 0 \<le> i \<and> i \<le> max_go_int"
  by (auto simp: go_int_of_def split: option.splits if_splits)

lemma extractVersionParts_Inr:
  "extractVersionParts v = Inr (a, b) \<Longrightarrow>
   \<exists>ma mi rest. split_on CHR ''.'' v = ma # mi # rest \<and> go_int_of ma = Some a \<and> go_int_of mi = Some b"
  by (auto simp: extractVersionParts_def split: list.splits option.splits)

lemma extractVersionParts_Inl:
  "extractVersionParts v = Inl e \<Longrightarrow> e = version_error v"
  by (auto simp: extractVersionParts_def split: list.splits option.splits)

lemma extractVersionParts_nonneg:
  "extractVersionParts v = Inr (a, b) \<Longrightarrow> 0 \<le> a \<and> 0 \<le> b \<and> a \<le> max_go_int \<and> b \<le> max_go_int"
  by (auto dest!: extractVersionParts_Inr go_int_of_Some)

lemma split_on_version:
  "split_on CHR ''.'' (dec_of_nat a @ CHR ''.'' # dec_of_nat b @ rest) =
   dec_of_nat a # split_on CHR ''.'' (dec_of_nat b @ rest)"
  using split_on_append_sep [of "CHR ''.''" "dec_of_nat a" "dec_of_nat b @ rest"] by simp

lemma split_on_dec_rest:
  assumes "rest = [] \<or> hd rest = CHR ''.''"
  shows "\<exists>fs. split_on CHR ''.'' (dec_of_nat b @ rest) = dec_of_nat b # fs"
proof (cases rest)
  case Nil
  then show ?thesis by (simp add: split_on_no_sep)
next
  case (Cons c cs)
  with assms have "rest = CHR ''.'' # cs" by simp
  then show ?thesis by (simp add: split_on_append_sep)
qed

lemma channel_track_append:
  "channel_track (''--channel='' @ t @ ''/stable'') = Some t"
proof -
  have "suffix ''/stable'' (''--channel='' @ t @ ''/stable'')"
    by (rule suffixI [where zs = "''--channel='' @ t"]) simp
  then show ?thesis by (simp add: channel_track_def)
qed

lemma itoa_dec_nat [simp]: "itoa (int n) = dec_of_nat n"
  by simp

text \<open>Printing two numbers as \<open>a.b\<close>, with any further \<open>.\<close>-led text, and parsing give them back.\<close>

lemma extractVersionParts_roundtrip:
  assumes "int a \<le> max_go_int" and "int b \<le> max_go_int"
    and "rest = [] \<or> hd rest = CHR ''.''"
  shows "extractVersionParts (dec_of_nat a @ ''.'' @ dec_of_nat b @ rest) = Inr (int a, int b)"
proof -
  obtain fs where "split_on CHR ''.'' (dec_of_nat b @ rest) = dec_of_nat b # fs"
    using split_on_dec_rest [OF assms(3)] by blast
  with assms(1,2) show ?thesis
    by (simp add: extractVersionParts_def split_on_version)
qed

text \<open>The track of the channel argument parses back to the major and minor numbers.\<close>

lemma channel_roundtrip:
  assumes "0 \<le> a" and "a \<le> max_go_int" and "0 \<le> b" and "b \<le> max_go_int"
  shows "map_option extractVersionParts (channel_track (generateSnapChannelArgument a b)) = Some (Inr (a, b))"
proof -
  have "generateSnapChannelArgument a b = ''--channel='' @ (itoa a @ ''.'' @ itoa b) @ ''/stable''"
    by (simp add: generateSnapChannelArgument_def)
  then have track: "channel_track (generateSnapChannelArgument a b) = Some (itoa a @ ''.'' @ itoa b)"
    by (simp only: channel_track_append)
  have "extractVersionParts (dec_of_nat (nat a) @ ''.'' @ dec_of_nat (nat b) @ []) = Inr (int (nat a), int (nat b))"
    by (rule extractVersionParts_roundtrip) (use assms in simp_all)
  with assms track show ?thesis by simp
qed

text \<open>A channel argument is not itself a version: its first field is not a number.\<close>

lemma channel_not_version: "\<exists>e. extractVersionParts (generateSnapChannelArgument a b) = Inl e"
proof -
  let ?x = "''--channel='' @ itoa a" and ?y = "itoa b @ ''/stable''"
  have nodot: "CHR ''.'' \<notin> set ?x" by (simp add: itoa_def)
  have g: "generateSnapChannelArgument a b = ?x @ CHR ''.'' # ?y"
    by (simp add: generateSnapChannelArgument_def)
  obtain f fs where y: "split_on CHR ''.'' ?y = f # fs"
    using split_on_not_Nil by (metis list.exhaust)
  have sp: "split_on CHR ''.'' (generateSnapChannelArgument a b) = ?x # f # fs"
    by (simp only: g split_on_append_sep [OF nodot] y)
  have "go_int_of ?x = None"
    by (simp add: go_int_of_def parse_uint_def is_digit_def)
  with sp show ?thesis by (simp add: extractVersionParts_def)
qed

end
