(* ===== verification/NetIP.thy ===== *)
theory NetIP
  imports GoStdlib
begin

text \<open>
  \<open>net.ParseIP\<close> of Go's standard library, which both builders call to decide
  whether the control-plane endpoint is an IP literal. Since Go 1.22 it delegates
  to \<open>net/netip.ParseAddr\<close> and returns \<open>nil\<close> for an address with a zone:
  the first \<open>.\<close>, \<open>:\<close> or \<open>%\<close> of the string selects the IPv4 parser, the IPv6
  parser or a failure. An IPv4 result is returned in its 16-byte form
  (\<open>::ffff:a.b.c.d\<close>). The loops of \<open>parseIPv4Fields\<close> and \<open>parseIPv6\<close> are
  recursive functions over the remaining input, with the loop variables as
  arguments; a parse error is \<open>None\<close>, as \<open>ParseIP\<close> discards its message.
\<close>

section \<open>IPv4: netip.parseIPv4Fields\<close>

text \<open>
  The loop keeps the value of the current octet, the number of octets finished,
  the number of digits of the current octet and the byte before the current one
  (\<open>None\<close> at the start). It rejects a leading zero, an octet above 255, an
  empty octet, a fifth octet and any other byte.
\<close>

fun ipv4_loop :: "nat \<Rightarrow> nat \<Rightarrow> nat \<Rightarrow> byte list \<Rightarrow> char option \<Rightarrow> string \<Rightarrow> byte list option" where
  "ipv4_loop val pos dl fs prev [] =
     (if pos < 3 then None else Some (fs @ [of_nat val]))"
| "ipv4_loop val pos dl fs prev (c # cs) =
     (if is_digit c then
        (if dl = 1 \<and> val = 0 then None
         else let val' = val * 10 + digit_val c in
              if 255 < val' then None else ipv4_loop val' pos (Suc dl) fs (Some c) cs)
      else if c = CHR ''.'' then
        (if prev = None \<or> cs = [] \<or> prev = Some CHR ''.'' then None
         else if pos = 3 then None
         else ipv4_loop 0 (Suc pos) 0 (fs @ [of_nat val]) (Some c) cs)
      else None)"

definition parseIPv4 :: "string \<Rightarrow> byte list option" where
  "parseIPv4 s = ipv4_loop 0 0 0 [] None s"

section \<open>IPv6: netip.parseIPv6\<close>

definition hex_val :: "char \<Rightarrow> nat option" where
  "hex_val c =
     (let n = of_char c :: nat in
      if 48 \<le> n \<and> n \<le> 57 then Some (n - 48)
      else if 97 \<le> n \<and> n \<le> 102 then Some (n - 87)
      else if 65 \<le> n \<and> n \<le> 70 then Some (n - 55)
      else None)"

text \<open>
  The inner loop over one group: hex digits accumulate into \<open>acc\<close>; a fifth
  digit or a value above \<open>0xFFFF\<close> is an error. The result is the value, the
  number of digits and the rest of the input.
\<close>

fun hex_group :: "nat \<Rightarrow> nat \<Rightarrow> string \<Rightarrow> (nat \<times> nat \<times> string) option" where
  "hex_group acc off [] = Some (acc, off, [])"
| "hex_group acc off (c # cs) =
     (case hex_val c of
        None \<Rightarrow> Some (acc, off, c # cs)
      | Some d \<Rightarrow>
          let acc' = acc * 16 + d in
          if 3 < off then None
          else if 65535 < acc' then None
          else hex_group acc' (Suc off) cs)"

lemma hex_group_rest:
  "hex_group acc off s = Some (v, n, r) \<Longrightarrow> length r + (n - off) = length s \<and> off \<le> n"
  by (induction acc off s rule: hex_group.induct)
     (fastforce split: option.splits if_splits simp: Let_def)+

text \<open>
  The outer loop: \<open>ip\<close> holds the bytes written so far (\<open>i\<close> is its length),
  \<open>ell\<close> the position of the \<open>::\<close> if one was seen. A group followed by a dot
  starts the embedded IPv4 address, which must fill the last four bytes. The loop
  returns the bytes, the ellipsis and the input it did not consume.
\<close>

function ipv6_loop ::
  "nat option \<Rightarrow> byte list \<Rightarrow> string \<Rightarrow> (byte list \<times> nat option \<times> string) option" where
  "ipv6_loop ell ip s =
     (if 16 \<le> length ip then Some (ip, ell, s)
      else case hex_group 0 0 s of
        None \<Rightarrow> None
      | Some (acc, off, rest) \<Rightarrow>
          if off = 0 then None
          else if rest \<noteq> [] \<and> hd rest = CHR ''.'' then
            (if ell = None \<and> length ip \<noteq> 12 then None
             else if 16 < length ip + 4 then None
             else case parseIPv4 s of
                    None \<Rightarrow> None
                  | Some f \<Rightarrow> Some (ip @ f, ell, []))
          else
            let ip' = ip @ [of_nat (acc div 256), of_nat (acc mod 256)] in
            if rest = [] then Some (ip', ell, [])
            else if hd rest \<noteq> CHR '':'' then None
            else if tl rest = [] then None
            else if hd (tl rest) = CHR '':'' then
              (if ell \<noteq> None then None
               else if tl (tl rest) = [] then Some (ip', Some (length ip'), [])
               else ipv6_loop (Some (length ip')) ip' (tl (tl rest)))
            else ipv6_loop ell ip' (tl rest))"
  by pat_completeness auto
termination
  by (relation "measure (\<lambda>(ell, ip, s). length s)")
     (auto dest!: hex_group_rest [of 0 0])

declare ipv6_loop.simps [simp del]

definition parseIPv6 :: "string \<Rightarrow> byte list option" where
  "parseIPv6 s0 =
     (let (ell0, s) = (if take 2 s0 = ''::'' then (Some 0, drop 2 s0) else (None, s0)) in
      if ell0 = Some 0 \<and> s = [] then Some (replicate 16 0)
      else case ipv6_loop ell0 [] s of
        None \<Rightarrow> None
      | Some (ip, ell, rest) \<Rightarrow>
          if rest \<noteq> [] then None
          else if length ip < 16 then
            (case ell of
               None \<Rightarrow> None
             | Some e \<Rightarrow> Some (take e ip @ replicate (16 - length ip) 0 @ drop e ip))
          else if ell \<noteq> None then None
          else Some ip)"

section \<open>net.ParseIP\<close>

text \<open>The byte of the string that decides the address family.\<close>

fun addr_kind :: "string \<Rightarrow> char option" where
  "addr_kind [] = None"
| "addr_kind (c # cs) =
     (if c = CHR ''.'' \<or> c = CHR '':'' \<or> c = CHR ''%'' then Some c else addr_kind cs)"

definition v4InV6Prefix :: "byte list" where
  "v4InV6Prefix = replicate 10 0 @ [255, 255]"

definition ParseIP :: "string \<Rightarrow> byte list option" where
  "ParseIP s =
     (case addr_kind s of
        Some c \<Rightarrow>
          if c = CHR ''.'' then map_option (\<lambda>f. v4InV6Prefix @ f) (parseIPv4 s)
          else if c = CHR '':'' then (if CHR ''%'' \<in> set s then None else parseIPv6 s)
          else None
      | None \<Rightarrow> None)"

declare parseIPv4_def [model_simps] hex_val_def [model_simps] parseIPv6_def [model_simps]
  v4InV6Prefix_def [model_simps] ParseIP_def [model_simps]

section \<open>Dotted quads\<close>

text \<open>
  The dotted-decimal text of four bytes, as \<open>net.IP.String\<close> prints an IPv4
  address: each byte in decimal without leading zeros, separated by dots. The
  IPv4 loop reads it back: every address written this way parses.
\<close>

definition dotted_quad :: "byte list \<Rightarrow> string" where
  "dotted_quad bs = join_with ''.'' (map (\<lambda>b. dec_of_nat (unat b)) bs)"

text \<open>
  The digit loop of \<open>parseIPv4Fields\<close> on the digits of a numeral without
  leading zero and of value at most 255: it accumulates the value and the digit
  count and never fails.
\<close>

lemma ipv4_loop_digits:
  assumes "list_all is_digit (p @ ds)" and "dec_value (p @ ds) \<le> 255"
    and "hd (p @ ds) = CHR ''0'' \<Longrightarrow> length (p @ ds) = 1"
  shows "ipv4_loop (dec_value p) pos (length p) fs prev (ds @ rest) =
    ipv4_loop (dec_value (p @ ds)) pos (length (p @ ds)) fs (if ds = [] then prev else Some (last ds)) rest"
  using assms
proof (induction ds arbitrary: p prev)
  case (Cons c ds)
  have dc: "is_digit c" using Cons.prems(1) by simp
  have nz: "\<not> (length p = 1 \<and> dec_value p = 0)"
  proof
    assume a: "length p = 1 \<and> dec_value p = 0"
    then obtain d where p: "p = [d]" by (cases p) auto
    with a Cons.prems(1) have "d = CHR ''0''" by (intro digit_zero) simp_all
    with p Cons.prems(3) show False by simp
  qed
  have k: "1 \<le> (10::nat) ^ length ds" by simp
  have "dec_value (p @ [c]) * 1 \<le> dec_value (p @ [c]) * 10 ^ length ds"
    by (rule mult_le_mono2 [OF k])
  then have "dec_value (p @ [c]) \<le> dec_value ((p @ [c]) @ ds)"
    by (simp only: dec_value_append [of "p @ [c]" ds])
  with Cons.prems(2) have le: "10 * dec_value p + digit_val c \<le> 255" by simp
  have ih: "ipv4_loop (dec_value (p @ [c])) pos (length (p @ [c])) fs (Some c) (ds @ rest) =
      ipv4_loop (dec_value ((p @ [c]) @ ds)) pos (length ((p @ [c]) @ ds)) fs
        (if ds = [] then Some c else Some (last ds)) rest"
    by (rule Cons.IH) (use Cons.prems in simp_all)
  show ?case using dc nz le ih by (auto simp: Let_def mult.commute)
qed simp

lemma ipv4_loop_octet:
  fixes b :: byte
  shows "ipv4_loop 0 pos 0 fs prev (dec_of_nat (unat b) @ rest) =
     ipv4_loop (unat b) pos (length (dec_of_nat (unat b))) fs (Some (last (dec_of_nat (unat b)))) rest"
proof -
  let ?d = "dec_of_nat (unat b)"
  have "unat b < 2 ^ LENGTH(8)" by (rule unsigned_less)
  moreover have "hd ?d = CHR ''0'' \<Longrightarrow> length ?d = 1"
    using dec_of_nat_hd_zero [of "unat b"] by (auto simp: dec_of_nat_unfold [of 0])
  moreover have "list_all is_digit ?d" using dec_of_nat_digits by (simp add: list_all_iff)
  ultimately show ?thesis using ipv4_loop_digits [of "[]" ?d pos fs prev rest] by simp
qed

lemma dec_of_nat_last_not_dot [simp]: "last (dec_of_nat n) \<noteq> CHR ''.''"
  using dec_of_nat_no_dot(1) [of n] last_in_set [OF dec_of_nat_not_Nil [of n]] by metis

lemma parseIPv4_dotted_quad: "length bs = 4 \<Longrightarrow> parseIPv4 (dotted_quad bs) = Some bs"
proof -
  assume "length bs = 4"
  then obtain a b c d where bs: "bs = [a, b, c, d]"
    by (auto simp: length_Suc_conv numeral_eq_Suc)
  show ?thesis
    by (simp add: bs dotted_quad_def parseIPv4_def ipv4_loop_octet ipv4_loop_octet [where rest = "[]", simplified])
qed

lemma addr_kind_digits: "list_all is_digit ds \<Longrightarrow> addr_kind (ds @ rest) = addr_kind rest"
  by (induction ds) (auto simp: is_digit_def)

lemma addr_kind_dotted_quad: "length bs = 4 \<Longrightarrow> addr_kind (dotted_quad bs @ rest) = Some CHR ''.''"
proof -
  assume len: "length bs = 4"
  then obtain a r where bs: "bs = a # r" by (cases bs) auto
  with len have "r \<noteq> []" by auto
  then have "dotted_quad bs @ rest =
      dec_of_nat (unat a) @ CHR ''.'' # join_with ''.'' (map (\<lambda>b. dec_of_nat (unat b)) r) @ rest"
    by (simp add: bs dotted_quad_def join_with_Cons)
  moreover have "list_all is_digit (dec_of_nat (unat a))"
    using dec_of_nat_digits by (simp add: list_all_iff)
  ultimately show ?thesis by (simp add: addr_kind_digits)
qed

lemma ParseIP_dotted_quad: "length bs = 4 \<Longrightarrow> ParseIP (dotted_quad bs) = Some (v4InV6Prefix @ bs)"
  using addr_kind_dotted_quad [of bs "[]"] by (simp add: ParseIP_def parseIPv4_dotted_quad)

section \<open>What net.ParseIP rejects\<close>

text \<open>
  The IPv4 loop accepts only digits and dots, and the family is chosen by a byte
  of the string; so an address \<open>net.ParseIP\<close> accepts either contains a colon
  (IPv6) or consists of digits and dots only.
\<close>

lemma ipv4_loop_chars:
  "ipv4_loop val pos dl fs prev s = Some r \<Longrightarrow> list_all (\<lambda>c. is_digit c \<or> c = CHR ''.'') s"
  by (induction val pos dl fs prev s rule: ipv4_loop.induct) (auto simp: Let_def split: if_splits)

lemma addr_kind_Some: "addr_kind s = Some c \<Longrightarrow> c \<in> set s \<and> (c = CHR ''.'' \<or> c = CHR '':'' \<or> c = CHR ''%'')"
  by (induction s) (auto split: if_splits)

lemma ParseIP_chars:
  assumes "ParseIP s \<noteq> None"
  shows "CHR '':'' \<in> set s \<or> list_all (\<lambda>c. is_digit c \<or> c = CHR ''.'') s"
proof (cases "addr_kind s")
  case (Some c)
  then have "c \<in> set s" by (rule addr_kind_Some [THEN conjunct1])
  with Some assms show ?thesis
    by (auto simp: ParseIP_def parseIPv4_def split: if_splits dest: ipv4_loop_chars)
qed (use assms in \<open>simp add: ParseIP_def\<close>)

lemma ParseIP_dotted_quad_port: "length bs = 4 \<Longrightarrow> ParseIP (dotted_quad bs @ CHR '':'' # port) = None"
proof -
  assume len: "length bs = 4"
  have "parseIPv4 (dotted_quad bs @ CHR '':'' # port) = None"
  proof (rule ccontr)
    assume "parseIPv4 (dotted_quad bs @ CHR '':'' # port) \<noteq> None"
    then obtain r where "ipv4_loop 0 0 0 [] None (dotted_quad bs @ CHR '':'' # port) = Some r"
      by (auto simp: parseIPv4_def)
    from ipv4_loop_chars [OF this] show False by (simp add: is_digit_def)
  qed
  then show ?thesis by (simp add: ParseIP_def addr_kind_dotted_quad [OF len])
qed

end
