(* ===== verification/Template.thy ===== *)
theory Template
  imports GoStdlib
begin

text \<open>
  The template renderer the builders hand their parameters to: \<open>generate\<close> of
  the package, which parses a template with Go's \<open>text/template\<close> and executes
  it on the input struct. Not under \<open>src/\<close>; the model follows the renderer
  contract of the specification (section 6): \<open>{{.Field}}\<close> interpolation and the
  \<open>Indent\<close> helper, \<open>{{.Field | Indent n}}\<close>, on the fields of the struct.
  Other actions are outside the modelled subset and reported as parse errors; the
  two templates of the builders use none.

  The struct is seen through its fields, an association list from field names to
  values, in declaration order with the promoted fields of embedded structs.
\<close>

section \<open>Values and the Indent helper\<close>

datatype tval = VStr string | VInt int | VBool bool | VStrs "string list option"
  | VStructs "string list list"

text \<open>
  How \<open>text/template\<close> prints a value (\<open>fmt.Fprint\<close>): a nil slice is
  \<open>[]\<close>; a slice of structs of string fields, such as a list of file
  directives, is \<open>[{f1 f2 ..} {..}]\<close>, each struct's fields in declaration order.
\<close>

fun fmt_value :: "tval \<Rightarrow> string" where
  "fmt_value (VStr s) = s"
| "fmt_value (VInt i) = itoa i"
| "fmt_value (VBool b) = (if b then ''true'' else ''false'')"
| "fmt_value (VStrs None) = ''[]''"
| "fmt_value (VStrs (Some xs)) = ''['' @ join_with '' '' xs @ '']''"
| "fmt_value (VStructs xss) = ''['' @ join_with '' '' (map (\<lambda>fs. ''{'' @ join_with '' '' fs @ ''}'') xss) @ '']''"

type_synonym fields = "(string \<times> tval) list"

text \<open>
  \<open>Indent\<close> (\<open>templateYAMLIndent\<close>): the input split at newlines, each line
  preceded by \<open>i\<close> spaces.
\<close>

definition Indent :: "nat \<Rightarrow> string \<Rightarrow> string" where
  "Indent i input =
     replicate i CHR '' '' @ join_with (CHR ''\<newline>'' # replicate i CHR '' '') (split_on CHR ''\<newline>'' input)"

section \<open>Parsing\<close>

datatype tnode = TText char | TField string | TIndent nat string

text \<open>The text of an action runs to the first \<open>}}\<close>.\<close>

fun scan_action :: "string \<Rightarrow> (string \<times> string) option" where
  "scan_action [] = None"
| "scan_action [c] = None"
| "scan_action (c # d # rest) =
     (if c = CHR ''}'' \<and> d = CHR ''}'' then Some ([], rest)
      else map_option (\<lambda>(a, r). (c # a, r)) (scan_action (d # rest)))"

lemma scan_action_length: "scan_action s = Some (a, r) \<Longrightarrow> length r < length s"
  by (induction s arbitrary: a rule: scan_action.induct) (auto split: if_splits)

lemma scan_action_append: "scan_action s = Some (a, r) \<Longrightarrow> scan_action (s @ t) = Some (a, r @ t)"
proof (induction s arbitrary: a rule: scan_action.induct)
  case (3 c d rest)
  then show ?case
    by (cases "c = CHR ''}'' \<and> d = CHR ''}''") (auto split: option.splits)
qed simp_all

definition ident_char :: "char \<Rightarrow> bool" where
  "ident_char c \<longleftrightarrow> is_digit c \<or> c = CHR ''_'' \<or>
     (let n = of_char c :: nat in (65 \<le> n \<and> n \<le> 90) \<or> (97 \<le> n \<and> n \<le> 122))"

definition words :: "string \<Rightarrow> string list" where
  "words s = filter (\<lambda>w. w \<noteq> []) (split_on CHR '' '' s)"

definition field_ref :: "string \<Rightarrow> string option" where
  "field_ref w =
     (case w of
        c # n \<Rightarrow> if c = CHR ''.'' \<and> n \<noteq> [] \<and> list_all ident_char n then Some n else None
      | [] \<Rightarrow> None)"

text \<open>An action: a field, or a field piped into \<open>Indent\<close> with a constant.\<close>

definition parse_action :: "string \<Rightarrow> tnode option" where
  "parse_action a =
     (case map words (split_on CHR ''|'' a) of
        [[f]] \<Rightarrow> map_option TField (field_ref f)
      | [[f], [fn, k]] \<Rightarrow>
          if fn = ''Indent'' then
            (case (field_ref f, parse_uint k) of
               (Some n, Some i) \<Rightarrow> Some (TIndent i n)
             | _ \<Rightarrow> None)
          else None
      | _ \<Rightarrow> None)"

text \<open>A template is a sequence of bytes of text and actions in \<open>{{ }}\<close>.\<close>

function parse_tpl :: "string \<Rightarrow> string + tnode list" where
  "parse_tpl [] = Inr []"
| "parse_tpl (c # cs) =
     (if c = CHR ''{'' \<and> cs \<noteq> [] \<and> hd cs = CHR ''{'' then
        (case scan_action (tl cs) of
           None \<Rightarrow> Inl ''unclosed action''
         | Some (a, rest) \<Rightarrow>
             (case parse_action a of
                None \<Rightarrow> Inl (''unsupported action: '' @ a)
              | Some n \<Rightarrow>
                  (case parse_tpl rest of Inl e \<Rightarrow> Inl e | Inr ns \<Rightarrow> Inr (n # ns))))
      else (case parse_tpl cs of Inl e \<Rightarrow> Inl e | Inr ns \<Rightarrow> Inr (TText c # ns)))"
  by pat_completeness auto
termination
  by (relation "measure length") (auto dest!: scan_action_length)

section \<open>Execution\<close>

fun exec_node :: "fields \<Rightarrow> tnode \<Rightarrow> string + string" where
  "exec_node env (TText c) = Inr [c]"
| "exec_node env (TField f) =
     (case map_of env f of
        None \<Rightarrow> Inl (''can't evaluate field '' @ f)
      | Some v \<Rightarrow> Inr (fmt_value v))"
| "exec_node env (TIndent i f) =
     (case map_of env f of
        None \<Rightarrow> Inl (''can't evaluate field '' @ f)
      | Some (VStr s) \<Rightarrow> Inr (Indent i s)
      | Some _ \<Rightarrow> Inl ''wrong type for value; expected string'')"

fun exec_nodes :: "fields \<Rightarrow> tnode list \<Rightarrow> string + string" where
  "exec_nodes env [] = Inr []"
| "exec_nodes env (n # ns) =
     (case exec_node env n of
        Inl e \<Rightarrow> Inl e
      | Inr s \<Rightarrow> (case exec_nodes env ns of Inl e \<Rightarrow> Inl e | Inr t \<Rightarrow> Inr (s @ t)))"

text \<open>
  \<open>generate(kind, tpl, data)\<close>: a parse error or an execution error is wrapped
  with the template's kind by \<open>errors.Wrapf\<close>; the rendered bytes otherwise.
\<close>

definition generate :: "string \<Rightarrow> string \<Rightarrow> fields \<Rightarrow> error + bytes" where
  "generate kind tpl env =
     (case parse_tpl tpl of
        Inl e \<Rightarrow> Inl (wrapf (RenderError e) (''failed to parse '' @ kind @ '' template''))
      | Inr ns \<Rightarrow>
          (case exec_nodes env ns of
             Inl e \<Rightarrow> Inl (wrapf (RenderError e) (''failed to generate '' @ kind @ '' template''))
           | Inr out \<Rightarrow> Inr out))"

section \<open>Rendering piece by piece\<close>

text \<open>
  A template is rendered line by line: parsing distributes over a concatenation
  whose left part parsed and does not end with \<open>{\<close>, text without \<open>{\<close> is
  copied, and execution distributes over the node list.
\<close>

lemma scan_action_Some: "scan_action s = Some (a, r) \<Longrightarrow> s = a @ ''}}'' @ r"
  by (induction s arbitrary: a rule: scan_action.induct) (auto split: if_splits)

lemma parse_tpl_action:
  assumes "c = CHR ''{'' \<and> cs \<noteq> [] \<and> hd cs = CHR ''{''" and "parse_tpl (c # cs) = Inr ns"
  obtains a rest n ns' where "scan_action (tl cs) = Some (a, rest)" "parse_action a = Some n"
    "parse_tpl rest = Inr ns'" "ns = n # ns'"
proof -
  have eq: "parse_tpl (c # cs) =
     (case scan_action (tl cs) of
        None \<Rightarrow> Inl ''unclosed action''
      | Some (a, rest) \<Rightarrow>
          (case parse_action a of
             None \<Rightarrow> Inl (''unsupported action: '' @ a)
           | Some n \<Rightarrow> (case parse_tpl rest of Inl e \<Rightarrow> Inl e | Inr ns \<Rightarrow> Inr (n # ns))))"
    by (simp only: parse_tpl.simps(2) [of c cs] if_P [OF assms(1)])
  show ?thesis
  proof (cases "scan_action (tl cs)")
    case None
    with assms(2) eq show ?thesis by simp
  next
    case (Some p)
    obtain a rest where p: "p = (a, rest)" by (cases p)
    show ?thesis
    proof (cases "parse_action a")
      case None
      with assms(2) eq Some p show ?thesis by simp
    next
      case (Some n)
      show ?thesis
      proof (cases "parse_tpl rest")
        case (Inl e)
        with assms(2) eq \<open>scan_action (tl cs) = Some p\<close> p Some show ?thesis by simp
      next
        case (Inr ns')
        with assms(2) eq \<open>scan_action (tl cs) = Some p\<close> p Some that show ?thesis by simp
      qed
    qed
  qed
qed

lemma parse_tpl_append:
  assumes "parse_tpl xs = Inr ns" and "xs = [] \<or> last xs \<noteq> CHR ''{''"
  shows "parse_tpl (xs @ ys) = (case parse_tpl ys of Inl e \<Rightarrow> Inl e | Inr ms \<Rightarrow> Inr (ns @ ms))"
  using assms
proof (induction xs arbitrary: ns rule: parse_tpl.induct)
  case 1
  then show ?case by (simp split: sum.splits)
next
  case (2 c cs)
  show ?case
  proof (cases "c = CHR ''{'' \<and> cs \<noteq> [] \<and> hd cs = CHR ''{''")
    case True
    from True "2.prems"(1) obtain a rest n ns' where
      sc: "scan_action (tl cs) = Some (a, rest)" and pa: "parse_action a = Some n"
      and pr: "parse_tpl rest = Inr ns'" and ns: "ns = n # ns'"
      by (rule parse_tpl_action)
    have last: "rest = [] \<or> last rest \<noteq> CHR ''{''"
    proof (cases "rest = []")
      case False
      from sc have "tl cs = a @ ''}}'' @ rest" by (rule scan_action_Some)
      with True have "c # cs = (c # hd cs # a @ ''}}'') @ rest" by (cases cs) simp_all
      then have "last (c # cs) = last ((c # hd cs # a @ ''}}'') @ rest)" by (rule arg_cong)
      also have "\<dots> = last rest" by (rule last_appendR [OF False])
      finally show ?thesis using "2.prems"(2) by simp
    qed simp
    have sc': "scan_action (tl (cs @ ys)) = Some (a, rest @ ys)"
      using True sc scan_action_append by simp
    have ih: "parse_tpl (rest @ ys) = (case parse_tpl ys of Inl e \<Rightarrow> Inl e | Inr ms \<Rightarrow> Inr (ns' @ ms))"
      by (rule "2.IH"(1) [OF True sc refl pa pr last])
    have True': "c = CHR ''{'' \<and> cs @ ys \<noteq> [] \<and> hd (cs @ ys) = CHR ''{''" using True by simp
    have "parse_tpl ((c # cs) @ ys) =
       (case parse_tpl (rest @ ys) of Inl e \<Rightarrow> Inl e | Inr ns \<Rightarrow> Inr (n # ns))"
      by (simp only: append_Cons parse_tpl.simps(2) [of c "cs @ ys"] if_P [OF True'] sc' pa
          option.case prod.case)
    with ih ns show ?thesis by (simp split: sum.splits)
  next
    case False
    have eq: "parse_tpl (c # cs) = (case parse_tpl cs of Inl e \<Rightarrow> Inl e | Inr ns \<Rightarrow> Inr (TText c # ns))"
      by (simp only: parse_tpl.simps(2) [of c cs] if_not_P [OF False])
    with "2.prems"(1) obtain ns' where pr: "parse_tpl cs = Inr ns'" and ns: "ns = TText c # ns'"
      by (cases "parse_tpl cs") simp_all
    have last: "cs = [] \<or> last cs \<noteq> CHR ''{''" using "2.prems"(2) by (cases cs) simp_all
    have nb: "\<not> (c = CHR ''{'' \<and> cs @ ys \<noteq> [] \<and> hd (cs @ ys) = CHR ''{'')"
      using False "2.prems"(2) by (cases cs) auto
    have ih: "parse_tpl (cs @ ys) = (case parse_tpl ys of Inl e \<Rightarrow> Inl e | Inr ms \<Rightarrow> Inr (ns' @ ms))"
      by (rule "2.IH"(2) [OF False pr last])
    have "parse_tpl ((c # cs) @ ys) =
       (case parse_tpl (cs @ ys) of Inl e \<Rightarrow> Inl e | Inr ns \<Rightarrow> Inr (TText c # ns))"
      by (simp only: append_Cons parse_tpl.simps(2) [of c "cs @ ys"] if_not_P [OF nb])
    with ih ns show ?thesis by (simp split: sum.splits)
  qed
qed

lemma parse_tpl_text: "CHR ''{'' \<notin> set s \<Longrightarrow> parse_tpl s = Inr (map TText s)"
  by (induction s) auto

lemma exec_nodes_append:
  "exec_nodes env (ns @ ms) =
     (case exec_nodes env ns of
        Inl e \<Rightarrow> Inl e
      | Inr s \<Rightarrow> (case exec_nodes env ms of Inl e \<Rightarrow> Inl e | Inr t \<Rightarrow> Inr (s @ t)))"
  by (induction ns) (auto split: sum.splits)

lemma exec_nodes_text [simp]: "exec_nodes env (map TText s) = Inr s"
  by (induction s) simp_all

text \<open>\<open>Indent\<close> as one pass over the bytes: each newline gains the indentation.\<close>

lemma Indent_bytes:
  "Indent i s = replicate i CHR '' '' @
     concat (map (\<lambda>c. if c = CHR ''\<newline>'' then CHR ''\<newline>'' # replicate i CHR '' '' else [c]) s)"
  by (simp add: Indent_def join_split_on_map)

section \<open>Printing a template\<close>

text \<open>
  The inverse of \<open>parse_tpl\<close> on the nodes it produces: a node printed as the
  bytes it was read from. Text bytes other than \<open>{\<close> and field names of
  identifier bytes print to templates that parse back to the same nodes, so a
  template literal is shown to render as it does by writing it as printed nodes.
\<close>

fun print_node :: "tnode \<Rightarrow> string" where
  "print_node (TText c) = [c]"
| "print_node (TField f) = ''{{.'' @ f @ ''}}''"
| "print_node (TIndent i f) = ''{{.'' @ f @ '' | Indent '' @ dec_of_nat i @ ''}}''"

definition print_tpl :: "tnode list \<Rightarrow> string" where
  "print_tpl ns = concat (map print_node ns)"

text \<open>A run of text as nodes, one per byte, as \<open>parse_tpl\<close> reads it.\<close>

definition lit :: "string \<Rightarrow> tnode list" where
  "lit s = map TText s"

definition field_name :: "string \<Rightarrow> bool" where
  "field_name f \<longleftrightarrow> f \<noteq> [] \<and> list_all ident_char f"

fun wf_node :: "tnode \<Rightarrow> bool" where
  "wf_node (TText c) = (c \<noteq> CHR ''{'')"
| "wf_node (TField f) = field_name f"
| "wf_node (TIndent i f) = field_name f"

lemma scan_action_close: "CHR ''}'' \<notin> set a \<Longrightarrow> scan_action (a @ ''}}'' @ r) = Some (a, r)"
proof (induction a)
  case (Cons c a)
  obtain d rest where "a @ ''}}'' @ r = d # rest" by (cases a) auto
  with Cons show ?case by auto
qed simp

lemma ident_char_not [simp]:
  "\<not> ident_char CHR ''}''" "\<not> ident_char CHR ''|''" "\<not> ident_char CHR '' ''" "\<not> ident_char CHR ''.''"
  by (simp_all add: ident_char_def is_digit_def)

lemma field_name_not_in:
  assumes "field_name f" and "\<not> ident_char c"
  shows "c \<notin> set f"
  using assms by (auto simp: field_name_def list_all_iff)

lemma field_ref_dot [simp]: "field_name f \<Longrightarrow> field_ref (CHR ''.'' # f) = Some f"
  by (simp add: field_ref_def field_name_def)

lemma parse_action_field:
  assumes "field_name f"
  shows "parse_action (CHR ''.'' # f) = Some (TField f)"
proof -
  have "CHR ''|'' \<notin> set (CHR ''.'' # f)" "CHR '' '' \<notin> set (CHR ''.'' # f)"
    using field_name_not_in [OF assms] by simp_all
  then show ?thesis using assms by (simp add: parse_action_def words_def split_on_no_sep)
qed

lemma parse_action_indent:
  assumes "field_name f"
  shows "parse_action (CHR ''.'' # f @ '' | Indent '' @ dec_of_nat i) = Some (TIndent i f)"
proof -
  have bar: "CHR ''|'' \<notin> set (CHR ''.'' # f @ '' '')" and sp: "CHR '' '' \<notin> set (CHR ''.'' # f)"
    using field_name_not_in [OF assms] by simp_all
  have dbar: "CHR ''|'' \<notin> set (dec_of_nat i)" and dsp: "CHR '' '' \<notin> set (dec_of_nat i)"
    using dec_of_nat_digits by (fastforce simp: is_digit_def)+
  have "split_on CHR ''|'' (CHR ''.'' # f @ '' | Indent '' @ dec_of_nat i) =
     [CHR ''.'' # f @ '' '', '' Indent '' @ dec_of_nat i]"
    using split_on_append_sep [OF bar, of "'' Indent '' @ dec_of_nat i"] dbar
    by (simp add: split_on_no_sep)
  moreover have "words (CHR ''.'' # f @ '' '') = [CHR ''.'' # f]"
    using split_on_append_sep [OF sp, of "[]"] by (simp add: words_def)
  moreover have "words ('' Indent '' @ dec_of_nat i) = [''Indent'', dec_of_nat i]"
    using split_on_append_sep [of "CHR '' ''" "[]"] split_on_append_sep [of "CHR '' ''" "''Indent''"] dsp
    by (simp add: words_def split_on_no_sep)
  ultimately show ?thesis using assms by (simp add: parse_action_def)
qed

lemma parse_print_tpl: "list_all wf_node ns \<Longrightarrow> parse_tpl (print_tpl ns) = Inr ns"
proof (induction ns)
  case Nil
  then show ?case by (simp add: print_tpl_def)
next
  case (Cons n ns)
  then have ih: "parse_tpl (print_tpl ns) = Inr ns" and wf: "wf_node n" by simp_all
  show ?case
  proof (cases n)
    case (TText c)
    with wf ih show ?thesis by (simp add: print_tpl_def)
  next
    case (TField f)
    with wf have "CHR ''}'' \<notin> set (CHR ''.'' # f)" using field_name_not_in by simp
    then have "scan_action ((CHR ''.'' # f) @ ''}}'' @ print_tpl ns) = Some (CHR ''.'' # f, print_tpl ns)"
      by (rule scan_action_close)
    with TField wf ih parse_action_field [of f] show ?thesis
      by (simp add: print_tpl_def)
  next
    case (TIndent i f)
    have "CHR ''}'' \<notin> set (CHR ''.'' # f @ '' | Indent '' @ dec_of_nat i)"
      using TIndent wf field_name_not_in [of f] dec_of_nat_digits [of _ i] by (fastforce simp: is_digit_def)
    then have "scan_action ((CHR ''.'' # f @ '' | Indent '' @ dec_of_nat i) @ ''}}'' @ print_tpl ns) =
       Some (CHR ''.'' # f @ '' | Indent '' @ dec_of_nat i, print_tpl ns)"
      by (rule scan_action_close)
    with TIndent wf ih parse_action_indent [of f i] show ?thesis
      by (simp add: print_tpl_def)
  qed
qed


lemma print_tpl_append [simp]: "print_tpl (ns @ ms) = print_tpl ns @ print_tpl ms"
  by (simp add: print_tpl_def)

lemma print_tpl_simps [simp]:
  "print_tpl [] = []" "print_tpl (n # ns) = print_node n @ print_tpl ns"
  by (simp_all add: print_tpl_def)

lemma print_tpl_lit [simp]: "print_tpl (lit s) = s"
  by (induction s) (simp_all add: lit_def)

lemma lit_append [simp]: "lit (s @ t) = lit s @ lit t"
  by (simp add: lit_def)

lemma wf_lit [simp]: "list_all wf_node (lit s) \<longleftrightarrow> CHR ''{'' \<notin> set s"
  by (induction s) (auto simp: lit_def)

lemma exec_nodes_lit [simp]: "exec_nodes env (lit s) = Inr s"
  by (simp add: lit_def)

lemma exec_nodes_lit_append [simp]:
  "exec_nodes env (lit s @ ns) = (case exec_nodes env ns of Inl e \<Rightarrow> Inl e | Inr t \<Rightarrow> Inr (s @ t))"
  by (simp add: exec_nodes_append)

lemma exec_nodes_Cons_Inr:
  "exec_node env n = Inr s \<Longrightarrow>
   exec_nodes env (n # ns) = (case exec_nodes env ns of Inl e \<Rightarrow> Inl e | Inr t \<Rightarrow> Inr (s @ t))"
  by simp

text \<open>
  A template printed from well-formed nodes renders as its nodes execute; a parse
  error cannot happen.
\<close>

lemma generate_print_tpl:
  "list_all wf_node ns \<Longrightarrow>
   generate kind (print_tpl ns) env =
     (case exec_nodes env ns of
        Inl e \<Rightarrow> Inl (wrapf (RenderError e) (''failed to generate '' @ kind @ '' template''))
      | Inr out \<Rightarrow> Inr out)"
  by (simp add: generate_def parse_print_tpl)

text \<open>
  \<open>strings.Replace\<close> of a placeholder \<open>{{.f}}\<close> over a printed template replaces
  exactly the nodes of that field: no other action or text contains it.
\<close>

definition subst_field :: "string \<Rightarrow> string \<Rightarrow> tnode list \<Rightarrow> tnode list" where
  "subst_field f new ns = concat (map (\<lambda>n. if n = TField f then lit new else [n]) ns)"

lemma subst_field_simps [simp]:
  "subst_field f new [] = []"
  "subst_field f new (n # ns) = (if n = TField f then lit new else [n]) @ subst_field f new ns"
  "subst_field f new (ns @ ms) = subst_field f new ns @ subst_field f new ms"
  by (simp_all add: subst_field_def)

lemma subst_field_lit [simp]: "subst_field f new (lit s) = lit s"
  by (induction s) (simp_all add: lit_def)

lemma ident_close_prefix:
  "list_all ident_char f \<Longrightarrow> list_all ident_char g \<Longrightarrow> \<not> ident_char c \<Longrightarrow>
   prefix (f @ CHR ''}'' # x) (g @ c # y) \<Longrightarrow> f = g \<and> c = CHR ''}''"
proof (induction f arbitrary: g)
  case Nil
  then show ?case by (cases g) auto
next
  case (Cons a f)
  then show ?case by (cases g) auto
qed

lemma replace_scan_skip:
  "hd old \<notin> set s \<Longrightarrow> old \<noteq> [] \<Longrightarrow> replace_scan old new (s @ rest) = s @ replace_scan old new rest"
proof (induction s)
  case (Cons c s)
  then have "\<not> (old \<noteq> [] \<and> prefix old (c # s @ rest))" by (cases old) auto
  with Cons show ?case by simp
qed simp

lemma replace_all_print_field:
  assumes "field_name f" and "list_all wf_node ns"
  shows "replace_all (print_tpl ns) (print_node (TField f)) new = print_tpl (subst_field f new ns)"
  using assms(2)
proof (induction ns)
  case Nil
  then show ?case by (simp add: replace_all_def)
next
  case (Cons n ns)
  let ?old = "print_node (TField f)"
  have ih: "replace_scan ?old new (print_tpl ns) = print_tpl (subst_field f new ns)"
    using Cons by (simp add: replace_all_def)
  have fi: "list_all ident_char f" using assms(1) by (simp add: field_name_def)
  have "replace_scan ?old new (print_node n @ print_tpl ns) = print_tpl (subst_field f new [n]) @ print_tpl (subst_field f new ns)"
  proof (cases n)
    case (TText c)
    with Cons.prems have "c \<noteq> CHR ''{''" by simp
    then have "replace_scan ?old new ([c] @ print_tpl ns) = [c] @ replace_scan ?old new (print_tpl ns)"
      by (intro replace_scan_skip) simp_all
    with TText ih show ?thesis by simp
  next
    case (TField g)
    with Cons.prems have gi: "list_all ident_char g" by (simp add: field_name_def)
    show ?thesis
    proof (cases "g = f")
      case True
      with TField ih show ?thesis by simp
    next
      case False
      have np: "\<not> prefix ?old (print_node n @ print_tpl ns)"
        using ident_close_prefix [OF fi gi, of "CHR ''}''" "''}''" "CHR ''}'' # print_tpl ns"] False TField
        by (auto simp: ident_char_def is_digit_def)
      have "hd ?old \<notin> set (CHR ''.'' # g @ ''}}'')"
        using gi by (auto simp: list_all_iff ident_char_def is_digit_def)
      then have "replace_scan ?old new ((CHR ''.'' # g @ ''}}'') @ print_tpl ns) =
          (CHR ''.'' # g @ ''}}'') @ replace_scan ?old new (print_tpl ns)"
        by (intro replace_scan_skip) simp_all
      with np TField False ih show ?thesis by simp
    qed
  next
    case (TIndent i g)
    with Cons.prems have gi: "list_all ident_char g" by (simp add: field_name_def)
    have np: "\<not> prefix ?old (print_node n @ print_tpl ns)"
      using ident_close_prefix [OF fi gi, of "CHR '' ''" "''}''"] TIndent
      by (auto simp: ident_char_def is_digit_def)
    have "hd ?old \<notin> set (CHR ''.'' # g @ '' | Indent '' @ dec_of_nat i @ ''}}'')"
      using gi dec_of_nat_digits [of "CHR ''{''" i] by (auto simp: list_all_iff ident_char_def is_digit_def)
    then have "replace_scan ?old new ((CHR ''.'' # g @ '' | Indent '' @ dec_of_nat i @ ''}}'') @ print_tpl ns) =
        (CHR ''.'' # g @ '' | Indent '' @ dec_of_nat i @ ''}}'') @ replace_scan ?old new (print_tpl ns)"
      by (intro replace_scan_skip) simp_all
    with np TIndent ih show ?thesis by simp
  qed
  then show ?case by (simp add: replace_all_def)
qed

lemma wf_subst_field:
  "list_all wf_node ns \<Longrightarrow> CHR ''{'' \<notin> set new \<Longrightarrow> list_all wf_node (subst_field f new ns)"
  by (induction ns) auto

text \<open>
  A replacement text that is itself a printed template splices its nodes: the
  template engine then runs the actions the replacement brought in.
\<close>

definition subst_nodes :: "string \<Rightarrow> tnode list \<Rightarrow> tnode list \<Rightarrow> tnode list" where
  "subst_nodes f ms ns = concat (map (\<lambda>n. if n = TField f then ms else [n]) ns)"

lemma subst_nodes_simps [simp]:
  "subst_nodes f ms [] = []"
  "subst_nodes f ms (n # ns) = (if n = TField f then ms else [n]) @ subst_nodes f ms ns"
  "subst_nodes f ms (ns @ ns') = subst_nodes f ms ns @ subst_nodes f ms ns'"
  by (simp_all add: subst_nodes_def)

lemma subst_nodes_lit [simp]: "subst_nodes f ms (lit s) = lit s"
  by (induction s) (simp_all add: lit_def)

lemma subst_field_nodes: "subst_field f new ns = subst_nodes f (lit new) ns"
  by (simp add: subst_field_def subst_nodes_def)

lemma print_subst_nodes: "print_tpl (subst_field f (print_tpl ms) ns) = print_tpl (subst_nodes f ms ns)"
  by (induction ns) auto

lemma wf_subst_nodes:
  "list_all wf_node ns \<Longrightarrow> list_all wf_node ms \<Longrightarrow> list_all wf_node (subst_nodes f ms ns)"
  by (induction ns) auto

lemma exec_subst_nodes:
  assumes "exec_nodes env ms = Inr s"
  shows "exec_nodes env (subst_nodes f ms ns) = exec_nodes env (subst_field f s ns)"
proof (induction ns)
  case (Cons n ns)
  show ?case
    using assms Cons.IH by (cases "n = TField f") (simp_all add: exec_nodes_append split: sum.splits)
qed simp

lemma print_tpl_last:
  "list_all wf_node ns \<Longrightarrow> print_tpl ns = [] \<or> last (print_tpl ns) \<noteq> CHR ''{''"
proof (induction ns)
  case (Cons n ns)
  then show ?case by (cases n) auto
qed simp

lemma subst_field_absent: "TField f \<notin> set ns \<Longrightarrow> subst_field f new ns = ns"
  by (induction ns) auto

end
