(* ===== verification/BaseUserData.thy ===== *)
theory BaseUserData
  imports Prelude
begin

text \<open>
  The collaborators both builders share, none of them under \<open>src/\<close>: the
  certificate supplier (\<open>secret.Certificates\<close> and its \<open>AsFiles\<close>), the file
  directives of cloud-init, and \<open>BaseUserData\<close>, the struct both inputs embed,
  with its fixed header and sentinel command and its \<open>prepare\<close> method. They are
  modelled from the specification (sections 3 and 6): a file directive is
  content, path and permissions; the certificate files come in the order of the
  certificates, certificate before key; \<open>prepare\<close> sets the header and the
  sentinel command and appends the caller's additional files to the files to
  write.

  Go's struct embedding is record extension: \<open>ControlPlaneInput\<close> and
  \<open>ControlPlaneJoinInput\<close> extend \<open>BaseUserData\<close>, so \<open>prepare\<close>, written
  once for every extension, is the promoted method. Like the Go method on a
  pointer receiver it returns the updated struct and an error, \<open>None\<close> for nil.
\<close>

record File =
  file_content :: string
  file_path :: string
  file_permissions :: string

record KeyPair =
  kp_cert :: bytes
  kp_key :: bytes

record Certificate =
  cert_purpose :: string
  CertFile :: string
  KeyFile :: string
  KeyPair :: "KeyPair option"

type_synonym Certificates = "Certificate list"

text \<open>The files of one certificate: its certificate, then its key, each if present.\<close>

definition cert_AsFiles :: "Certificate \<Rightarrow> File list" where
  "cert_AsFiles c =
     (case KeyPair c of
        None \<Rightarrow> []
      | Some kp \<Rightarrow>
          (if kp_cert kp \<noteq> [] then
             [\<lparr>file_content = kp_cert kp, file_path = CertFile c, file_permissions = ''0640''\<rparr>]
           else []) @
          (if kp_key kp \<noteq> [] then
             [\<lparr>file_content = kp_key kp, file_path = KeyFile c, file_permissions = ''0600''\<rparr>]
           else []))"

definition AsFiles :: "Certificates \<Rightarrow> File list" where
  "AsFiles cs = concat (map cert_AsFiles cs)"

record BaseUserData =
  Header :: string
  AdditionalFiles :: "File list"
  WriteFiles :: "File list"
  ControlPlane :: bool
  SentinelFileCommand :: string

definition cloudConfigHeader :: string where
  "cloudConfigHeader = ''## template: jinja\<newline>#cloud-config\<newline>''"

definition sentinelFileCommand :: string where
  "sentinelFileCommand = ''echo success > /run/cluster-api/bootstrap-success.complete''"

definition prepare :: "'a BaseUserData_scheme \<Rightarrow> error option \<times> 'a BaseUserData_scheme" where
  "prepare input =
     (None, input\<lparr>Header := cloudConfigHeader,
                  WriteFiles := WriteFiles input @ AdditionalFiles input,
                  SentinelFileCommand := sentinelFileCommand\<rparr>)"

type_synonym 'a preparer = "'a BaseUserData_scheme \<Rightarrow> error option \<times> 'a BaseUserData_scheme"

text \<open>
  The shape of a certificate file directive: some content, and the mode of a
  certificate (\<open>0640\<close>) or of a private key (\<open>0600\<close>).
\<close>

definition cert_file_ok :: "File \<Rightarrow> bool" where
  "cert_file_ok f \<longleftrightarrow> file_content f \<noteq> [] \<and> (file_permissions f = ''0640'' \<or> file_permissions f = ''0600'')"

section \<open>Lemmas\<close>

lemma AsFiles_append [simp]: "AsFiles (xs @ ys) = AsFiles xs @ AsFiles ys"
  by (simp add: AsFiles_def)

lemma AsFiles_Cons [simp]: "AsFiles (c # cs) = cert_AsFiles c @ AsFiles cs"
  by (simp add: AsFiles_def)

text \<open>
  A certificate with both halves of its key pair contributes exactly two files:
  the certificate, readable by the group, then the key, private to its owner.
\<close>

lemma cert_AsFiles_pair:
  "KeyPair c = Some kp \<Longrightarrow> kp_cert kp \<noteq> [] \<Longrightarrow> kp_key kp \<noteq> [] \<Longrightarrow>
   cert_AsFiles c =
     [\<lparr>file_content = kp_cert kp, file_path = CertFile c, file_permissions = ''0640''\<rparr>,
      \<lparr>file_content = kp_key kp, file_path = KeyFile c, file_permissions = ''0600''\<rparr>]"
  by (simp add: cert_AsFiles_def)

lemma prepare_ok [simp]: "fst (prepare input) = None"
  by (simp add: prepare_def)

lemma prepare_WriteFiles [simp]:
  "WriteFiles (snd (prepare input)) = WriteFiles input @ AdditionalFiles input"
  by (simp add: prepare_def)

lemma AsFiles_ok: "list_all cert_file_ok (AsFiles cs)"
  by (induction cs) (auto simp: AsFiles_def cert_AsFiles_def cert_file_ok_def split: option.splits)

lemma AsFiles_ok_or [simp]: "list_all (\<lambda>f. Q f \<or> cert_file_ok f) (AsFiles cs)"
  using AsFiles_ok [of cs] by (auto simp: list_all_iff)

lemma list_all_mem_or [simp]: "list_all (\<lambda>f. f \<in> set xs \<or> P f) xs"
  by (simp add: list_all_iff)

declare cert_AsFiles_def [model_simps] AsFiles_def [model_simps] prepare_def [model_simps]
  cloudConfigHeader_def [model_simps] sentinelFileCommand_def [model_simps]

end
