(* ===== verification/InitControlPlane.thy ===== *)
theory InitControlPlane
  imports Version NetIP Template BaseUserData
begin

text \<open>
  The bootstrap builder, \<open>src/controllers/cloudinit/controlplane_init.go\<close>:
  the cloud-init template of the first control-plane node
  (\<open>controlPlaneCloudInit\<close>), its input struct (\<open>ControlPlaneInput\<close>) and
  \<open>NewInitControlPlane\<close>, one definition per step in the order of the code. The
  builder mutates the struct it is given through a pointer: the model returns the
  result (the user data or the error) together with the struct as the call
  leaves it. The renderer is a parameter; \<open>NewInitControlPlane\<close> itself uses
  \<open>generate\<close> of \<open>Template\<close>.
\<close>

section \<open>The template and the input\<close>

text \<open>The lines of the raw string \<open>controlPlaneCloudInit\<close>, each ended by a newline.\<close>

definition controlPlaneCloudInit_lines :: "string list" where
  \<open>controlPlaneCloudInit_lines = [
   ''{{.Header}}'',
   ''write_files:'',
   ''- content: |'',
   ''{{.CAKey | Indent 4}}'',
   ''  path: /var/tmp/ca.key'',
   ''  permissions: '0600'' @ [CHR 0x27],
   ''- content: |'',
   ''{{.CACert | Indent 4}}'',
   ''  path: /var/tmp/ca.crt'',
   ''  permissions: '0600'' @ [CHR 0x27],
   ''runcmd:'',
   ''- sudo echo ControlPlaneEndpoint {{.ControlPlaneEndpoint}}'',
   ''- sudo echo ControlPlaneEndpointType {{.ControlPlaneEndpointType}}'',
   ''- sudo echo JoinTokenTTLInSecs {{.JoinTokenTTLInSecs}}'',
   ''- sudo echo Version {{.Version}}'',
   ''- sudo iptables -t nat -A OUTPUT -o lo -p tcp --dport 6443 -j REDIRECT --to-port 16443'',
   ''- sudo iptables -A PREROUTING -t nat  -p tcp --dport 6443 -j REDIRECT --to-port 16443'',
   ''- sudo apt-get update'',
   ''- sudo apt-get install iptables-persistent'',
   ''- sudo sh -c "while ! snap install microk8s --classic {{.Version}} ; do sleep 10 ; echo 'Retry snap installation'; done"'',
   ''- sudo sed -i 's/25000/{{.PortOfClusterAgent}}/' /var/snap/microk8s/current/args/cluster-agent'',
   ''- sudo grep Address /var/snap/microk8s/current/var/kubernetes/backend/info.yaml > /var/tmp/port-update.yaml'',
   ''- sudo sed -i 's/19001/{{.PortOfDqlite}}/' /var/tmp/port-update.yaml'',
   ''- sudo microk8s stop'',
   ''- sudo mv /var/tmp/port-update.yaml /var/snap/microk8s/current/var/kubernetes/backend/update.yaml'',
   ''- sudo microk8s start'',
   ''- sudo microk8s status --wait-ready'',
   ''- sudo microk8s refresh-certs /var/tmp'',
   ''- sudo sleep 30'',
   ''- sudo sed -i '/^DNS.1 = kubernetes/a {{.ControlPlaneEndpointType}}.100 = {{.ControlPlaneEndpoint}}' /var/snap/microk8s/current/certs/csr.conf.template'',
   ''- sudo microk8s status --wait-ready'',
   ''- sudo microk8s add-node --token-ttl {{.JoinTokenTTLInSecs}} --token {{.JoinToken}}'',
   ''- sudo sh -c "for a in {{.Addons}} ; do echo 'Enabling ' '' @ [CHR 0x5C] @ ''$a ; microk8s enable '' @ [CHR 0x5C] @ ''$a ; sleep 10; microk8s status --wait-ready ; done"'',
   ''- sudo sleep 15'']\<close>

definition controlPlaneCloudInit :: string where
  "controlPlaneCloudInit = concat (map (\<lambda>l. l @ ''\<newline>'') controlPlaneCloudInit_lines)"

record ControlPlaneInput = BaseUserData +
  Certificates :: Certificates
  CACert :: string
  CAKey :: string
  ControlPlaneEndpoint :: string
  ControlPlaneEndpointType :: string
  JoinToken :: string
  JoinTokenTTLInSecs :: int64
  Version :: string
  PortOfClusterAgent :: string
  PortOfDqlite :: string
  Addons :: "string list option"

text \<open>
  The fields a template sees, with the promoted fields of \<open>BaseUserData\<close>.
  The two file lists are slices of structs, printed as \<open>fmt\<close> prints them.
  The embedded \<open>secret.Certificates\<close> is a slice of pointers, which
  \<open>fmt\<close> prints as heap addresses, and its promoted methods are callable from
  a template: neither is modelled, and an action naming them is an execution
  error of the model. The fixed template names none of them; an addon name can.
\<close>

definition init_fields :: "ControlPlaneInput \<Rightarrow> fields" where
  "init_fields input =
     [(''Header'', VStr (Header input)),
      (''AdditionalFiles'', VStructs (map (\<lambda>f. [file_content f, file_path f, file_permissions f]) (AdditionalFiles input))),
      (''WriteFiles'', VStructs (map (\<lambda>f. [file_content f, file_path f, file_permissions f]) (WriteFiles input))),
      (''ControlPlane'', VBool (ControlPlane input)),
      (''SentinelFileCommand'', VStr (SentinelFileCommand input)),
      (''CACert'', VStr (CACert input)),
      (''CAKey'', VStr (CAKey input)),
      (''ControlPlaneEndpoint'', VStr (ControlPlaneEndpoint input)),
      (''ControlPlaneEndpointType'', VStr (ControlPlaneEndpointType input)),
      (''JoinToken'', VStr (JoinToken input)),
      (''JoinTokenTTLInSecs'', VInt (sint (JoinTokenTTLInSecs input))),
      (''Version'', VStr (Version input)),
      (''PortOfClusterAgent'', VStr (PortOfClusterAgent input)),
      (''PortOfDqlite'', VStr (PortOfDqlite input)),
      (''Addons'', VStrs (Addons input))]"

section \<open>The steps of NewInitControlPlane\<close>

text \<open>Header, files to write, sentinel command, endpoint type defaulted to DNS.\<close>

definition init_base_fields :: "ControlPlaneInput \<Rightarrow> ControlPlaneInput" where
  "init_base_fields input0 =
     (let input1 = input0\<lparr>Header := cloudConfigHeader\<rparr>;
          input2 = input1\<lparr>WriteFiles := AsFiles (Certificates input1)\<rparr>;
          input3 = input2\<lparr>WriteFiles := WriteFiles input2 @ AdditionalFiles input2\<rparr>;
          input4 = input3\<lparr>SentinelFileCommand := sentinelFileCommand\<rparr>
      in input4\<lparr>ControlPlaneEndpointType := ''DNS''\<rparr>)"

text \<open>The search loop with its \<open>break\<close>: does any addon name contain \<open>dns\<close>?\<close>

fun has_dns_addon :: "string list \<Rightarrow> bool" where
  "has_dns_addon [] = False"
| "has_dns_addon (addon # addons) = (if sublist ''dns'' addon then True else has_dns_addon addons)"

text \<open>A nil list becomes \<open>[dns]\<close>; \<open>dns\<close> is appended when no name contains it.\<close>

definition ensure_dns_addon :: "string list option \<Rightarrow> string list" where
  "ensure_dns_addon addons0 =
     (let addons = (case addons0 of None \<Rightarrow> [''dns''] | Some xs \<Rightarrow> xs);
          found = has_dns_addon addons
      in if \<not> found then addons @ [''dns''] else addons)"

text \<open>\<open>fmt.Sprintf(" '%s' ", addon)\<close>, accumulated over the list.\<close>

definition quote_addon :: "string \<Rightarrow> string" where
  "quote_addon addon = '' '' @ [CHR 0x27] @ addon @ [CHR 0x27] @ '' ''"

definition addons_string :: "string list \<Rightarrow> string" where
  "addons_string addons = foldl (\<lambda>addons_str addon. addons_str @ quote_addon addon) [] addons"

text \<open>The template with the addon list spliced into \<open>{{.Addons}}\<close> by \<open>strings.Replace\<close>.\<close>

definition init_template :: "string list \<Rightarrow> string" where
  "init_template addons =
     replace_all controlPlaneCloudInit ''{{.Addons}}'' (addons_string addons)"

definition init_classify_endpoint :: "ControlPlaneInput \<Rightarrow> ControlPlaneInput" where
  "init_classify_endpoint input =
     (if ParseIP (ControlPlaneEndpoint input) \<noteq> None
      then input\<lparr>ControlPlaneEndpointType := ''IP''\<rparr> else input)"

type_synonym renderer = "string \<Rightarrow> string \<Rightarrow> fields \<Rightarrow> error + bytes"

definition NewInitControlPlane_with ::
  "renderer \<Rightarrow> ControlPlaneInput \<Rightarrow> (error + bytes) \<times> ControlPlaneInput" where
  "NewInitControlPlane_with gen input0 =
     (let input1 = init_base_fields input0 in
      case extractVersionParts (Version input1) of
        Inl err \<Rightarrow> (Inl err, input1)
      | Inr (major, minor) \<Rightarrow>
          let input2 = input1\<lparr>Version := generateSnapChannelArgument major minor\<rparr>;
              input3 = input2\<lparr>Addons := Some (ensure_dns_addon (Addons input2))\<rparr>;
              cloudinit_str = init_template (ensure_dns_addon (Addons input2));
              input4 = init_classify_endpoint input3
          in case gen ''InitControlplane'' cloudinit_str (init_fields input4) of
               Inl err \<Rightarrow> (Inl err, input4)
             | Inr userData \<Rightarrow> (Inr userData, input4))"

definition NewInitControlPlane :: "ControlPlaneInput \<Rightarrow> (error + bytes) \<times> ControlPlaneInput" where
  "NewInitControlPlane = NewInitControlPlane_with generate"

section \<open>Lemmas\<close>

lemma has_dns_addon_iff [simp]: "has_dns_addon xs \<longleftrightarrow> (\<exists>a \<in> set xs. sublist ''dns'' a)"
  by (induction xs) auto

lemma dns_sublist_dns [simp]: "sublist ''dns'' ''dns''"
  by (rule sublist_order.order.refl)

lemma ensure_dns_addon_Some:
  "ensure_dns_addon (Some xs) = (if \<exists>a \<in> set xs. sublist ''dns'' a then xs else xs @ [''dns''])"
  by (simp add: ensure_dns_addon_def)

lemma ensure_dns_addon_has_dns: "\<exists>a \<in> set (ensure_dns_addon x). sublist ''dns'' a"
  by (auto simp: ensure_dns_addon_def split: option.splits)

lemma foldl_quote_addon:
  "foldl (\<lambda>acc addon. acc @ quote_addon addon) acc0 addons = acc0 @ concat (map quote_addon addons)"
  by (induction addons arbitrary: acc0) simp_all

lemma addons_string_quote: "addons_string addons = concat (map quote_addon addons)"
  by (simp add: addons_string_def foldl_quote_addon)

lemma init_base_fields_simps [simp]:
  "Version (init_base_fields input) = Version input"
  "Addons (init_base_fields input) = Addons input"
  "ControlPlaneEndpoint (init_base_fields input) = ControlPlaneEndpoint input"
  "ControlPlaneEndpointType (init_base_fields input) = ''DNS''"
  "WriteFiles (init_base_fields input) = AsFiles (Certificates input) @ AdditionalFiles input"
  "Header (init_base_fields input) = cloudConfigHeader"
  "SentinelFileCommand (init_base_fields input) = sentinelFileCommand"
  by (simp_all add: init_base_fields_def)

lemma init_classify_endpoint_simps [simp]:
  "ControlPlaneEndpointType (init_classify_endpoint input) =
     (if ParseIP (ControlPlaneEndpoint input) \<noteq> None then ''IP'' else ControlPlaneEndpointType input)"
  "Version (init_classify_endpoint input) = Version input"
  "Addons (init_classify_endpoint input) = Addons input"
  "WriteFiles (init_classify_endpoint input) = WriteFiles input"
  "ControlPlaneEndpoint (init_classify_endpoint input) = ControlPlaneEndpoint input"
  "Header (init_classify_endpoint input) = Header input"
  by (simp_all add: init_classify_endpoint_def)

text \<open>The state a successful version step leaves, before the renderer runs.\<close>

lemma NewInitControlPlane_ok:
  assumes "extractVersionParts (Version input) = Inr (major, minor)"
  shows "NewInitControlPlane_with gen input =
    (let st = init_classify_endpoint ((init_base_fields input)\<lparr>
                 Version := generateSnapChannelArgument major minor,
                 Addons := Some (ensure_dns_addon (Addons input))\<rparr>)
     in (gen ''InitControlplane'' (init_template (ensure_dns_addon (Addons input))) (init_fields st), st))"
  using assms by (simp add: NewInitControlPlane_with_def Let_def split: sum.splits)

lemmas NewInitControlPlane_state = NewInitControlPlane_ok [THEN arg_cong [where f = snd], simplified Let_def snd_conv]

section \<open>Properties of the addon list\<close>

text \<open>
  C3: a bootstrap request without addons, whether the list is nil or empty, is
  normalised to exactly \<open>[dns]\<close>. The code tests only for nil; the empty list
  reaches the same result through the append.
\<close>

theorem ensure_dns_addon_default:
  "ensure_dns_addon None = [''dns''] \<and> ensure_dns_addon (Some []) = [''dns'']"
  by (simp add: ensure_dns_addon_def)

text \<open>
  C4: when no addon name contains \<open>dns\<close>, the normalised list is the input list
  with \<open>dns\<close> appended at the end.
\<close>

theorem ensure_dns_addon_append:
  "\<forall>a \<in> set xs. \<not> sublist ''dns'' a \<Longrightarrow> ensure_dns_addon (Some xs) = xs @ [''dns'']"
  by (simp add: ensure_dns_addon_Some)

theorem ensure_dns_addon_append_witness:
  "list_all (\<lambda>a. \<not> sublist ''dns'' a) [''metrics-server'', ''ingress''] \<and>
   ensure_dns_addon (Some [''metrics-server'', ''ingress'']) = [''metrics-server'', ''ingress'', ''dns'']"
proof -
  have h: "\<forall>a \<in> set [''metrics-server'', ''ingress'']. \<not> sublist ''dns'' a"
    by code_simp
  show ?thesis using h ensure_dns_addon_append [OF h] by (simp add: list_all_iff)
qed

text \<open>
  C5: when some addon name contains \<open>dns\<close> as a substring (\<open>metrics-dns\<close>,
  \<open>coredns-extra\<close>), the list is left unchanged: no second entry is added.
\<close>

theorem ensure_dns_addon_keep:
  "\<exists>a \<in> set xs. sublist ''dns'' a \<Longrightarrow> ensure_dns_addon (Some xs) = xs"
  by (simp add: ensure_dns_addon_Some)

theorem ensure_dns_addon_keep_witness:
  "(\<exists>a \<in> set [''ingress'', ''metrics-dns'']. sublist ''dns'' a) \<and>
   ensure_dns_addon (Some [''ingress'', ''metrics-dns'']) = [''ingress'', ''metrics-dns'']"
proof -
  have h: "\<exists>a \<in> set [''ingress'', ''metrics-dns'']. sublist ''dns'' a"
    by code_simp
  show ?thesis using h ensure_dns_addon_keep [OF h] by simp
qed

text \<open>C6: normalising an already normalised addon list changes nothing.\<close>

theorem ensure_dns_addon_idem:
  "ensure_dns_addon (Some (ensure_dns_addon x)) = ensure_dns_addon x"
  using ensure_dns_addon_has_dns [of x] by (simp only: ensure_dns_addon_Some if_True)

section \<open>Properties of NewInitControlPlane\<close>

text \<open>The two states the builder can leave: after a version error, or after the renderer ran.\<close>

lemma NewInitControlPlane_with_cases:
  obtains "snd (NewInitControlPlane_with gen input) = init_base_fields input"
  | major minor where "snd (NewInitControlPlane_with gen input) =
      init_classify_endpoint ((init_base_fields input)\<lparr>Version := generateSnapChannelArgument major minor,
        Addons := Some (ensure_dns_addon (Addons input))\<rparr>)"
proof (cases "extractVersionParts (Version input)")
  case (Inl e)
  then show ?thesis using that(1) by (simp add: NewInitControlPlane_with_def)
next
  case (Inr p)
  then obtain major minor where "extractVersionParts (Version input) = Inr (major, minor)"
    by (cases p) simp
  from that(2) [OF NewInitControlPlane_state [OF this, of gen]] show ?thesis .
qed

text \<open>A bootstrap request used to exercise the theorems below on a concrete input.\<close>

definition example_init_input :: ControlPlaneInput where
  "example_init_input =
     \<lparr>Header = [], AdditionalFiles = [], WriteFiles = [], ControlPlane = False,
      SentinelFileCommand = [], Certificates = [], CACert = ''CERT'', CAKey = ''KEY'',
      ControlPlaneEndpoint = ''10.0.0.5'', ControlPlaneEndpointType = [], JoinToken = ''token'',
      JoinTokenTTLInSecs = 600, Version = ''1.21.3'', PortOfClusterAgent = ''25000'',
      PortOfDqlite = ''19001'', Addons = None\<rparr>"

lemma example_init_version: "extractVersionParts (Version example_init_input) = Inr (1, 21)"
  by (simp add: example_init_input_def model_simps)

text \<open>
  C1: a version that does not decompose into major and minor makes the bootstrap
  builder fail with the version error, whatever the renderer; no user data is
  produced. The struct is left with the header, files, sentinel command and the
  DNS default already written.
\<close>

theorem NewInitControlPlane_version_error:
  "extractVersionParts (Version input) = Inl e \<Longrightarrow>
   NewInitControlPlane_with gen input = (Inl e, init_base_fields input)"
  by (simp add: NewInitControlPlane_with_def)

theorem NewInitControlPlane_version_error_witness:
  "extractVersionParts (Version (example_init_input\<lparr>Version := ''1''\<rparr>)) = Inl (version_error ''1'') \<and>
   NewInitControlPlane (example_init_input\<lparr>Version := ''1''\<rparr>) =
     (Inl (version_error ''1''), init_base_fields (example_init_input\<lparr>Version := ''1''\<rparr>))"
proof -
  have h: "extractVersionParts (Version (example_init_input\<lparr>Version := ''1''\<rparr>)) = Inl (version_error ''1'')"
    by (simp add: extractVersionParts_def)
  show ?thesis
    using h NewInitControlPlane_version_error [OF h, of generate] by (simp add: NewInitControlPlane_def)
qed

text \<open>
  C7: after a successful version step the request's addon list is the
  normalised list, and it names an addon containing \<open>dns\<close>.
\<close>

theorem NewInitControlPlane_addons:
  assumes "extractVersionParts (Version input) = Inr (major, minor)"
  shows "Addons (snd (NewInitControlPlane_with gen input)) = Some (ensure_dns_addon (Addons input)) \<and>
         (\<exists>a \<in> set (ensure_dns_addon (Addons input)). sublist ''dns'' a)"
  using NewInitControlPlane_state [OF assms, of gen] ensure_dns_addon_has_dns by simp

theorem NewInitControlPlane_addons_witness:
  "extractVersionParts (Version example_init_input) = Inr (1, 21) \<and>
   Addons (snd (NewInitControlPlane example_init_input)) = Some [''dns'']"
  using example_init_version NewInitControlPlane_addons [OF example_init_version, of generate]
  by (simp add: NewInitControlPlane_def example_init_input_def ensure_dns_addon_def)

text \<open>
  C8: the endpoint type the bootstrap builder records is \<open>IP\<close> exactly when
  \<open>net.ParseIP\<close> accepts the endpoint, \<open>DNS\<close> otherwise.
\<close>

theorem NewInitControlPlane_endpoint_type:
  assumes "extractVersionParts (Version input) = Inr (major, minor)"
  shows "ControlPlaneEndpointType (snd (NewInitControlPlane_with gen input)) =
         (if ParseIP (ControlPlaneEndpoint input) \<noteq> None then ''IP'' else ''DNS'')"
  using NewInitControlPlane_state [OF assms, of gen] by simp

theorem NewInitControlPlane_endpoint_type_witness:
  "extractVersionParts (Version example_init_input) = Inr (1, 21) \<and>
   ControlPlaneEndpointType (snd (NewInitControlPlane example_init_input)) = ''IP''"
proof -
  have "ParseIP (ControlPlaneEndpoint example_init_input) \<noteq> None"
    by (simp add: example_init_input_def model_simps)
  then show ?thesis
    using example_init_version NewInitControlPlane_endpoint_type [OF example_init_version, of generate]
    by (simp add: NewInitControlPlane_def)
qed

text \<open>
  C11: the bootstrap builder returns the renderer's result unchanged, an error
  included: exactly what the renderer gives for the spliced template and the
  final struct.
\<close>

theorem NewInitControlPlane_renderer_result:
  assumes "extractVersionParts (Version input) = Inr (major, minor)"
  shows "fst (NewInitControlPlane_with gen input) =
         gen ''InitControlplane'' (init_template (ensure_dns_addon (Addons input)))
           (init_fields (snd (NewInitControlPlane_with gen input)))"
  using NewInitControlPlane_ok [OF assms, of gen] by (simp add: Let_def)

text \<open>A renderer stubbed to fail: the bootstrap builder returns the stub's error as it is.\<close>

theorem NewInitControlPlane_renderer_result_witness:
  "extractVersionParts (Version example_init_input) = Inr (1, 21) \<and>
   fst (NewInitControlPlane_with (\<lambda>_ _ _. Inl (RenderError ''stub'')) example_init_input) =
     Inl (RenderError ''stub'')"
  using example_init_version
    NewInitControlPlane_renderer_result [OF example_init_version, of "\<lambda>_ _ _. Inl (RenderError ''stub'')"]
  by simp

text \<open>
  C13: whatever the outcome, the files to write are the certificate files
  followed by the caller's additional files, in that order.
\<close>

theorem NewInitControlPlane_write_files:
  "WriteFiles (snd (NewInitControlPlane_with gen input)) = AsFiles (Certificates input) @ AdditionalFiles input"
  by (cases rule: NewInitControlPlane_with_cases [of gen input]) simp_all

section \<open>The fields the builder overwrites\<close>

text \<open>
  C16: the bootstrap builder ignores what the caller put in the fields it
  overwrites: two requests that differ only in the header, the files to write,
  the sentinel command and the endpoint type give the same result and leave the
  same struct, whatever the renderer and on every path, the version error
  included. A reset moved after the version check, or an endpoint type kept when
  \<open>net.ParseIP\<close> fails, would let the caller's value through.
\<close>

theorem NewInitControlPlane_ignores_overwritten:
  "NewInitControlPlane_with gen (input\<lparr>Header := h, WriteFiles := w, SentinelFileCommand := c,
      ControlPlaneEndpointType := t\<rparr>) = NewInitControlPlane_with gen input"
  by (simp add: NewInitControlPlane_with_def init_base_fields_def init_classify_endpoint_def Let_def
      split: sum.split)

end
