(* ===== verification/CloudConfig.thy ===== *)
theory CloudConfig
  imports Template BaseUserData
begin

text \<open>
  The format of the user data the builders produce (specification, section 5): a
  cloud-config document of a header, the files to write under \<open>write_files\<close>,
  each with its content as a literal block indented by four spaces, its path and
  its permissions, and the commands of \<open>runcmd\<close>, one list item each, in order.
  A section with no entries is left out. This is the contract the rendering
  theorems of the builders are stated against.
\<close>

definition write_file_entry :: "File \<Rightarrow> string" where
  "write_file_entry f =
     ''- content: |\<newline>'' @ Indent 4 (file_content f) @ ''\<newline>'' @
     ''  path: '' @ file_path f @ ''\<newline>'' @
     ''  permissions: '' @ [CHR 0x27] @ file_permissions f @ [CHR 0x27] @ ''\<newline>''"

definition runcmd_entry :: "string \<Rightarrow> string" where
  "runcmd_entry c = ''- '' @ c @ ''\<newline>''"

definition cloud_config :: "string \<Rightarrow> File list \<Rightarrow> string list \<Rightarrow> string" where
  "cloud_config hdr files cmds =
     hdr @ ''\<newline>'' @
     (if files = [] then [] else ''write_files:\<newline>'' @ concat (map write_file_entry files)) @
     ''runcmd:\<newline>'' @ concat (map runcmd_entry cmds)"

lemma cloud_config_runcmd:
  assumes "c \<in> set cmds" and "sublist x c"
  shows "sublist x (cloud_config hdr files cmds)"
proof -
  obtain xs ys where "cmds = xs @ c # ys" using split_list [OF assms(1)] by blast
  then have "sublist (runcmd_entry c) (concat (map runcmd_entry cmds))"
    by (simp add: sublist_appendI)
  moreover have "sublist x (runcmd_entry c)"
    unfolding runcmd_entry_def by (rule sublist_order.order.trans [OF assms(2) sublist_appendI])
  ultimately have body: "sublist x (concat (map runcmd_entry cmds))" by (rule sublist_order.order.trans [rotated])
  have eq: "cloud_config hdr files cmds =
      (hdr @ ''\<newline>'' @ (if files = [] then [] else ''write_files:\<newline>'' @ concat (map write_file_entry files)) @
       ''runcmd:\<newline>'') @ concat (map runcmd_entry cmds)"
    by (simp add: cloud_config_def)
  show ?thesis unfolding eq by (rule sublist_order.order.trans [OF body sublist_append_leftI])
qed

lemma cloud_config_file:
  assumes "f \<in> set files"
  shows "sublist (write_file_entry f) (cloud_config hdr files cmds)"
proof -
  obtain xs ys where "files = xs @ f # ys" using split_list [OF assms] by blast
  then have body: "sublist (write_file_entry f) (''write_files:\<newline>'' @ concat (map write_file_entry files))"
    using sublist_appendI [of "write_file_entry f" "''write_files:\<newline>'' @ concat (map write_file_entry xs)"
        "concat (map write_file_entry ys)"] by simp
  have eq: "cloud_config hdr files cmds =
      (hdr @ ''\<newline>'') @ (''write_files:\<newline>'' @ concat (map write_file_entry files)) @
       ''runcmd:\<newline>'' @ concat (map runcmd_entry cmds)"
    using assms by (cases files) (simp_all add: cloud_config_def)
  show ?thesis unfolding eq by (rule sublist_order.order.trans [OF body sublist_appendI])
qed

text \<open>A file entry byte by byte: the content's lines each gain four spaces.\<close>

lemma write_file_entry_bytes:
  "write_file_entry f =
     ''- content: |\<newline>'' @ replicate 4 CHR '' '' @
     concat (map (\<lambda>c. if c = CHR ''\<newline>'' then CHR ''\<newline>'' # replicate 4 CHR '' '' else [c]) (file_content f)) @
     ''\<newline>  path: '' @ file_path f @ ''\<newline>  permissions: '' @ [CHR 0x27] @ file_permissions f @ [CHR 0x27] @ ''\<newline>''"
  by (simp add: write_file_entry_def Indent_bytes)

end
