(* ===== verification/Shell.thy ===== *)
theory Shell
  imports Prelude
begin

text \<open>
  How the shell reads the addon list the bootstrap script loops over: the words
  of \<open>for a in WORDS ; do\<close> when every word is single-quoted, as
  \<open>sh\<close> lexes them. A single-quoted word runs to the next quote, with no
  escapes inside; words are separated by spaces; anything else (an unclosed
  quote, a quoted word glued to more text, an unquoted byte) is outside the
  modelled subset and reads as \<open>None\<close>. Not code of the program: the
  reader the specification's shell loop stands for, used to state what the
  spliced addon string means to the target machine.
\<close>

fun sh_quoted :: "string \<Rightarrow> (string \<times> string) option" where
  "sh_quoted [] = None"
| "sh_quoted (c # cs) =
     (if c = CHR 0x27 then Some ([], cs) else map_option (\<lambda>(w, r). (c # w, r)) (sh_quoted cs))"

lemma sh_quoted_length: "sh_quoted s = Some (w, r) \<Longrightarrow> length r < length s"
  by (induction s arbitrary: w rule: sh_quoted.induct) (auto split: if_splits)

function sh_words :: "string \<Rightarrow> string list option" where
  "sh_words [] = Some []"
| "sh_words (c # cs) =
     (if c = CHR '' '' then sh_words cs
      else if c = CHR 0x27 then
        (case sh_quoted cs of
           None \<Rightarrow> None
         | Some (w, r) \<Rightarrow>
             if r = [] \<or> hd r = CHR '' '' then map_option (Cons w) (sh_words r) else None)
      else None)"
  by pat_completeness auto
termination
  by (relation "measure length") (auto dest: sh_quoted_length)

lemma sh_quoted_append: "CHR 0x27 \<notin> set a \<Longrightarrow> sh_quoted (a @ CHR 0x27 # r) = Some (a, r)"
  by (induction a) auto

lemma sh_quoted_no_quote: "sh_quoted s = Some (w, r) \<Longrightarrow> CHR 0x27 \<notin> set w"
  by (induction s arbitrary: w rule: sh_quoted.induct) (auto split: if_splits)

text \<open>No word the shell reads contains a single quote: a quote always ends or starts one.\<close>

lemma sh_words_no_quote: "sh_words s = Some ws \<Longrightarrow> list_all (\<lambda>a. CHR 0x27 \<notin> set a) ws"
  by (induction s arbitrary: ws rule: sh_words.induct)
     (auto split: if_splits option.splits simp: list_all_iff dest!: sh_quoted_no_quote)

text \<open>Writing words single-quoted, each between spaces, and reading them back.\<close>

definition sh_quote_words :: "string list \<Rightarrow> string" where
  "sh_quote_words ws = concat (map (\<lambda>a. '' '' @ [CHR 0x27] @ a @ [CHR 0x27] @ '' '') ws)"

lemma sh_words_quote:
  "list_all (\<lambda>a. CHR 0x27 \<notin> set a) ws \<Longrightarrow> sh_words (sh_quote_words ws) = Some ws"
proof (induction ws)
  case Nil
  then show ?case by (simp add: sh_quote_words_def)
next
  case (Cons a ws)
  then have q: "sh_quoted (a @ CHR 0x27 # CHR '' '' # sh_quote_words ws) = Some (a, CHR '' '' # sh_quote_words ws)"
    by (simp add: sh_quoted_append)
  have "sh_quote_words (a # ws) = CHR '' '' # CHR 0x27 # a @ CHR 0x27 # CHR '' '' # sh_quote_words ws"
    by (simp add: sh_quote_words_def)
  with q Cons show ?case by simp
qed

end
