(* ===== verification/InitRender.thy ===== *)
theory InitRender
  imports InitControlPlane CloudConfig Shell
begin

text \<open>
  What \<open>NewInitControlPlane\<close> renders. The template literal is shown to be
  the printed form of a list of nodes, so that \<open>strings.Replace\<close> of the
  addon placeholder, parsing and execution are computed on the nodes
  (\<open>Template.replace_all_print_field\<close>, \<open>Template.parse_print_tpl\<close>) instead
  of byte by byte on the 2 kB literal. The result is the cloud-config document of
  \<open>CloudConfig\<close> with the fields of the final struct in place.
\<close>

text \<open>
  \<open>controlPlaneCloudInit\<close> as template nodes, line by line: the text runs and
  the actions of each line of the raw string, its newline included.
\<close>

definition controlPlaneCloudInit_nodes :: "tnode list" where
  \<open>controlPlaneCloudInit_nodes =
     [TField ''Header''] @
     lit (''\<newline>'') @
     lit (''write_files:\<newline>'') @
     lit (''- content: |\<newline>'') @
     [TIndent 4 ''CAKey''] @
     lit (''\<newline>'') @
     lit (''  path: /var/tmp/ca.key\<newline>'') @
     lit (''  permissions: '0600'\<newline>'') @
     lit (''- content: |\<newline>'') @
     [TIndent 4 ''CACert''] @
     lit (''\<newline>'') @
     lit (''  path: /var/tmp/ca.crt\<newline>'') @
     lit (''  permissions: '0600'\<newline>'') @
     lit (''runcmd:\<newline>'') @
     lit (''- sudo echo ControlPlaneEndpoint '') @
     [TField ''ControlPlaneEndpoint''] @
     lit (''\<newline>'') @
     lit (''- sudo echo ControlPlaneEndpointType '') @
     [TField ''ControlPlaneEndpointType''] @
     lit (''\<newline>'') @
     lit (''- sudo echo JoinTokenTTLInSecs '') @
     [TField ''JoinTokenTTLInSecs''] @
     lit (''\<newline>'') @
     lit (''- sudo echo Version '') @
     [TField ''Version''] @
     lit (''\<newline>'') @
     lit (''- sudo iptables -t nat -A OUTPUT -o lo -p tcp --dport 6443 -j REDIRECT --to-port 16443\<newline>'') @
     lit (''- sudo iptables -A PREROUTING -t nat  -p tcp --dport 6443 -j REDIRECT --to-port 16443\<newline>'') @
     lit (''- sudo apt-get update\<newline>'') @
     lit (''- sudo apt-get install iptables-persistent\<newline>'') @
     lit (''- sudo sh -c "while ! snap install microk8s --classic '') @
     [TField ''Version''] @
     lit ('' ; do sleep 10 ; echo 'Retry snap installation'; done"\<newline>'') @
     lit (''- sudo sed -i 's/25000/'') @
     [TField ''PortOfClusterAgent''] @
     lit (''/' /var/snap/microk8s/current/args/cluster-agent\<newline>'') @
     lit (''- sudo grep Address /var/snap/microk8s/current/var/kubernetes/backend/info.yaml > /var/tmp/port-update.yaml\<newline>'') @
     lit (''- sudo sed -i 's/19001/'') @
     [TField ''PortOfDqlite''] @
     lit (''/' /var/tmp/port-update.yaml\<newline>'') @
     lit (''- sudo microk8s stop\<newline>'') @
     lit (''- sudo mv /var/tmp/port-update.yaml /var/snap/microk8s/current/var/kubernetes/backend/update.yaml\<newline>'') @
     lit (''- sudo microk8s start\<newline>'') @
     lit (''- sudo microk8s status --wait-ready\<newline>'') @
     lit (''- sudo microk8s refresh-certs /var/tmp\<newline>'') @
     lit (''- sudo sleep 30\<newline>'') @
     lit (''- sudo sed -i '/^DNS.1 = kubernetes/a '') @
     [TField ''ControlPlaneEndpointType''] @
     lit (''.100 = '') @
     [TField ''ControlPlaneEndpoint''] @
     lit ([CHR 0x27] @ '' /var/snap/microk8s/current/certs/csr.conf.template\<newline>'') @
     lit (''- sudo microk8s status --wait-ready\<newline>'') @
     lit (''- sudo microk8s add-node --token-ttl '') @
     [TField ''JoinTokenTTLInSecs''] @
     lit ('' --token '') @
     [TField ''JoinToken''] @
     lit (''\<newline>'') @
     lit (''- sudo sh -c "for a in '') @
     [TField ''Addons''] @
     lit ('' ; do echo 'Enabling ' '' @ [CHR 0x5C] @ ''$a ; microk8s enable '' @ [CHR 0x5C] @ ''$a ; sleep 10; microk8s status --wait-ready ; done"\<newline>'') @
     lit (''- sudo sleep 15\<newline>'')\<close>

text \<open>
  What the rendered document promises, in the terms of \<open>CloudConfig\<close>: the
  two files of the certificate authority and the commands of \<open>runcmd\<close> with
  the struct's fields in place; \<open>A\<close> is the spliced addon string.
\<close>

definition init_files :: "ControlPlaneInput \<Rightarrow> File list" where
  "init_files st =
     [\<lparr>file_content = CAKey st, file_path = ''/var/tmp/ca.key'', file_permissions = ''0600''\<rparr>,
      \<lparr>file_content = CACert st, file_path = ''/var/tmp/ca.crt'', file_permissions = ''0600''\<rparr>]"

definition init_runcmd :: "ControlPlaneInput \<Rightarrow> string \<Rightarrow> string list" where
  \<open>init_runcmd st A =
    [''sudo echo ControlPlaneEndpoint '' @ ControlPlaneEndpoint st,
     ''sudo echo ControlPlaneEndpointType '' @ ControlPlaneEndpointType st,
     ''sudo echo JoinTokenTTLInSecs '' @ (itoa (sint (JoinTokenTTLInSecs st))),
     ''sudo echo Version '' @ Version st,
     ''sudo iptables -t nat -A OUTPUT -o lo -p tcp --dport 6443 -j REDIRECT --to-port 16443'',
     ''sudo iptables -A PREROUTING -t nat  -p tcp --dport 6443 -j REDIRECT --to-port 16443'',
     ''sudo apt-get update'',
     ''sudo apt-get install iptables-persistent'',
     ''sudo sh -c "while ! snap install microk8s --classic '' @ Version st @ '' ; do sleep 10 ; echo 'Retry snap installation'; done"'',
     ''sudo sed -i 's/25000/'' @ PortOfClusterAgent st @ ''/' /var/snap/microk8s/current/args/cluster-agent'',
     ''sudo grep Address /var/snap/microk8s/current/var/kubernetes/backend/info.yaml > /var/tmp/port-update.yaml'',
     ''sudo sed -i 's/19001/'' @ PortOfDqlite st @ ''/' /var/tmp/port-update.yaml'',
     ''sudo microk8s stop'',
     ''sudo mv /var/tmp/port-update.yaml /var/snap/microk8s/current/var/kubernetes/backend/update.yaml'',
     ''sudo microk8s start'',
     ''sudo microk8s status --wait-ready'',
     ''sudo microk8s refresh-certs /var/tmp'',
     ''sudo sleep 30'',
     ''sudo sed -i '/^DNS.1 = kubernetes/a '' @ ControlPlaneEndpointType st @ ''.100 = '' @ ControlPlaneEndpoint st @ [CHR 0x27] @ '' /var/snap/microk8s/current/certs/csr.conf.template'',
     ''sudo microk8s status --wait-ready'',
     ''sudo microk8s add-node --token-ttl '' @ (itoa (sint (JoinTokenTTLInSecs st))) @ '' --token '' @ JoinToken st,
     ''sudo sh -c "for a in '' @ A @ '' ; do echo 'Enabling ' '' @ [CHR 0x5C] @ ''$a ; microk8s enable '' @ [CHR 0x5C] @ ''$a ; sleep 10; microk8s status --wait-ready ; done"'',
     ''sudo sleep 15'']\<close>

text \<open>The template text after the addon placeholder: the rest of the loop line and the last line.\<close>

definition init_addons_tail :: string where
  \<open>init_addons_tail = '' ; do echo 'Enabling ' '' @ [CHR 0x5C] @ ''$a ; microk8s enable '' @ [CHR 0x5C] @ ''$a ; sleep 10; microk8s status --wait-ready ; done"\<newline>- sudo sleep 15\<newline>''\<close>

section \<open>Lemmas\<close>

lemma controlPlaneCloudInit_print: "controlPlaneCloudInit = print_tpl controlPlaneCloudInit_nodes"
  by code_simp

lemma controlPlaneCloudInit_wf: "list_all wf_node controlPlaneCloudInit_nodes"
  by code_simp

lemma addons_field_name: "field_name ''Addons''"
  by (simp add: field_name_def ident_char_def is_digit_def)

lemma init_template_nodes:
  "init_template addons = print_tpl (subst_field ''Addons'' (addons_string addons) controlPlaneCloudInit_nodes)"
proof -
  have "print_node (TField ''Addons'') = ''{{.Addons}}''" by simp
  then show ?thesis
    using replace_all_print_field [OF addons_field_name controlPlaneCloudInit_wf, of "addons_string addons"]
    by (simp only: init_template_def controlPlaneCloudInit_print)
qed

lemma exec_init_nodes:
  "exec_nodes (init_fields st) (subst_field ''Addons'' A controlPlaneCloudInit_nodes) =
     Inr (cloud_config (Header st) (init_files st) (init_runcmd st A))"
  by (simp add: controlPlaneCloudInit_nodes_def init_fields_def cloud_config_def write_file_entry_def
      runcmd_entry_def init_files_def init_runcmd_def)

lemma addons_string_no_brace:
  "CHR ''{'' \<notin> set (concat addons) \<Longrightarrow> CHR ''{'' \<notin> set (addons_string addons)"
  by (auto simp: addons_string_quote quote_addon_def)

text \<open>
  The bootstrap template renders with whatever nodes the addon string parses
  to: in the common case only text, in general the actions it contains.
\<close>

lemma generate_init_template_nodes:
  assumes "addons_string addons = print_tpl ms" and "list_all wf_node ms"
    and "exec_nodes (init_fields st) ms = Inr A"
  shows "generate kind (init_template addons) (init_fields st) =
    Inr (cloud_config (Header st) (init_files st) (init_runcmd st A))"
proof -
  have "init_template addons = print_tpl (subst_nodes ''Addons'' ms controlPlaneCloudInit_nodes)"
    by (simp only: init_template_nodes assms(1) print_subst_nodes)
  moreover have "list_all wf_node (subst_nodes ''Addons'' ms controlPlaneCloudInit_nodes)"
    by (rule wf_subst_nodes [OF controlPlaneCloudInit_wf assms(2)])
  ultimately show ?thesis by (simp add: generate_print_tpl exec_subst_nodes [OF assms(3)] exec_init_nodes)
qed

lemma generate_init_template:
  assumes "CHR ''{'' \<notin> set (concat addons)"
  shows "generate kind (init_template addons) (init_fields st) =
    Inr (cloud_config (Header st) (init_files st) (init_runcmd st (addons_string addons)))"
  by (rule generate_init_template_nodes [of _ "lit (addons_string addons)"])
    (simp_all add: addons_string_no_brace [OF assms])

lemma NewInitControlPlane_generate:
  assumes "extractVersionParts (Version input) = Inr (major, minor)"
  shows "fst (NewInitControlPlane input) = generate ''InitControlplane''
           (init_template (ensure_dns_addon (Addons input))) (init_fields (snd (NewInitControlPlane input)))"
    and "Header (snd (NewInitControlPlane input)) = cloudConfigHeader"
    and "Version (snd (NewInitControlPlane input)) = generateSnapChannelArgument major minor"
    and "JoinToken (snd (NewInitControlPlane input)) = JoinToken input"
    and "JoinTokenTTLInSecs (snd (NewInitControlPlane input)) = JoinTokenTTLInSecs input"
    and "CAKey (snd (NewInitControlPlane input)) = CAKey input"
    and "CACert (snd (NewInitControlPlane input)) = CACert input"
    and "ControlPlaneEndpoint (snd (NewInitControlPlane input)) = ControlPlaneEndpoint input"
    and "ControlPlaneEndpointType (snd (NewInitControlPlane input)) =
           (if ParseIP (ControlPlaneEndpoint input) \<noteq> None then ''IP'' else ''DNS'')"
    and "WriteFiles (snd (NewInitControlPlane input)) = AsFiles (Certificates input) @ AdditionalFiles input"
  using NewInitControlPlane_ok [OF assms, of generate]
  by (simp_all add: NewInitControlPlane_def Let_def init_base_fields_def init_classify_endpoint_def)

lemma init_runcmd_installs:
  "sublist (''snap install microk8s --classic '' @ Version st) (cloud_config hdr files (init_runcmd st A))"
proof (rule cloud_config_runcmd)
  show \<open>''sudo sh -c "while ! '' @ (''snap install microk8s --classic '' @ Version st) @
      '' ; do sleep 10 ; echo 'Retry snap installation'; done"'' \<in> set (init_runcmd st A)\<close>
    by (simp add: init_runcmd_def)
qed (rule sublist_appendI)

lemma init_runcmd_add_node:
  "sublist (''microk8s add-node --token-ttl '' @ itoa (sint (JoinTokenTTLInSecs st)) @ '' --token '' @ JoinToken st)
     (cloud_config hdr files (init_runcmd st A))"
proof (rule cloud_config_runcmd)
  show "''sudo '' @ (''microk8s add-node --token-ttl '' @ itoa (sint (JoinTokenTTLInSecs st)) @ '' --token '' @ JoinToken st)
      \<in> set (init_runcmd st A)"
    by (simp add: init_runcmd_def)
qed (rule sublist_append_leftI)

text \<open>
  The template split at the addon placeholder, for the inputs whose addon string
  is not text only: what precedes it parses to its nodes, so the parse of the
  whole template is decided by the addon string and the short tail.
\<close>

lemma controlPlaneCloudInit_nodes_split:
  "controlPlaneCloudInit_nodes =
     takeWhile (\<lambda>n. n \<noteq> TField ''Addons'') controlPlaneCloudInit_nodes @ [TField ''Addons''] @ lit init_addons_tail"
  by code_simp

lemma init_template_split:
  "init_template addons =
     print_tpl (takeWhile (\<lambda>n. n \<noteq> TField ''Addons'') controlPlaneCloudInit_nodes) @ addons_string addons @ init_addons_tail"
proof -
  let ?pre = "takeWhile (\<lambda>n. n \<noteq> TField ''Addons'') controlPlaneCloudInit_nodes"
  have "TField ''Addons'' \<notin> set ?pre" by (auto dest: set_takeWhileD)
  then have "subst_field ''Addons'' (addons_string addons) controlPlaneCloudInit_nodes =
      ?pre @ lit (addons_string addons) @ lit init_addons_tail"
    by (subst controlPlaneCloudInit_nodes_split) (simp add: subst_field_absent)
  then show ?thesis by (simp add: init_template_nodes)
qed

lemma parse_unclosed_addon:
  "parse_tpl (addons_string (ensure_dns_addon (Some [''{{''])) @ init_addons_tail) = Inl ''unclosed action''"
  by (simp add: ensure_dns_addon_def addons_string_quote quote_addon_def sublist_Cons_right init_addons_tail_def)

lemma generate_init_unclosed:
  "generate kind (init_template (ensure_dns_addon (Some [''{{'']))) env =
     Inl (wrapf (RenderError ''unclosed action'') (''failed to parse '' @ kind @ '' template''))"
proof -
  let ?pre = "takeWhile (\<lambda>n. n \<noteq> TField ''Addons'') controlPlaneCloudInit_nodes"
  have wf: "list_all wf_node ?pre"
    using controlPlaneCloudInit_wf by (auto simp: list_all_iff dest: set_takeWhileD)
  have "parse_tpl (print_tpl ?pre @ addons_string (ensure_dns_addon (Some [''{{''])) @ init_addons_tail) =
      Inl ''unclosed action''"
    by (simp add: parse_tpl_append [OF parse_print_tpl [OF wf] print_tpl_last [OF wf]] parse_unclosed_addon)
  then show ?thesis by (simp add: generate_def init_template_split)
qed

lemma addons_string_sh_quote: "addons_string addons = sh_quote_words addons"
  by (simp add: addons_string_quote quote_addon_def [abs_def] sh_quote_words_def)

lemma init_runcmd_addon_loop:
  "sublist (''for a in '' @ A @ '' ; do'') (cloud_config hdr files (init_runcmd st A))"
proof (rule cloud_config_runcmd)
  show \<open>''sudo sh -c "'' @ (''for a in '' @ A @ '' ; do'') @
      '' echo 'Enabling ' '' @ [CHR 0x5C] @ ''$a ; microk8s enable '' @ [CHR 0x5C] @
      ''$a ; sleep 10; microk8s status --wait-ready ; done"'' \<in> set (init_runcmd st A)\<close>
    by (simp add: init_runcmd_def)
qed (rule sublist_appendI)

lemma init_runcmd_csr:
  "sublist (''/^DNS.1 = kubernetes/a '' @ ControlPlaneEndpointType st @ ''.100 = '' @ ControlPlaneEndpoint st)
     (cloud_config hdr files (init_runcmd st A))"
proof (rule cloud_config_runcmd)
  show "(''sudo sed -i '' @ [CHR 0x27]) @ (''/^DNS.1 = kubernetes/a '' @ ControlPlaneEndpointType st @ ''.100 = '' @
      ControlPlaneEndpoint st) @ [CHR 0x27] @ '' /var/snap/microk8s/current/certs/csr.conf.template''
      \<in> set (init_runcmd st A)"
    by (simp add: init_runcmd_def)
qed (rule sublist_appendI)

section \<open>The rendered user data\<close>

text \<open>
  C22: when the version decomposes and no addon name contains a brace, the
  bootstrap builder produces user data, and that user data is exactly the
  cloud-config document with the fixed header, the CA key and certificate
  written to \<open>/var/tmp\<close> with mode \<open>0600\<close>, and the commands of the template
  with the fields of the struct as the builder leaves it: the channel for the
  version, the endpoint type, the token and its lifetime, the ports and the
  quoted addon list.
\<close>

theorem NewInitControlPlane_renders:
  assumes "extractVersionParts (Version input) = Inr (major, minor)"
    and "CHR ''{'' \<notin> set (concat (ensure_dns_addon (Addons input)))"
  shows "fst (NewInitControlPlane input) =
    Inr (cloud_config cloudConfigHeader (init_files (snd (NewInitControlPlane input)))
          (init_runcmd (snd (NewInitControlPlane input)) (addons_string (ensure_dns_addon (Addons input)))))"
  using NewInitControlPlane_generate [OF assms(1)] generate_init_template [OF assms(2)] by simp

lemma example_init_no_brace: "CHR ''{'' \<notin> set (concat (ensure_dns_addon (Addons example_init_input)))"
  by (simp add: example_init_input_def ensure_dns_addon_def)

theorem NewInitControlPlane_renders_witness:
  "extractVersionParts (Version example_init_input) = Inr (1, 21) \<and>
   CHR ''{'' \<notin> set (concat (ensure_dns_addon (Addons example_init_input))) \<and>
   fst (NewInitControlPlane example_init_input) =
    Inr (cloud_config cloudConfigHeader (init_files (snd (NewInitControlPlane example_init_input)))
          (init_runcmd (snd (NewInitControlPlane example_init_input))
            (addons_string (ensure_dns_addon (Addons example_init_input)))))"
  using example_init_version example_init_no_brace
    NewInitControlPlane_renders [OF example_init_version example_init_no_brace] by blast

text \<open>
  The addon string spliced into the template for the addon \<open>{{.JoinToken}}\<close>
  (with \<open>dns\<close> appended), as template nodes: the action survives the splice.
\<close>

text \<open>
  A single addon named by a field action: the addon string is that action between
  the quotes, followed by the default \<open>dns\<close>, and the loop renders the field.
\<close>

lemma generate_init_addon_field:
  assumes "field_name f" and "\<not> sublist ''dns'' (''{{.'' @ f @ ''}}'')"
    and "map_of (init_fields st) f = Some v"
  shows "generate kind (init_template (ensure_dns_addon (Some [''{{.'' @ f @ ''}}'']))) (init_fields st) =
    Inr (cloud_config (Header st) (init_files st)
      (init_runcmd st ('' '' @ [CHR 0x27] @ fmt_value v @ [CHR 0x27] @ ''  '' @ [CHR 0x27] @ ''dns'' @ [CHR 0x27] @ '' '')))"
proof (rule generate_init_template_nodes)
  let ?ms = "lit ('' '' @ [CHR 0x27]) @ [TField f] @ lit ([CHR 0x27] @ ''  '' @ [CHR 0x27] @ ''dns'' @ [CHR 0x27] @ '' '')"
  show "addons_string (ensure_dns_addon (Some [''{{.'' @ f @ ''}}''])) = print_tpl ?ms"
    using assms(2) by (simp add: ensure_dns_addon_def addons_string_quote quote_addon_def)
  show "list_all wf_node ?ms"
    using assms(1) by simp
  show "exec_nodes (init_fields st) ?ms =
    Inr ('' '' @ [CHR 0x27] @ fmt_value v @ [CHR 0x27] @ ''  '' @ [CHR 0x27] @ ''dns'' @ [CHR 0x27] @ '' '')"
    using assms(3) by simp
qed

text \<open>
  C24: the addon list is spliced into the template text before the template is
  parsed, so an addon name is itself read as a template. The name
  \<open>{{.JoinToken}}\<close> renders as the cluster's join token: the \<open>for\<close> loop of
  the bootstrap script runs \<open>microk8s enable\<close> on the token, and no addon of
  that name is enabled.
\<close>

theorem NewInitControlPlane_addon_expands_action:
  assumes "extractVersionParts (Version input) = Inr (major, minor)"
    and "Addons input = Some [''{{.JoinToken}}'']"
  shows "fst (NewInitControlPlane input) =
    Inr (cloud_config cloudConfigHeader (init_files (snd (NewInitControlPlane input)))
          (init_runcmd (snd (NewInitControlPlane input))
            ('' '' @ [CHR 0x27] @ JoinToken input @ [CHR 0x27] @ ''  '' @ [CHR 0x27] @ ''dns'' @ [CHR 0x27] @ '' '')))"
proof -
  let ?st = "snd (NewInitControlPlane input)"
  note run = NewInitControlPlane_generate [OF assms(1)]
  have "field_name ''JoinToken''" and "\<not> sublist ''dns'' (''{{.'' @ ''JoinToken'' @ ''}}'')"
    and "map_of (init_fields ?st) ''JoinToken'' = Some (VStr (JoinToken input))"
    by (simp_all add: field_name_def ident_char_def is_digit_def sublist_Cons_right init_fields_def run(4))
  from generate_init_addon_field [OF this] run(1,2) assms(2)
  show ?thesis by simp
qed

theorem NewInitControlPlane_addon_expands_action_witness:
  "extractVersionParts (Version (example_init_input\<lparr>Addons := Some [''{{.JoinToken}}'']\<rparr>)) = Inr (1, 21) \<and>
   Addons (example_init_input\<lparr>Addons := Some [''{{.JoinToken}}'']\<rparr>) = Some [''{{.JoinToken}}''] \<and>
   fst (NewInitControlPlane (example_init_input\<lparr>Addons := Some [''{{.JoinToken}}'']\<rparr>)) =
    Inr (cloud_config cloudConfigHeader
          (init_files (snd (NewInitControlPlane (example_init_input\<lparr>Addons := Some [''{{.JoinToken}}'']\<rparr>))))
          (init_runcmd (snd (NewInitControlPlane (example_init_input\<lparr>Addons := Some [''{{.JoinToken}}'']\<rparr>)))
            ('' '' @ [CHR 0x27] @ ''token'' @ [CHR 0x27] @ ''  '' @ [CHR 0x27] @ ''dns'' @ [CHR 0x27] @ '' '')))"
proof -
  have v: "extractVersionParts (Version (example_init_input\<lparr>Addons := Some [''{{.JoinToken}}'']\<rparr>)) = Inr (1, 21)"
    using example_init_version by simp
  have a: "Addons (example_init_input\<lparr>Addons := Some [''{{.JoinToken}}'']\<rparr>) = Some [''{{.JoinToken}}'']"
    by simp
  have t: "JoinToken (example_init_input\<lparr>Addons := Some [''{{.JoinToken}}'']\<rparr>) = ''token''"
    by (simp add: example_init_input_def)
  show ?thesis using v a NewInitControlPlane_addon_expands_action [OF v a] by (simp only: t simp_thms)
qed



text \<open>
  C27: the join token lifetime, a Go \<open>int64\<close>, reaches the user data as its
  signed decimal value, unchecked: the bootstrap script runs
  \<open>microk8s add-node --token-ttl\<close> with it, and the value is negative exactly
  when the word's unsigned reading is at least \<open>2^63\<close>.
\<close>

theorem NewInitControlPlane_ttl_signed:
  assumes "extractVersionParts (Version input) = Inr (major, minor)"
    and "CHR ''{'' \<notin> set (concat (ensure_dns_addon (Addons input)))"
  shows "\<exists>out. fst (NewInitControlPlane input) = Inr out \<and>
     sublist (''microk8s add-node --token-ttl '' @ itoa (sint (JoinTokenTTLInSecs input)) @ '' --token '' @ JoinToken input) out \<and>
     (sint (JoinTokenTTLInSecs input) < 0 \<longleftrightarrow> 2 ^ 63 \<le> unat (JoinTokenTTLInSecs input))"
proof -
  let ?st = "snd (NewInitControlPlane input)"
  note run = NewInitControlPlane_generate [OF assms(1)]
  show ?thesis
  proof (intro exI conjI)
    show "fst (NewInitControlPlane input) = Inr (cloud_config (Header ?st) (init_files ?st)
        (init_runcmd ?st (addons_string (ensure_dns_addon (Addons input)))))"
      using run(1) generate_init_template [OF assms(2)] by simp
    show "sublist (''microk8s add-node --token-ttl '' @ itoa (sint (JoinTokenTTLInSecs input)) @ '' --token '' @ JoinToken input)
        (cloud_config (Header ?st) (init_files ?st) (init_runcmd ?st (addons_string (ensure_dns_addon (Addons input)))))"
      by (rule init_runcmd_add_node [of ?st, unfolded run(4,5)])
  qed (rule int64_negative_iff)
qed

theorem NewInitControlPlane_ttl_signed_witness:
  "extractVersionParts (Version (example_init_input\<lparr>JoinTokenTTLInSecs := - 1\<rparr>)) = Inr (1, 21) \<and>
   CHR ''{'' \<notin> set (concat (ensure_dns_addon (Addons (example_init_input\<lparr>JoinTokenTTLInSecs := - 1\<rparr>)))) \<and>
   (\<exists>out. fst (NewInitControlPlane (example_init_input\<lparr>JoinTokenTTLInSecs := - 1\<rparr>)) = Inr out \<and>
     sublist (''microk8s add-node --token-ttl '' @ ''-1'' @ '' --token '' @ ''token'') out) \<and>
   sint (JoinTokenTTLInSecs (example_init_input\<lparr>JoinTokenTTLInSecs := - 1\<rparr>)) < 0"
proof -
  have v: "extractVersionParts (Version (example_init_input\<lparr>JoinTokenTTLInSecs := - 1\<rparr>)) = Inr (1, 21)"
    using example_init_version by simp
  have a: "CHR ''{'' \<notin> set (concat (ensure_dns_addon (Addons (example_init_input\<lparr>JoinTokenTTLInSecs := - 1\<rparr>))))"
    using example_init_no_brace by simp
  have t: "itoa (sint (JoinTokenTTLInSecs (example_init_input\<lparr>JoinTokenTTLInSecs := - 1\<rparr>))) = ''-1''"
    by (simp add: itoa_def dec_of_nat_unfold [of "Suc 0"] model_simps)
  have k: "JoinToken (example_init_input\<lparr>JoinTokenTTLInSecs := - 1\<rparr>) = ''token''"
    by (simp add: example_init_input_def)
  have s: "sint (JoinTokenTTLInSecs (example_init_input\<lparr>JoinTokenTTLInSecs := - 1\<rparr>)) < 0" by simp
  show ?thesis using v a s NewInitControlPlane_ttl_signed [OF v a] unfolding t k by blast
qed

text \<open>
  C29: an addon name that opens a template action and never closes it makes the
  bootstrap builder fail: the addon \<open>{{\<close> reaches the parser through the
  splice, and the builder returns the parse error of the renderer, wrapped with
  the template's kind, in place of user data.
\<close>

theorem NewInitControlPlane_addon_unclosed_action:
  assumes "extractVersionParts (Version input) = Inr (major, minor)"
    and "Addons input = Some [''{{'']"
  shows "fst (NewInitControlPlane input) =
    Inl (wrapf (RenderError ''unclosed action'') ''failed to parse InitControlplane template'')"
  using NewInitControlPlane_generate(1) [OF assms(1)] generate_init_unclosed assms(2) by simp

theorem NewInitControlPlane_addon_unclosed_action_witness:
  "extractVersionParts (Version (example_init_input\<lparr>Addons := Some [''{{'']\<rparr>)) = Inr (1, 21) \<and>
   Addons (example_init_input\<lparr>Addons := Some [''{{'']\<rparr>) = Some [''{{''] \<and>
   fst (NewInitControlPlane (example_init_input\<lparr>Addons := Some [''{{'']\<rparr>)) =
    Inl (wrapf (RenderError ''unclosed action'') ''failed to parse InitControlplane template'')"
proof -
  have v: "extractVersionParts (Version (example_init_input\<lparr>Addons := Some [''{{'']\<rparr>)) = Inr (1, 21)"
    using example_init_version by simp
  have a: "Addons (example_init_input\<lparr>Addons := Some [''{{'']\<rparr>) = Some [''{{'']" by simp
  show ?thesis using v a NewInitControlPlane_addon_unclosed_action [OF v a] by blast
qed

text \<open>
  C32: the bootstrap user data writes the CA key to \<open>/var/tmp/ca.key\<close> and the CA
  certificate to \<open>/var/tmp/ca.crt\<close>, both with mode \<open>0600\<close>, each as a YAML
  literal block: the caller's text with four spaces before its first line and
  after every newline, so that every line of a multi-line PEM stays inside the
  block.
\<close>

theorem NewInitControlPlane_ca_files:
  assumes "extractVersionParts (Version input) = Inr (major, minor)"
    and "CHR ''{'' \<notin> set (concat (ensure_dns_addon (Addons input)))"
  shows "\<exists>out. fst (NewInitControlPlane input) = Inr out \<and>
     sublist (''- content: |\<newline>'' @ replicate 4 CHR '' '' @
       concat (map (\<lambda>c. if c = CHR ''\<newline>'' then CHR ''\<newline>'' # replicate 4 CHR '' '' else [c]) (CAKey input)) @
       ''\<newline>  path: /var/tmp/ca.key\<newline>  permissions: '' @ [CHR 0x27] @ ''0600'' @ [CHR 0x27] @ ''\<newline>'') out \<and>
     sublist (''- content: |\<newline>'' @ replicate 4 CHR '' '' @
       concat (map (\<lambda>c. if c = CHR ''\<newline>'' then CHR ''\<newline>'' # replicate 4 CHR '' '' else [c]) (CACert input)) @
       ''\<newline>  path: /var/tmp/ca.crt\<newline>  permissions: '' @ [CHR 0x27] @ ''0600'' @ [CHR 0x27] @ ''\<newline>'') out"
proof -
  let ?st = "snd (NewInitControlPlane input)"
  let ?out = "cloud_config (Header ?st) (init_files ?st) (init_runcmd ?st (addons_string (ensure_dns_addon (Addons input))))"
  note run = NewInitControlPlane_generate [OF assms(1)]
  have files: "init_files ?st =
      [\<lparr>file_content = CAKey input, file_path = ''/var/tmp/ca.key'', file_permissions = ''0600''\<rparr>,
       \<lparr>file_content = CACert input, file_path = ''/var/tmp/ca.crt'', file_permissions = ''0600''\<rparr>]"
    by (simp add: init_files_def run(6,7))
  let ?key = "\<lparr>file_content = CAKey input, file_path = ''/var/tmp/ca.key'', file_permissions = ''0600''\<rparr>"
  let ?crt = "\<lparr>file_content = CACert input, file_path = ''/var/tmp/ca.crt'', file_permissions = ''0600''\<rparr>"
  have k: "sublist (write_file_entry ?key) ?out" and c: "sublist (write_file_entry ?crt) ?out"
    by (rule cloud_config_file, simp add: files)+
  show ?thesis
  proof (intro exI conjI)
    show "fst (NewInitControlPlane input) = Inr ?out"
      using run(1) generate_init_template [OF assms(2)] by simp
  qed (use k c in \<open>simp_all add: write_file_entry_bytes\<close>)
qed

theorem NewInitControlPlane_ca_files_witness:
  "extractVersionParts (Version example_init_input) = Inr (1, 21) \<and>
   CHR ''{'' \<notin> set (concat (ensure_dns_addon (Addons example_init_input))) \<and>
   (\<exists>out. fst (NewInitControlPlane example_init_input) = Inr out \<and>
     sublist (''- content: |\<newline>    KEY\<newline>  path: /var/tmp/ca.key\<newline>  permissions: '' @ [CHR 0x27] @ ''0600'' @ [CHR 0x27] @ ''\<newline>'') out \<and>
     sublist (''- content: |\<newline>    CERT\<newline>  path: /var/tmp/ca.crt\<newline>  permissions: '' @ [CHR 0x27] @ ''0600'' @ [CHR 0x27] @ ''\<newline>'') out)"
proof -
  have k: "CAKey example_init_input = ''KEY''" "CACert example_init_input = ''CERT''"
    by (simp_all add: example_init_input_def)
  show ?thesis
    using example_init_version example_init_no_brace
      NewInitControlPlane_ca_files [OF example_init_version example_init_no_brace]
    unfolding k by (simp add: numeral_eq_Suc)
qed

text \<open>
  C33: when no addon name contains a single quote, the shell reads the addon
  loop of the bootstrap script as exactly the normalised addon list: the
  user data contains \<open>for a in A ; do\<close> and the words of \<open>A\<close> are the
  addons in order, each one word whatever spaces it contains.
\<close>

theorem NewInitControlPlane_addon_loop_words:
  assumes "extractVersionParts (Version input) = Inr (major, minor)"
    and "CHR ''{'' \<notin> set (concat (ensure_dns_addon (Addons input)))"
    and "list_all (\<lambda>a. CHR 0x27 \<notin> set a) (ensure_dns_addon (Addons input))"
  shows "\<exists>out A. fst (NewInitControlPlane input) = Inr out \<and> sublist (''for a in '' @ A @ '' ; do'') out \<and>
     sh_words A = Some (ensure_dns_addon (Addons input))"
proof -
  let ?st = "snd (NewInitControlPlane input)"
  let ?A = "addons_string (ensure_dns_addon (Addons input))"
  show ?thesis
  proof (intro exI conjI)
    show "fst (NewInitControlPlane input) = Inr (cloud_config (Header ?st) (init_files ?st) (init_runcmd ?st ?A))"
      using NewInitControlPlane_generate(1) [OF assms(1)] generate_init_template [OF assms(2)] by simp
    show "sublist (''for a in '' @ ?A @ '' ; do'') (cloud_config (Header ?st) (init_files ?st) (init_runcmd ?st ?A))"
      by (rule init_runcmd_addon_loop)
    show "sh_words ?A = Some (ensure_dns_addon (Addons input))"
      unfolding addons_string_sh_quote by (rule sh_words_quote [OF assms(3)])
  qed
qed

theorem NewInitControlPlane_addon_loop_words_witness:
  "extractVersionParts (Version example_init_input) = Inr (1, 21) \<and>
   CHR ''{'' \<notin> set (concat (ensure_dns_addon (Addons example_init_input))) \<and>
   list_all (\<lambda>a. CHR 0x27 \<notin> set a) (ensure_dns_addon (Addons example_init_input)) \<and>
   (\<exists>out A. fst (NewInitControlPlane example_init_input) = Inr out \<and> sublist (''for a in '' @ A @ '' ; do'') out \<and>
     sh_words A = Some (ensure_dns_addon (Addons example_init_input)))"
proof -
  have q: "list_all (\<lambda>a. CHR 0x27 \<notin> set a) (ensure_dns_addon (Addons example_init_input))"
    by (simp add: example_init_input_def ensure_dns_addon_def)
  show ?thesis
    using example_init_version example_init_no_brace q
      NewInitControlPlane_addon_loop_words [OF example_init_version example_init_no_brace q] by blast
qed



end
