(* ===== verification/JoinControlPlane.thy ===== *)
theory JoinControlPlane
  imports Version NetIP Template BaseUserData
begin

text \<open>
  The joining builder, \<open>src/controllers/cloudinit/controlplane_join.go\<close>: the
  cloud-init template of a control-plane node that joins a running cluster
  (\<open>controlPlaneJoinCloudInit\<close>), its input struct (\<open>ControlPlaneJoinInput\<close>)
  and \<open>NewJoinControlPlane\<close>, step by step. As in the bootstrap builder the
  model returns the result with the struct as the call leaves it. The shared
  preparation step and the renderer are parameters (\<open>NewJoinControlPlane_with\<close>):
  \<open>NewJoinControlPlane\<close> uses \<open>prepare\<close> of \<open>BaseUserData\<close> and \<open>generate\<close>
  of \<open>Template\<close>, and the error paths are stated for any preparation step and
  any renderer.
\<close>

section \<open>The template and the input\<close>

definition controlPlaneJoinCloudInit_lines :: "string list" where
  \<open>controlPlaneJoinCloudInit_lines = [
   ''{{.Header}}'',
   ''runcmd:'',
   ''- sudo echo ControlPlaneEndpoint {{.ControlPlaneEndpoint}}'',
   ''- sudo echo ControlPlaneEndpointType {{.ControlPlaneEndpointType}}'',
   ''- sudo echo JoinTokenTTLInSecs {{.JoinTokenTTLInSecs}}'',
   ''- sudo echo IPOfNodeToJoin {{.IPOfNodeToJoin}}'',
   ''- sudo echo PortOfNodeToJoin {{.PortOfNodeToJoin}}'',
   ''- sudo echo Version {{.Version}}'',
   ''- sudo iptables -t nat -A OUTPUT -o lo -p tcp --dport 6443 -j REDIRECT --to-port 16443'',
   ''- sudo iptables -A PREROUTING -t nat  -p tcp --dport 6443 -j REDIRECT --to-port 16443'',
   ''- sudo apt-get update'',
   ''- sudo apt-get install iptables-persistent'',
   ''- sudo sh -c "while ! snap install microk8s --classic {{.Version}}; do sleep 10 ; echo 'Retry snap installation'; done"'',
   ''- sudo microk8s status --wait-ready'',
   ''- sudo sed -i 's/25000/{{.PortOfNodeToJoin}}/' /var/snap/microk8s/current/args/cluster-agent'',
   ''- sudo grep Address /var/snap/microk8s/current/var/kubernetes/backend/info.yaml > /var/tmp/port-update.yaml'',
   ''- sudo sed -i 's/19001/{{.PortOfDqlite}}/' /var/tmp/port-update.yaml'',
   ''- sudo microk8s stop'',
   ''- sudo mv /var/tmp/port-update.yaml /var/snap/microk8s/current/var/kubernetes/backend/update.yaml'',
   ''- sudo microk8s start'',
   ''- sudo microk8s status --wait-ready'',
   ''- sudo sed -i '/^DNS.1 = kubernetes/a {{.ControlPlaneEndpointType}}.100 = {{.ControlPlaneEndpoint}}' /var/snap/microk8s/current/certs/csr.conf.template'',
   ''- sudo sleep 10'',
   ''- sudo microk8s status --wait-ready'',
   ''- sudo sh -c "while ! microk8s join {{.IPOfNodeToJoin}}:{{.PortOfNodeToJoin}}/{{.JoinToken}} ; do sleep 10 ; echo 'Retry join'; done"'',
   ''- sudo sleep 20'',
   ''- sudo microk8s status --wait-ready'',
   ''- sudo microk8s add-node --token-ttl {{.JoinTokenTTLInSecs}} --token {{.JoinToken}}'']\<close>

definition controlPlaneJoinCloudInit :: string where
  "controlPlaneJoinCloudInit = concat (map (\<lambda>l. l @ ''\<newline>'') controlPlaneJoinCloudInit_lines)"

record ControlPlaneJoinInput = BaseUserData +
  Certificates :: Certificates
  ControlPlaneEndpoint :: string
  ControlPlaneEndpointType :: string
  JoinToken :: string
  JoinTokenTTLInSecs :: int64
  IPOfNodeToJoin :: string
  PortOfNodeToJoin :: string
  PortOfDqlite :: string
  Version :: string

text \<open>The fields the join template sees, as for the bootstrap builder (\<open>init_fields\<close>).\<close>

definition join_fields :: "ControlPlaneJoinInput \<Rightarrow> fields" where
  "join_fields input =
     [(''Header'', VStr (Header input)),
      (''AdditionalFiles'', VStructs (map (\<lambda>f. [file_content f, file_path f, file_permissions f]) (AdditionalFiles input))),
      (''WriteFiles'', VStructs (map (\<lambda>f. [file_content f, file_path f, file_permissions f]) (WriteFiles input))),
      (''ControlPlane'', VBool (ControlPlane input)),
      (''SentinelFileCommand'', VStr (SentinelFileCommand input)),
      (''ControlPlaneEndpoint'', VStr (ControlPlaneEndpoint input)),
      (''ControlPlaneEndpointType'', VStr (ControlPlaneEndpointType input)),
      (''JoinToken'', VStr (JoinToken input)),
      (''JoinTokenTTLInSecs'', VInt (sint (JoinTokenTTLInSecs input))),
      (''IPOfNodeToJoin'', VStr (IPOfNodeToJoin input)),
      (''PortOfNodeToJoin'', VStr (PortOfNodeToJoin input)),
      (''PortOfDqlite'', VStr (PortOfDqlite input)),
      (''Version'', VStr (Version input))]"

section \<open>The steps of NewJoinControlPlane\<close>

text \<open>The certificate files and the control-plane role, before the preparation step.\<close>

definition join_set_files :: "ControlPlaneJoinInput \<Rightarrow> ControlPlaneJoinInput" where
  "join_set_files input0 =
     (let input1 = input0\<lparr>WriteFiles := AsFiles (Certificates input0)\<rparr>
      in input1\<lparr>ControlPlane := True\<rparr>)"

definition join_classify_endpoint :: "ControlPlaneJoinInput \<Rightarrow> ControlPlaneJoinInput" where
  "join_classify_endpoint input0 =
     (let input1 = input0\<lparr>ControlPlaneEndpointType := ''DNS''\<rparr>
      in if ParseIP (ControlPlaneEndpoint input1) \<noteq> None
         then input1\<lparr>ControlPlaneEndpointType := ''IP''\<rparr> else input1)"

definition join_error_context :: string where
  "join_error_context = ''failed to generate user data for machine joining control plane''"

type_synonym join_preparer = "ControlPlaneJoinInput \<Rightarrow> error option \<times> ControlPlaneJoinInput"
type_synonym renderer = "string \<Rightarrow> string \<Rightarrow> fields \<Rightarrow> error + bytes"

definition NewJoinControlPlane_with ::
  "join_preparer \<Rightarrow> renderer \<Rightarrow> ControlPlaneJoinInput \<Rightarrow> (error + bytes) \<times> ControlPlaneJoinInput" where
  "NewJoinControlPlane_with prep gen input0 =
     (let input1 = join_set_files input0 in
      case prep input1 of
        (Some err, input2) \<Rightarrow> (Inl err, input2)
      | (None, input2) \<Rightarrow>
          (case extractVersionParts (Version input2) of
             Inl err \<Rightarrow> (Inl err, input2)
           | Inr (major, minor) \<Rightarrow>
               let input3 = input2\<lparr>Version := generateSnapChannelArgument major minor\<rparr>;
                   input4 = join_classify_endpoint input3
               in case gen ''JoinControlplane'' controlPlaneJoinCloudInit (join_fields input4) of
                    Inl err \<Rightarrow> (Inl (wrapf err join_error_context), input4)
                  | Inr userData \<Rightarrow> (Inr userData, input4)))"

definition NewJoinControlPlane :: "ControlPlaneJoinInput \<Rightarrow> (error + bytes) \<times> ControlPlaneJoinInput" where
  "NewJoinControlPlane = NewJoinControlPlane_with prepare generate"

section \<open>Lemmas\<close>

lemma join_set_files_simps [simp]:
  "Version (join_set_files input) = Version input"
  "ControlPlaneEndpoint (join_set_files input) = ControlPlaneEndpoint input"
  "WriteFiles (join_set_files input) = AsFiles (Certificates input)"
  "AdditionalFiles (join_set_files input) = AdditionalFiles input"
  "ControlPlane (join_set_files input) = True"
  by (simp_all add: join_set_files_def)

lemma join_classify_endpoint_simps [simp]:
  "ControlPlaneEndpointType (join_classify_endpoint input) =
     (if ParseIP (ControlPlaneEndpoint input) \<noteq> None then ''IP'' else ''DNS'')"
  "Version (join_classify_endpoint input) = Version input"
  "WriteFiles (join_classify_endpoint input) = WriteFiles input"
  "ControlPlane (join_classify_endpoint input) = ControlPlane input"
  by (simp_all add: join_classify_endpoint_def Let_def)

lemma prepare_join_simps [simp]:
  "Version (snd (prepare input)) = Version input"
  "ControlPlaneEndpoint (snd (prepare input)) = ControlPlaneEndpoint input"
  "ControlPlane (snd (prepare input)) = ControlPlane input"
  "Header (snd (prepare input)) = cloudConfigHeader"
  by (simp_all add: prepare_def)

text \<open>The run of the builder once the preparation step has succeeded and the version parsed.\<close>

lemma NewJoinControlPlane_ok:
  assumes "prep (join_set_files input) = (None, input2)"
    and "extractVersionParts (Version input2) = Inr (major, minor)"
  shows "NewJoinControlPlane_with prep gen input =
    (let st = join_classify_endpoint (input2\<lparr>Version := generateSnapChannelArgument major minor\<rparr>)
     in (case gen ''JoinControlplane'' controlPlaneJoinCloudInit (join_fields st) of
           Inl err \<Rightarrow> Inl (wrapf err join_error_context)
         | Inr userData \<Rightarrow> Inr userData, st))"
  using assms by (simp add: NewJoinControlPlane_with_def Let_def split: sum.splits)

lemma NewJoinControlPlane_prepare_ok:
  assumes "extractVersionParts (Version input) = Inr (major, minor)"
  shows "NewJoinControlPlane_with prepare gen input =
    (let st = join_classify_endpoint ((snd (prepare (join_set_files input)))\<lparr>Version := generateSnapChannelArgument major minor\<rparr>)
     in (case gen ''JoinControlplane'' controlPlaneJoinCloudInit (join_fields st) of
           Inl err \<Rightarrow> Inl (wrapf err join_error_context)
         | Inr userData \<Rightarrow> Inr userData, st))"
proof -
  have "prepare (join_set_files input) = (None, snd (prepare (join_set_files input)))"
    by (simp add: prepare_def)
  moreover have "extractVersionParts (Version (snd (prepare (join_set_files input)))) = Inr (major, minor)"
    using assms by simp
  ultimately show ?thesis by (rule NewJoinControlPlane_ok)
qed

text \<open>The two states the join builder can leave once \<open>prepare\<close> succeeded.\<close>

lemma NewJoinControlPlane_with_cases:
  obtains "snd (NewJoinControlPlane_with prepare gen input) = snd (prepare (join_set_files input))"
  | major minor where "snd (NewJoinControlPlane_with prepare gen input) =
      join_classify_endpoint ((snd (prepare (join_set_files input)))\<lparr>Version := generateSnapChannelArgument major minor\<rparr>)"
proof (cases "extractVersionParts (Version input)")
  case (Inl e)
  then show ?thesis using that(1) by (simp add: NewJoinControlPlane_with_def prepare_def)
next
  case (Inr p)
  then obtain major minor where v: "extractVersionParts (Version input) = Inr (major, minor)"
    by (cases p) simp
  show ?thesis
    using that(2) NewJoinControlPlane_prepare_ok [OF v, of gen] by (simp add: Let_def split: sum.splits)
qed

definition example_join_input :: ControlPlaneJoinInput where
  "example_join_input =
     \<lparr>Header = [], AdditionalFiles = [], WriteFiles = [], ControlPlane = False,
      SentinelFileCommand = [], Certificates = [], ControlPlaneEndpoint = ''cluster.example.com'',
      ControlPlaneEndpointType = [], JoinToken = ''token'', JoinTokenTTLInSecs = 600,
      IPOfNodeToJoin = ''10.0.0.5'', PortOfNodeToJoin = ''25000'', PortOfDqlite = ''19001'',
      Version = ''1.21.3''\<rparr>"

lemma example_join_version: "extractVersionParts (Version example_join_input) = Inr (1, 21)"
  by (simp add: example_join_input_def model_simps)

section \<open>Properties of NewJoinControlPlane\<close>

text \<open>
  C2: with the preparation step of the package, a version that does not
  decompose into major and minor makes the joining builder fail with the version
  error, whatever the renderer.
\<close>

theorem NewJoinControlPlane_version_error:
  "extractVersionParts (Version input) = Inl e \<Longrightarrow>
   fst (NewJoinControlPlane_with prepare gen input) = Inl e"
  by (simp add: NewJoinControlPlane_with_def prepare_def)

theorem NewJoinControlPlane_version_error_witness:
  "extractVersionParts (Version (example_join_input\<lparr>Version := ''v1''\<rparr>)) = Inl (version_error ''v1'') \<and>
   fst (NewJoinControlPlane (example_join_input\<lparr>Version := ''v1''\<rparr>)) = Inl (version_error ''v1'')"
proof -
  have h: "extractVersionParts (Version (example_join_input\<lparr>Version := ''v1''\<rparr>)) = Inl (version_error ''v1'')"
    by (simp add: extractVersionParts_def)
  show ?thesis
    using h NewJoinControlPlane_version_error [OF h, of generate] by (simp add: NewJoinControlPlane_def)
qed

text \<open>
  C12: when the preparation step fails, its error is returned at once: the
  version is not read and the renderer is not called, so the result is the same
  for every renderer.
\<close>

theorem NewJoinControlPlane_prepare_error:
  "prep (join_set_files input) = (Some err, st) \<Longrightarrow>
   NewJoinControlPlane_with prep gen input = (Inl err, st)"
  by (simp add: NewJoinControlPlane_with_def)

theorem NewJoinControlPlane_prepare_error_witness:
  "(\<lambda>i. (Some (PreparationError ''no header''), i)) (join_set_files example_join_input) =
     (Some (PreparationError ''no header''), join_set_files example_join_input) \<and>
   NewJoinControlPlane_with (\<lambda>i. (Some (PreparationError ''no header''), i)) generate example_join_input =
     (Inl (PreparationError ''no header''), join_set_files example_join_input)"
  using NewJoinControlPlane_prepare_error
    [of "\<lambda>i. (Some (PreparationError ''no header''), i)" example_join_input
        "PreparationError ''no header''" "join_set_files example_join_input" generate]
  by simp

text \<open>
  C10: a renderer failure in the joining builder is wrapped with the context
  \<open>failed to generate user data for machine joining control plane\<close>: the
  message names the control-plane join and the original error stays the cause.
\<close>

theorem NewJoinControlPlane_render_error_wrapped:
  assumes "extractVersionParts (Version input) = Inr (major, minor)"
  shows "fst (NewJoinControlPlane_with prepare (\<lambda>_ _ _. Inl e) input) = Inl (Wrapped join_error_context e) \<and>
         cause (Wrapped join_error_context e) = cause e \<and>
         error_msg (Wrapped join_error_context e) =
           ''failed to generate user data for machine joining control plane: '' @ error_msg e"
  using NewJoinControlPlane_prepare_ok [OF assms, of "\<lambda>_ _ _. Inl e"]
  by (simp add: Let_def wrapf_def join_error_context_def)

theorem NewJoinControlPlane_render_error_wrapped_witness:
  "extractVersionParts (Version example_join_input) = Inr (1, 21) \<and>
   fst (NewJoinControlPlane_with prepare (\<lambda>_ _ _. Inl (RenderError ''stub'')) example_join_input) =
     Inl (Wrapped join_error_context (RenderError ''stub''))"
  using example_join_version NewJoinControlPlane_render_error_wrapped [OF example_join_version, of "RenderError ''stub''"]
  by simp

text \<open>
  C14: after a successful run of the preparation step the files to write are the
  certificate files followed by the caller's additional files.
\<close>

theorem NewJoinControlPlane_write_files:
  "WriteFiles (snd (NewJoinControlPlane_with prepare gen input)) =
   AsFiles (Certificates input) @ AdditionalFiles input"
  by (cases rule: NewJoinControlPlane_with_cases [of gen input]) (simp_all add: prepare_def)

text \<open>
  The endpoint type the joining builder records is \<open>IP\<close> exactly when
  \<open>net.ParseIP\<close> accepts the endpoint.
\<close>

lemma NewJoinControlPlane_endpoint_type:
  assumes "extractVersionParts (Version input) = Inr (major, minor)"
  shows "ControlPlaneEndpointType (snd (NewJoinControlPlane_with prepare gen input)) =
         (if ParseIP (ControlPlaneEndpoint input) \<noteq> None then ''IP'' else ''DNS'')"
  using NewJoinControlPlane_prepare_ok [OF assms, of gen] by (simp add: Let_def split: sum.splits)

text \<open>
  C20: the result of the joining builder, the user data or the error, does not
  depend on what the caller put in the fields it overwrites: the header, the
  files to write, the control-plane flag, the sentinel command and the endpoint
  type, whatever the renderer. (On the version error path the struct keeps the
  caller's endpoint type: the reset comes after the version check.)
\<close>

theorem NewJoinControlPlane_ignores_overwritten:
  "fst (NewJoinControlPlane_with prepare gen (input\<lparr>Header := h, WriteFiles := w, ControlPlane := b,
      SentinelFileCommand := c, ControlPlaneEndpointType := t\<rparr>)) =
   fst (NewJoinControlPlane_with prepare gen input)"
  by (simp add: NewJoinControlPlane_with_def join_set_files_def prepare_def join_classify_endpoint_def
      Let_def split: sum.split)

end
