(* ===== verification/JoinRender.thy ===== *)
theory JoinRender
  imports JoinControlPlane CloudConfig
begin

text \<open>
  What \<open>NewJoinControlPlane\<close> renders: the join template literal as printed
  nodes (\<open>Template.parse_print_tpl\<close>), executed on the fields of the final
  struct. The join document has no \<open>write_files\<close> section: the template names
  no file, whatever the builder put in \<open>WriteFiles\<close>.
\<close>

text \<open>\<open>controlPlaneJoinCloudInit\<close> as template nodes, line by line.\<close>

definition controlPlaneJoinCloudInit_nodes :: "tnode list" where
  \<open>controlPlaneJoinCloudInit_nodes =
     [TField ''Header''] @
     lit (''\<newline>'') @
     lit (''runcmd:\<newline>'') @
     lit (''- sudo echo ControlPlaneEndpoint '') @
     [TField ''ControlPlaneEndpoint''] @
     lit (''\<newline>'') @
     lit (''- sudo echo ControlPlaneEndpointType '') @
     [TField ''ControlPlaneEndpointType''] @
     lit (''\<newline>'') @
     lit (''- sudo echo JoinTokenTTLInSecs '') @
     [TField ''JoinTokenTTLInSecs''] @
     lit (''\<newline>'') @
     lit (''- sudo echo IPOfNodeToJoin '') @
     [TField ''IPOfNodeToJoin''] @
     lit (''\<newline>'') @
     lit (''- sudo echo PortOfNodeToJoin '') @
     [TField ''PortOfNodeToJoin''] @
     lit (''\<newline>'') @
     lit (''- sudo echo Version '') @
     [TField ''Version''] @
     lit (''\<newline>'') @
     lit (''- sudo iptables -t nat -A OUTPUT -o lo -p tcp --dport 6443 -j REDIRECT --to-port 16443\<newline>'') @
     lit (''- sudo iptables -A PREROUTING -t nat  -p tcp --dport 6443 -j REDIRECT --to-port 16443\<newline>'') @
     lit (''- sudo apt-get update\<newline>'') @
     lit (''- sudo apt-get install iptables-persistent\<newline>'') @
     lit (''- sudo sh -c "while ! snap install microk8s --classic '') @
     [TField ''Version''] @
     lit (''; do sleep 10 ; echo 'Retry snap installation'; done"\<newline>'') @
     lit (''- sudo microk8s status --wait-ready\<newline>'') @
     lit (''- sudo sed -i 's/25000/'') @
     [TField ''PortOfNodeToJoin''] @
     lit (''/' /var/snap/microk8s/current/args/cluster-agent\<newline>'') @
     lit (''- sudo grep Address /var/snap/microk8s/current/var/kubernetes/backend/info.yaml > /var/tmp/port-update.yaml\<newline>'') @
     lit (''- sudo sed -i 's/19001/'') @
     [TField ''PortOfDqlite''] @
     lit (''/' /var/tmp/port-update.yaml\<newline>'') @
     lit (''- sudo microk8s stop\<newline>'') @
     lit (''- sudo mv /var/tmp/port-update.yaml /var/snap/microk8s/current/var/kubernetes/backend/update.yaml\<newline>'') @
     lit (''- sudo microk8s start\<newline>'') @
     lit (''- sudo microk8s status --wait-ready\<newline>'') @
     lit (''- sudo sed -i '/^DNS.1 = kubernetes/a '') @
     [TField ''ControlPlaneEndpointType''] @
     lit (''.100 = '') @
     [TField ''ControlPlaneEndpoint''] @
     lit ([CHR 0x27] @ '' /var/snap/microk8s/current/certs/csr.conf.template\<newline>'') @
     lit (''- sudo sleep 10\<newline>'') @
     lit (''- sudo microk8s status --wait-ready\<newline>'') @
     lit (''- sudo sh -c "while ! microk8s join '') @
     [TField ''IPOfNodeToJoin''] @
     lit ('':'') @
     [TField ''PortOfNodeToJoin''] @
     lit (''/'') @
     [TField ''JoinToken''] @
     lit ('' ; do sleep 10 ; echo 'Retry join'; done"\<newline>'') @
     lit (''- sudo sleep 20\<newline>'') @
     lit (''- sudo microk8s status --wait-ready\<newline>'') @
     lit (''- sudo microk8s add-node --token-ttl '') @
     [TField ''JoinTokenTTLInSecs''] @
     lit ('' --token '') @
     [TField ''JoinToken''] @
     lit (''\<newline>'')\<close>

text \<open>The commands of \<open>runcmd\<close> of the join document, with the struct's fields in place.\<close>

definition join_runcmd :: "ControlPlaneJoinInput \<Rightarrow> string list" where
  \<open>join_runcmd st =
    [''sudo echo ControlPlaneEndpoint '' @ ControlPlaneEndpoint st,
     ''sudo echo ControlPlaneEndpointType '' @ ControlPlaneEndpointType st,
     ''sudo echo JoinTokenTTLInSecs '' @ (itoa (sint (JoinTokenTTLInSecs st))),
     ''sudo echo IPOfNodeToJoin '' @ IPOfNodeToJoin st,
     ''sudo echo PortOfNodeToJoin '' @ PortOfNodeToJoin st,
     ''sudo echo Version '' @ Version st,
     ''sudo iptables -t nat -A OUTPUT -o lo -p tcp --dport 6443 -j REDIRECT --to-port 16443'',
     ''sudo iptables -A PREROUTING -t nat  -p tcp --dport 6443 -j REDIRECT --to-port 16443'',
     ''sudo apt-get update'',
     ''sudo apt-get install iptables-persistent'',
     ''sudo sh -c "while ! snap install microk8s --classic '' @ Version st @ ''; do sleep 10 ; echo 'Retry snap installation'; done"'',
     ''sudo microk8s status --wait-ready'',
     ''sudo sed -i 's/25000/'' @ PortOfNodeToJoin st @ ''/' /var/snap/microk8s/current/args/cluster-agent'',
     ''sudo grep Address /var/snap/microk8s/current/var/kubernetes/backend/info.yaml > /var/tmp/port-update.yaml'',
     ''sudo sed -i 's/19001/'' @ PortOfDqlite st @ ''/' /var/tmp/port-update.yaml'',
     ''sudo microk8s stop'',
     ''sudo mv /var/tmp/port-update.yaml /var/snap/microk8s/current/var/kubernetes/backend/update.yaml'',
     ''sudo microk8s start'',
     ''sudo microk8s status --wait-ready'',
     ''sudo sed -i '/^DNS.1 = kubernetes/a '' @ ControlPlaneEndpointType st @ ''.100 = '' @ ControlPlaneEndpoint st @ [CHR 0x27] @ '' /var/snap/microk8s/current/certs/csr.conf.template'',
     ''sudo sleep 10'',
     ''sudo microk8s status --wait-ready'',
     ''sudo sh -c "while ! microk8s join '' @ IPOfNodeToJoin st @ '':'' @ PortOfNodeToJoin st @ ''/'' @ JoinToken st @ '' ; do sleep 10 ; echo 'Retry join'; done"'',
     ''sudo sleep 20'',
     ''sudo microk8s status --wait-ready'',
     ''sudo microk8s add-node --token-ttl '' @ (itoa (sint (JoinTokenTTLInSecs st))) @ '' --token '' @ JoinToken st]\<close>

section \<open>Lemmas\<close>

lemma controlPlaneJoinCloudInit_print: "controlPlaneJoinCloudInit = print_tpl controlPlaneJoinCloudInit_nodes"
  by code_simp

lemma controlPlaneJoinCloudInit_wf: "list_all wf_node controlPlaneJoinCloudInit_nodes"
  by code_simp

lemma exec_join_nodes:
  "exec_nodes (join_fields st) controlPlaneJoinCloudInit_nodes = Inr (cloud_config (Header st) [] (join_runcmd st))"
  by (simp add: controlPlaneJoinCloudInit_nodes_def join_fields_def cloud_config_def runcmd_entry_def join_runcmd_def)

lemma generate_join_template:
  "generate kind controlPlaneJoinCloudInit (join_fields st) = Inr (cloud_config (Header st) [] (join_runcmd st))"
  by (simp add: controlPlaneJoinCloudInit_print generate_print_tpl [OF controlPlaneJoinCloudInit_wf] exec_join_nodes)

lemma NewJoinControlPlane_generate:
  assumes "extractVersionParts (Version input) = Inr (major, minor)"
  shows "fst (NewJoinControlPlane input) =
           (case generate ''JoinControlplane'' controlPlaneJoinCloudInit (join_fields (snd (NewJoinControlPlane input))) of
              Inl err \<Rightarrow> Inl (wrapf err join_error_context) | Inr userData \<Rightarrow> Inr userData)"
    and "Header (snd (NewJoinControlPlane input)) = cloudConfigHeader"
    and "Version (snd (NewJoinControlPlane input)) = generateSnapChannelArgument major minor"
    and "IPOfNodeToJoin (snd (NewJoinControlPlane input)) = IPOfNodeToJoin input"
    and "PortOfNodeToJoin (snd (NewJoinControlPlane input)) = PortOfNodeToJoin input"
    and "JoinToken (snd (NewJoinControlPlane input)) = JoinToken input"
    and "ControlPlaneEndpoint (snd (NewJoinControlPlane input)) = ControlPlaneEndpoint input"
    and "ControlPlaneEndpointType (snd (NewJoinControlPlane input)) =
           (if ParseIP (ControlPlaneEndpoint input) \<noteq> None then ''IP'' else ''DNS'')"
  using NewJoinControlPlane_prepare_ok [OF assms, of generate]
  by (simp_all add: NewJoinControlPlane_def Let_def prepare_def join_classify_endpoint_def join_set_files_def)

lemma join_runcmd_installs:
  "sublist (''snap install microk8s --classic '' @ Version st) (cloud_config hdr files (join_runcmd st))"
proof (rule cloud_config_runcmd)
  show \<open>''sudo sh -c "while ! '' @ (''snap install microk8s --classic '' @ Version st) @
      ''; do sleep 10 ; echo 'Retry snap installation'; done"'' \<in> set (join_runcmd st)\<close>
    by (simp add: join_runcmd_def)
qed (rule sublist_appendI)

lemma join_runcmd_join:
  "sublist (''microk8s join '' @ IPOfNodeToJoin st @ '':'' @ PortOfNodeToJoin st @ ''/'' @ JoinToken st)
     (cloud_config hdr files (join_runcmd st))"
proof (rule cloud_config_runcmd)
  show \<open>''sudo sh -c "while ! '' @ (''microk8s join '' @ IPOfNodeToJoin st @ '':'' @ PortOfNodeToJoin st @ ''/'' @ JoinToken st) @
      '' ; do sleep 10 ; echo 'Retry join'; done"'' \<in> set (join_runcmd st)\<close>
    by (simp add: join_runcmd_def)
qed (rule sublist_appendI)

lemma join_runcmd_csr:
  "sublist (''/^DNS.1 = kubernetes/a '' @ ControlPlaneEndpointType st @ ''.100 = '' @ ControlPlaneEndpoint st)
     (cloud_config hdr files (join_runcmd st))"
proof (rule cloud_config_runcmd)
  show "(''sudo sed -i '' @ [CHR 0x27]) @ (''/^DNS.1 = kubernetes/a '' @ ControlPlaneEndpointType st @ ''.100 = '' @
      ControlPlaneEndpoint st) @ [CHR 0x27] @ '' /var/snap/microk8s/current/certs/csr.conf.template''
      \<in> set (join_runcmd st)"
    by (simp add: join_runcmd_def)
qed (rule sublist_appendI)

section \<open>The rendered user data\<close>

text \<open>
  C23: when the version decomposes, the join builder produces user data, and it
  is exactly the cloud-config document with the fixed header, no files, and the
  join commands with the fields of the struct as the builder leaves it: the
  channel, the endpoint type, the node to join with its port, the token.
\<close>

theorem NewJoinControlPlane_renders:
  assumes "extractVersionParts (Version input) = Inr (major, minor)"
  shows "fst (NewJoinControlPlane input) =
    Inr (cloud_config cloudConfigHeader [] (join_runcmd (snd (NewJoinControlPlane input))))"
  using NewJoinControlPlane_generate [OF assms] by (simp add: generate_join_template)

theorem NewJoinControlPlane_renders_witness:
  "extractVersionParts (Version example_join_input) = Inr (1, 21) \<and>
   fst (NewJoinControlPlane example_join_input) =
    Inr (cloud_config cloudConfigHeader [] (join_runcmd (snd (NewJoinControlPlane example_join_input))))"
  using example_join_version NewJoinControlPlane_renders [OF example_join_version] by blast

text \<open>
  C30: the join user data joins the cluster through the node and port the
  caller named, with the caller's token: it runs
  \<open>microk8s join IP:PORT/TOKEN\<close> with the three fields as given.
\<close>

theorem NewJoinControlPlane_joins_node:
  assumes "extractVersionParts (Version input) = Inr (major, minor)"
  shows "\<exists>out. fst (NewJoinControlPlane input) = Inr out \<and>
     sublist (''microk8s join '' @ IPOfNodeToJoin input @ '':'' @ PortOfNodeToJoin input @ ''/'' @ JoinToken input) out"
proof -
  let ?st = "snd (NewJoinControlPlane input)"
  note run = NewJoinControlPlane_generate [OF assms]
  show ?thesis
  proof (intro exI conjI)
    show "fst (NewJoinControlPlane input) = Inr (cloud_config (Header ?st) [] (join_runcmd ?st))"
      using run(1) by (simp add: generate_join_template)
    show "sublist (''microk8s join '' @ IPOfNodeToJoin input @ '':'' @ PortOfNodeToJoin input @ ''/'' @ JoinToken input)
        (cloud_config (Header ?st) [] (join_runcmd ?st))"
      by (rule join_runcmd_join [of ?st, unfolded run(4,5,6)])
  qed
qed

theorem NewJoinControlPlane_joins_node_witness:
  "extractVersionParts (Version example_join_input) = Inr (1, 21) \<and>
   (\<exists>out. fst (NewJoinControlPlane example_join_input) = Inr out \<and>
     sublist (''microk8s join '' @ ''10.0.0.5'' @ '':'' @ ''25000'' @ ''/'' @ ''token'') out)"
proof -
  have f: "IPOfNodeToJoin example_join_input = ''10.0.0.5''" "PortOfNodeToJoin example_join_input = ''25000''"
    "JoinToken example_join_input = ''token''"
    by (simp_all add: example_join_input_def)
  show ?thesis using example_join_version NewJoinControlPlane_joins_node [OF example_join_version]
    unfolding f by blast
qed

end
