(* ===== verification/Spec2Isabelle.thy ===== *)
theory Spec2Isabelle
  imports InitRender JoinRender
begin

text \<open>
  \<^bold>\<open>A verification model of the MicroK8s control-plane cloud-init builders.\<close>

  The program, \<open>src/controllers/cloudinit/\<close> of the Cluster API bootstrap
  provider for MicroK8s, produces the cloud-init user data a new virtual machine
  runs on first boot to become a control-plane node. Two builders share one shape:
  \<open>NewInitControlPlane\<close> (\<open>controlplane_init.go\<close>) for the node that creates the
  cluster and \<open>NewJoinControlPlane\<close> (\<open>controlplane_join.go\<close>) for a node that
  joins it. Each takes a pointer to its input struct, writes the derived fields
  into it (header, files to write, snap channel, endpoint type, and for the
  bootstrap node the addon list), and hands a fixed template and the struct to
  the renderer \<open>generate\<close>. The bootstrap builder splices the quoted addon list
  into the template text with \<open>strings.Replace\<close> before rendering; the joining
  builder runs the shared preparation step \<open>prepare\<close> first and wraps a
  renderer error with context.

  \<^bold>\<open>Theories.\<close>
  \<^item> \<open>Prelude\<close>: Go's types (\<open>bytes\<close>, \<open>byte\<close>, \<open>int64\<close>), the error values
    (\<open>error\<close>, \<open>error_msg\<close> for \<open>Error()\<close>, \<open>cause\<close> for \<open>errors.Cause\<close>,
    \<open>wrapf\<close> for \<open>errors.Wrapf\<close>), decimal numerals, and the collections
    \<open>model_simps\<close> (rules that evaluate the model on concrete inputs) and
    \<open>str_simps\<close>.
  \<^item> \<open>GoStdlib\<close>: \<open>strings.Split\<close>, \<open>strings.Join\<close>, \<open>strings.Replace\<close> (n = -1)
    and \<open>strconv\<close>; the split/join roundtrip, and that replacement distributes
    over newline-terminated pieces of a template.
  \<^item> \<open>Version\<close>: \<open>extractVersionParts\<close> and \<open>generateSnapChannelArgument\<close>
    (not under \<open>src/\<close>: modelled from the specification's contract), with the
    roundtrip from numbers to version text and from channel back to numbers.
  \<^item> \<open>NetIP\<close>: \<open>net.ParseIP\<close> as Go 1.22 implements it through \<open>net/netip\<close>:
    the IPv4 field loop (leading zeros and octets above 255 rejected), the IPv6
    loop with \<open>::\<close> and an embedded IPv4 tail, zones rejected; the
    dotted-quad printer and the roundtrip \<open>parseIPv4 (dotted_quad bs) = Some bs\<close>.
  \<^item> \<open>Template\<close>: the renderer \<open>generate\<close> on the subset of \<open>text/template\<close>
    the templates use (\<open>{{.Field}}\<close>, \<open>{{.Field | Indent n}}\<close>), with the
    lemmas that render a template piece by piece.
  \<^item> \<open>BaseUserData\<close>: the embedded struct as a record that both inputs extend,
    the header and sentinel constants, \<open>prepare\<close>, and the certificate supplier
    \<open>AsFiles\<close> (modelled from the specification).
  \<^item> \<open>InitControlPlane\<close> and \<open>JoinControlPlane\<close>: the templates byte for byte,
    the input records, one definition per step of each builder in the code's
    order, and the builders \<open>NewInitControlPlane_with\<close> and
    \<open>NewJoinControlPlane_with\<close>, parametric in the renderer (and the preparation
    step), instantiated as \<open>NewInitControlPlane\<close> and \<open>NewJoinControlPlane\<close>.
    A builder returns its result (\<open>Inl\<close> error or \<open>Inr\<close> bytes) together with
    the struct as the call leaves it, which is how the pointer argument is kept.
  \<^item> \<open>Shell\<close>: how \<open>sh\<close> lexes a list of single-quoted words, the reader
    of the addon loop; quoting words and lexing them back is the identity when
    no word contains a quote.
  \<^item> \<open>CloudConfig\<close>: the format of the user data (specification, section 5)
    as a function of a header, the files to write and the commands, the contract
    the rendering theorems are stated against.
  \<^item> \<open>InitRender\<close> and \<open>JoinRender\<close>: each template literal proved equal to
    a printed list of template nodes (by \<open>code_simp\<close>, the closed
    computations on the 2 kB literals, with the split of the bootstrap template
    at its addon placeholder), and from it the user data each builder renders,
    for every input: the addon splice of \<open>strings.Replace\<close>, the parse and the
    execution are computed on the nodes with the lemmas of \<open>Template\<close>
    (printing and parsing are inverse on well-formed nodes; replacing a
    placeholder substitutes its node). \<open>InitRender\<close> also holds the addon
    injection and the unclosed-action failure, and the signed token lifetime;
    \<open>JoinRender\<close> the join command with the caller's node, port and token.
    The data a template sees is an association list of the struct's fields with
    their values (\<open>init_fields\<close>, \<open>join_fields\<close>), the two file lists
    included, printed as \<open>fmt\<close> prints a slice of structs.
  \<^item> this theory: the properties that relate the two builders or follow a value
    through several components.

  \<^bold>\<open>What is proved.\<close> The error paths of both builders (a malformed version, a
  failing preparation step, a failing renderer: propagated as it is by the
  bootstrap builder, wrapped with a context naming the control-plane join and
  keeping its cause by the joining builder); the addon normalisation (nil or empty
  becomes \<open>[dns]\<close>, \<open>dns\<close> appended when no name contains it, unchanged
  otherwise, idempotent, always naming a \<open>dns\<close> addon); the endpoint type (\<open>IP\<close>
  exactly when \<open>net.ParseIP\<close> accepts the endpoint, the same in both builders);
  the order of the files to write; that each builder ignores what the caller
  left in the fields it overwrites (the bootstrap builder on every path, its
  struct included; the joining builder in its result); that the snap channel encodes the version's
  major and minor numbers; that a struct the builder has already processed
  cannot be processed again; and, end to end, the exact user data each builder
  renders for any input whose version decomposes (for the bootstrap builder, and
  whose addon names have no brace): the header, the CA files, and the commands
  with the final fields in place. Across the builders: both install the same
  snap channel for the same version; both classify every dotted quad as an IP
  endpoint (the IPv4 parser of \<open>NetIP\<close> reads back every address printed by
  \<open>dotted_quad\<close>), and every host name without a colon, and a dotted quad
  with a \<open>:port\<close>, as a DNS endpoint; every file directive either builder leaves is an additional
  file of the caller or a certificate file of mode \<open>0640\<close> or \<open>0600\<close> with
  content. For addon names that are not plain text, what the splice before
  parsing does: an action inside a name is executed (\<open>{{.JoinToken}}\<close> renders
  the token, \<open>{{.WriteFiles}}\<close> prints every certificate and key file with
  its contents into the addon loop), and an unclosed \<open>{{\<close> makes the builder fail with the parse error.
  The CA key and certificate appear in the bootstrap document as YAML literal
  blocks, every line of the caller's text indented by four spaces.
  When no addon name contains a single quote, the shell reads the addon loop of
  the bootstrap script as exactly the normalised addon list; when a name contains
  one, the shell reads some other list: every word it reads is free of quotes. The endpoint classification feeds the certificate
  request of the API server: both documents add the endpoint to it as
  \<open>IP.100\<close> when \<open>net.ParseIP\<close> accepts it and as \<open>DNS.100\<close> otherwise.

  \<^bold>\<open>Bounds.\<close> Version components are read as by \<open>strconv.Atoi\<close> on
  64 bits, an assumption of the model: the specification names no width, and no
  property depends on the bound. The join token lifetime is an \<open>int64\<close>, a
  \<open>64 word\<close> printed as its signed value: the rendered lifetime is negative
  exactly when the word's unsigned reading is at least \<open>2^63\<close>, and is passed
  on unchecked. IPv4 octets are \<open>8 word\<close>s, so each printed octet is at most
  255 and the parser's range check never fires on them. No loop of the model
  needs fuel: the loops of the code (the addon search with its \<open>break\<close>, the
  quoting loop) are structural recursion over the addon list, and the parser
  loops of the collaborators are \<open>function\<close>s with a length measure; every
  builder call therefore returns, with an error or the user data.

  \<^bold>\<open>Not modelled.\<close> The orchestrator that calls the builders and ships the
  bytes; certificate generation; actions of \<open>text/template\<close> other than the two
  the templates use (reported as parse errors by the model); the text of the
  parser's error messages, which is the model's own (the properties on a failing
  parse pin the wrapping and the kind, not Go's message); signs and a \<open>v\<close>
  prefix in version components, which the model's \<open>strconv\<close> reading rejects; the embedded
  \<open>secret.Certificates\<close> as template data, a slice of pointers that \<open>fmt\<close>
  prints as heap addresses, and the methods it promotes, which a template could
  call (an addon name reaching them is an execution error of the model, not the
  addresses or the method's result Go would print); the fields of a file
  directive other than content, path and permissions. \<open>extractVersionParts\<close>,
  \<open>generateSnapChannelArgument\<close>, \<open>generate\<close>, \<open>prepare\<close>, the header and
  sentinel constants and \<open>AsFiles\<close> are outside \<open>src/\<close> and follow the
  specification; in particular the model's \<open>prepare\<close> never fails, so the
  failure path of the joining builder is proved for any preparation step.
\<close>

section \<open>The two builders agree\<close>

text \<open>
  C9: the bootstrap and the joining builder classify the same endpoint the same
  way: the duplicated code in the two files never disagrees.
\<close>

theorem builders_agree_endpoint_type:
  assumes "extractVersionParts (ControlPlaneInput.Version i) = Inr p"
    and "extractVersionParts (ControlPlaneJoinInput.Version j) = Inr q"
    and "ControlPlaneInput.ControlPlaneEndpoint i = ControlPlaneJoinInput.ControlPlaneEndpoint j"
  shows "ControlPlaneInput.ControlPlaneEndpointType (snd (NewInitControlPlane_with g i)) =
         ControlPlaneJoinInput.ControlPlaneEndpointType (snd (NewJoinControlPlane_with prepare g' j))"
proof -
  obtain a b where pa: "extractVersionParts (ControlPlaneInput.Version i) = Inr (a, b)"
    using assms(1) by (cases p) simp
  obtain c d where qa: "extractVersionParts (ControlPlaneJoinInput.Version j) = Inr (c, d)"
    using assms(2) by (cases q) simp
  show ?thesis
    using NewInitControlPlane_state [OF pa, of g] NewJoinControlPlane_endpoint_type [OF qa, of g'] assms(3)
    by simp
qed

theorem builders_agree_endpoint_type_witness:
  "extractVersionParts (ControlPlaneInput.Version example_init_input) = Inr (1, 21) \<and>
   extractVersionParts (ControlPlaneJoinInput.Version (example_join_input\<lparr>ControlPlaneJoinInput.ControlPlaneEndpoint := ''10.0.0.5''\<rparr>)) = Inr (1, 21) \<and>
   ControlPlaneInput.ControlPlaneEndpoint example_init_input =
     ControlPlaneJoinInput.ControlPlaneEndpoint (example_join_input\<lparr>ControlPlaneJoinInput.ControlPlaneEndpoint := ''10.0.0.5''\<rparr>) \<and>
   ControlPlaneInput.ControlPlaneEndpointType (snd (NewInitControlPlane example_init_input)) =
   ControlPlaneJoinInput.ControlPlaneEndpointType
     (snd (NewJoinControlPlane (example_join_input\<lparr>ControlPlaneJoinInput.ControlPlaneEndpoint := ''10.0.0.5''\<rparr>)))"
proof -
  have h1: "extractVersionParts (ControlPlaneInput.Version example_init_input) = Inr (1, 21)"
    by (rule example_init_version)
  have h2: "extractVersionParts (ControlPlaneJoinInput.Version (example_join_input\<lparr>ControlPlaneJoinInput.ControlPlaneEndpoint := ''10.0.0.5''\<rparr>)) = Inr (1, 21)"
    using example_join_version by simp
  have h3: "ControlPlaneInput.ControlPlaneEndpoint example_init_input =
     ControlPlaneJoinInput.ControlPlaneEndpoint (example_join_input\<lparr>ControlPlaneJoinInput.ControlPlaneEndpoint := ''10.0.0.5''\<rparr>)"
    by (simp add: example_init_input_def)
  show ?thesis
    using h1 h2 h3 builders_agree_endpoint_type [OF h1 h2 h3, of generate generate]
    by (simp add: NewInitControlPlane_def NewJoinControlPlane_def)
qed

section \<open>The version, from the request to the snap channel\<close>

text \<open>
  C15: the snap channel the bootstrap builder writes into the request encodes the
  major and minor numbers of the version: reading the channel's track as a
  version gives them back.
\<close>

theorem NewInitControlPlane_channel_roundtrip:
  assumes "extractVersionParts (ControlPlaneInput.Version input) = Inr (major, minor)"
  shows "map_option extractVersionParts
           (channel_track (ControlPlaneInput.Version (snd (NewInitControlPlane_with gen input)))) =
         Some (Inr (major, minor))"
proof -
  have "ControlPlaneInput.Version (snd (NewInitControlPlane_with gen input)) =
        generateSnapChannelArgument major minor"
    using NewInitControlPlane_state [OF assms, of gen] by simp
  moreover have "0 \<le> major \<and> 0 \<le> minor \<and> major \<le> max_go_int \<and> minor \<le> max_go_int"
    using assms by (rule extractVersionParts_nonneg)
  ultimately show ?thesis by (simp add: channel_roundtrip)
qed

theorem NewInitControlPlane_channel_roundtrip_witness:
  "extractVersionParts (ControlPlaneInput.Version example_init_input) = Inr (1, 21) \<and>
   map_option extractVersionParts
     (channel_track (ControlPlaneInput.Version (snd (NewInitControlPlane example_init_input)))) =
   Some (Inr (1, 21))"
  using example_init_version NewInitControlPlane_channel_roundtrip [OF example_init_version, of generate]
  by (simp add: NewInitControlPlane_def)

text \<open>
  C17: the builders consume their request: once a call has replaced the version
  by the channel argument, a second call on the same struct fails with a version
  error, whatever the renderers.
\<close>

theorem NewInitControlPlane_second_call_fails:
  assumes "extractVersionParts (ControlPlaneInput.Version input) = Inr (major, minor)"
  shows "\<exists>e. fst (NewInitControlPlane_with gen' (snd (NewInitControlPlane_with gen input))) = Inl e"
proof -
  have "ControlPlaneInput.Version (snd (NewInitControlPlane_with gen input)) =
        generateSnapChannelArgument major minor"
    using NewInitControlPlane_state [OF assms, of gen] by simp
  then obtain e where "extractVersionParts (ControlPlaneInput.Version (snd (NewInitControlPlane_with gen input))) = Inl e"
    using channel_not_version by metis
  then show ?thesis
    by (simp add: NewInitControlPlane_with_def)
qed

theorem NewInitControlPlane_second_call_fails_witness:
  "extractVersionParts (ControlPlaneInput.Version example_init_input) = Inr (1, 21) \<and>
   (\<exists>e. fst (NewInitControlPlane (snd (NewInitControlPlane example_init_input))) = Inl e)"
  using example_init_version NewInitControlPlane_second_call_fails [OF example_init_version, of generate generate]
  by (simp add: NewInitControlPlane_def)

section \<open>Endpoint classification\<close>

text \<open>
  C18: an endpoint with no colon and some byte other than a digit or a dot, any
  host name such as \<open>cluster.example.com\<close> or \<open>localhost\<close>, is not an IP
  literal to \<open>net.ParseIP\<close>, and both builders record the endpoint type
  \<open>DNS\<close> for it.
\<close>

theorem builders_classify_hostname:
  assumes "extractVersionParts (ControlPlaneInput.Version i) = Inr (a, b)"
    and "extractVersionParts (ControlPlaneJoinInput.Version j) = Inr (c, d)"
    and "CHR '':'' \<notin> set (ControlPlaneInput.ControlPlaneEndpoint i)"
    and "\<exists>x \<in> set (ControlPlaneInput.ControlPlaneEndpoint i). \<not> is_digit x \<and> x \<noteq> CHR ''.''"
    and "ControlPlaneJoinInput.ControlPlaneEndpoint j = ControlPlaneInput.ControlPlaneEndpoint i"
  shows "ControlPlaneInput.ControlPlaneEndpointType (snd (NewInitControlPlane i)) = ''DNS'' \<and>
         ControlPlaneJoinInput.ControlPlaneEndpointType (snd (NewJoinControlPlane j)) = ''DNS''"
proof -
  have "ParseIP (ControlPlaneInput.ControlPlaneEndpoint i) = None"
  proof (rule ccontr)
    assume "ParseIP (ControlPlaneInput.ControlPlaneEndpoint i) \<noteq> None"
    from ParseIP_chars [OF this] assms(3,4) show False by (auto simp: list_all_iff)
  qed
  then show ?thesis
    using NewInitControlPlane_state [OF assms(1), of generate] NewJoinControlPlane_endpoint_type [OF assms(2), of generate]
      assms(5)
    by (simp add: NewInitControlPlane_def NewJoinControlPlane_def)
qed

theorem builders_classify_hostname_witness:
  "extractVersionParts (ControlPlaneInput.Version (example_init_input\<lparr>ControlPlaneInput.ControlPlaneEndpoint := ''cluster.example.com''\<rparr>)) = Inr (1, 21) \<and>
   extractVersionParts (ControlPlaneJoinInput.Version example_join_input) = Inr (1, 21) \<and>
   CHR '':'' \<notin> set (ControlPlaneInput.ControlPlaneEndpoint (example_init_input\<lparr>ControlPlaneInput.ControlPlaneEndpoint := ''cluster.example.com''\<rparr>)) \<and>
   (\<exists>x \<in> set (ControlPlaneInput.ControlPlaneEndpoint (example_init_input\<lparr>ControlPlaneInput.ControlPlaneEndpoint := ''cluster.example.com''\<rparr>)).
      \<not> is_digit x \<and> x \<noteq> CHR ''.'') \<and>
   ControlPlaneJoinInput.ControlPlaneEndpoint example_join_input =
     ControlPlaneInput.ControlPlaneEndpoint (example_init_input\<lparr>ControlPlaneInput.ControlPlaneEndpoint := ''cluster.example.com''\<rparr>) \<and>
   ControlPlaneInput.ControlPlaneEndpointType (snd (NewInitControlPlane (example_init_input\<lparr>ControlPlaneInput.ControlPlaneEndpoint := ''cluster.example.com''\<rparr>))) = ''DNS'' \<and>
   ControlPlaneJoinInput.ControlPlaneEndpointType (snd (NewJoinControlPlane example_join_input)) = ''DNS''"
proof -
  let ?i = "example_init_input\<lparr>ControlPlaneInput.ControlPlaneEndpoint := ''cluster.example.com''\<rparr>"
  have v: "extractVersionParts (ControlPlaneInput.Version ?i) = Inr (1, 21)"
    using example_init_version by simp
  have n: "CHR '':'' \<notin> set (ControlPlaneInput.ControlPlaneEndpoint ?i)"
    by simp
  have x: "\<exists>x \<in> set (ControlPlaneInput.ControlPlaneEndpoint ?i). \<not> is_digit x \<and> x \<noteq> CHR ''.''"
    by (simp add: is_digit_def)
  have e: "ControlPlaneJoinInput.ControlPlaneEndpoint example_join_input = ControlPlaneInput.ControlPlaneEndpoint ?i"
    by (simp add: example_join_input_def)
  show ?thesis
    using v example_join_version n x e builders_classify_hostname [OF v example_join_version n x e] by blast
qed

text \<open>
  C31: an endpoint written as host and port, a dotted quad followed by
  \<open>:port\<close>, is not an IP literal to \<open>net.ParseIP\<close>: both builders record the
  endpoint type \<open>DNS\<close> for it, so the certificate request names the address
  with its port as a DNS name.
\<close>

theorem builders_classify_host_port:
  assumes "length bs = 4"
    and "extractVersionParts (ControlPlaneInput.Version i) = Inr (a, b)"
    and "extractVersionParts (ControlPlaneJoinInput.Version j) = Inr (c, d)"
    and "ControlPlaneInput.ControlPlaneEndpoint i = dotted_quad bs @ CHR '':'' # port"
    and "ControlPlaneJoinInput.ControlPlaneEndpoint j = dotted_quad bs @ CHR '':'' # port"
  shows "ControlPlaneInput.ControlPlaneEndpointType (snd (NewInitControlPlane i)) = ''DNS'' \<and>
         ControlPlaneJoinInput.ControlPlaneEndpointType (snd (NewJoinControlPlane j)) = ''DNS''"
  using NewInitControlPlane_state [OF assms(2), of generate] NewJoinControlPlane_endpoint_type [OF assms(3), of generate]
    ParseIP_dotted_quad_port [OF assms(1)] assms(4,5)
  by (simp add: NewInitControlPlane_def NewJoinControlPlane_def)

theorem builders_classify_host_port_witness:
  "length [10, 0, 0, 5 :: byte] = 4 \<and>
   extractVersionParts (ControlPlaneInput.Version (example_init_input\<lparr>ControlPlaneInput.ControlPlaneEndpoint := dotted_quad [10, 0, 0, 5] @ CHR '':'' # ''6443''\<rparr>)) = Inr (1, 21) \<and>
   extractVersionParts (ControlPlaneJoinInput.Version (example_join_input\<lparr>ControlPlaneJoinInput.ControlPlaneEndpoint := dotted_quad [10, 0, 0, 5] @ CHR '':'' # ''6443''\<rparr>)) = Inr (1, 21) \<and>
   ControlPlaneInput.ControlPlaneEndpointType (snd (NewInitControlPlane (example_init_input\<lparr>ControlPlaneInput.ControlPlaneEndpoint := dotted_quad [10, 0, 0, 5] @ CHR '':'' # ''6443''\<rparr>))) = ''DNS'' \<and>
   ControlPlaneJoinInput.ControlPlaneEndpointType (snd (NewJoinControlPlane (example_join_input\<lparr>ControlPlaneJoinInput.ControlPlaneEndpoint := dotted_quad [10, 0, 0, 5] @ CHR '':'' # ''6443''\<rparr>))) = ''DNS''"
proof -
  have l: "length [10, 0, 0, 5 :: byte] = 4" by simp
  have vi: "extractVersionParts (ControlPlaneInput.Version (example_init_input\<lparr>ControlPlaneInput.ControlPlaneEndpoint := dotted_quad [10, 0, 0, 5] @ CHR '':'' # ''6443''\<rparr>)) = Inr (1, 21)"
    using example_init_version by simp
  have vj: "extractVersionParts (ControlPlaneJoinInput.Version (example_join_input\<lparr>ControlPlaneJoinInput.ControlPlaneEndpoint := dotted_quad [10, 0, 0, 5] @ CHR '':'' # ''6443''\<rparr>)) = Inr (1, 21)"
    using example_join_version by simp
  show ?thesis using l vi vj builders_classify_host_port [OF l vi vj] by simp
qed

text \<open>
  C26: an endpoint written as a dotted quad, any four bytes in decimal, is an IP
  literal to \<open>net.ParseIP\<close>, so both builders record the endpoint type
  \<open>IP\<close> for it and write \<open>IP.100\<close> into the certificate request template.
\<close>

theorem builders_classify_dotted_quad:
  assumes "length bs = 4"
    and "extractVersionParts (ControlPlaneInput.Version i) = Inr (a, b)"
    and "extractVersionParts (ControlPlaneJoinInput.Version j) = Inr (c, d)"
    and "ControlPlaneInput.ControlPlaneEndpoint i = dotted_quad bs"
    and "ControlPlaneJoinInput.ControlPlaneEndpoint j = dotted_quad bs"
  shows "ControlPlaneInput.ControlPlaneEndpointType (snd (NewInitControlPlane i)) = ''IP'' \<and>
         ControlPlaneJoinInput.ControlPlaneEndpointType (snd (NewJoinControlPlane j)) = ''IP''"
  using NewInitControlPlane_state [OF assms(2), of generate] NewJoinControlPlane_endpoint_type [OF assms(3), of generate]
    ParseIP_dotted_quad [OF assms(1)] assms(4,5)
  by (simp add: NewInitControlPlane_def NewJoinControlPlane_def)

theorem builders_classify_dotted_quad_witness:
  "length [192, 168, 0, 10 :: byte] = 4 \<and>
   extractVersionParts (ControlPlaneInput.Version (example_init_input\<lparr>ControlPlaneInput.ControlPlaneEndpoint := dotted_quad [192, 168, 0, 10]\<rparr>)) = Inr (1, 21) \<and>
   extractVersionParts (ControlPlaneJoinInput.Version (example_join_input\<lparr>ControlPlaneJoinInput.ControlPlaneEndpoint := dotted_quad [192, 168, 0, 10]\<rparr>)) = Inr (1, 21) \<and>
   ControlPlaneInput.ControlPlaneEndpoint (example_init_input\<lparr>ControlPlaneInput.ControlPlaneEndpoint := dotted_quad [192, 168, 0, 10]\<rparr>) = dotted_quad [192, 168, 0, 10] \<and>
   ControlPlaneJoinInput.ControlPlaneEndpoint (example_join_input\<lparr>ControlPlaneJoinInput.ControlPlaneEndpoint := dotted_quad [192, 168, 0, 10]\<rparr>) = dotted_quad [192, 168, 0, 10] \<and>
   ControlPlaneInput.ControlPlaneEndpointType (snd (NewInitControlPlane (example_init_input\<lparr>ControlPlaneInput.ControlPlaneEndpoint := dotted_quad [192, 168, 0, 10]\<rparr>))) = ''IP'' \<and>
   ControlPlaneJoinInput.ControlPlaneEndpointType (snd (NewJoinControlPlane (example_join_input\<lparr>ControlPlaneJoinInput.ControlPlaneEndpoint := dotted_quad [192, 168, 0, 10]\<rparr>))) = ''IP''"
proof -
  have l: "length [192, 168, 0, 10 :: byte] = 4" by simp
  have vi: "extractVersionParts (ControlPlaneInput.Version (example_init_input\<lparr>ControlPlaneInput.ControlPlaneEndpoint := dotted_quad [192, 168, 0, 10]\<rparr>)) = Inr (1, 21)"
    using example_init_version by simp
  have vj: "extractVersionParts (ControlPlaneJoinInput.Version (example_join_input\<lparr>ControlPlaneJoinInput.ControlPlaneEndpoint := dotted_quad [192, 168, 0, 10]\<rparr>)) = Inr (1, 21)"
    using example_join_version by simp
  show ?thesis using l vi vj builders_classify_dotted_quad [OF l vi vj] by simp
qed

section \<open>What the templates render\<close>

text \<open>
  C25: for the same version string, the bootstrap and the join user data install
  MicroK8s from the same snap channel: both documents contain
  \<open>snap install microk8s --classic\<close> followed by the channel built from the
  version's major and minor numbers.
\<close>

theorem builders_render_same_channel:
  assumes "extractVersionParts (ControlPlaneInput.Version i) = Inr (major, minor)"
    and "ControlPlaneJoinInput.Version j = ControlPlaneInput.Version i"
    and "CHR ''{'' \<notin> set (concat (ensure_dns_addon (Addons i)))"
  shows "\<exists>a b. fst (NewInitControlPlane i) = Inr a \<and> fst (NewJoinControlPlane j) = Inr b \<and>
     sublist (''snap install microk8s --classic '' @ generateSnapChannelArgument major minor) a \<and>
     sublist (''snap install microk8s --classic '' @ generateSnapChannelArgument major minor) b"
proof -
  have vj: "extractVersionParts (ControlPlaneJoinInput.Version j) = Inr (major, minor)"
    using assms(1,2) by simp
  let ?si = "snd (NewInitControlPlane i)" and ?sj = "snd (NewJoinControlPlane j)"
  let ?A = "addons_string (ensure_dns_addon (Addons i))"
  note ri = NewInitControlPlane_generate [OF assms(1)] and rj = NewJoinControlPlane_generate [OF vj]
  show ?thesis
  proof (intro exI conjI)
    show "fst (NewInitControlPlane i) = Inr (cloud_config (Header ?si) (init_files ?si) (init_runcmd ?si ?A))"
      using ri(1) generate_init_template [OF assms(3)] by simp
    show "fst (NewJoinControlPlane j) = Inr (cloud_config (Header ?sj) [] (join_runcmd ?sj))"
      using rj(1) generate_join_template by simp
    show "sublist (''snap install microk8s --classic '' @ generateSnapChannelArgument major minor)
        (cloud_config (Header ?si) (init_files ?si) (init_runcmd ?si ?A))"
      by (rule init_runcmd_installs [of ?si, unfolded ri(3)])
    show "sublist (''snap install microk8s --classic '' @ generateSnapChannelArgument major minor)
        (cloud_config (Header ?sj) [] (join_runcmd ?sj))"
      by (rule join_runcmd_installs [of ?sj, unfolded rj(3)])
  qed
qed

theorem builders_render_same_channel_witness:
  "extractVersionParts (ControlPlaneInput.Version example_init_input) = Inr (1, 21) \<and>
   ControlPlaneJoinInput.Version example_join_input = ControlPlaneInput.Version example_init_input \<and>
   CHR ''{'' \<notin> set (concat (ensure_dns_addon (Addons example_init_input))) \<and>
   (\<exists>a b. fst (NewInitControlPlane example_init_input) = Inr a \<and> fst (NewJoinControlPlane example_join_input) = Inr b \<and>
     sublist (''snap install microk8s --classic '' @ generateSnapChannelArgument 1 21) a \<and>
     sublist (''snap install microk8s --classic '' @ generateSnapChannelArgument 1 21) b)"
proof -
  have v: "ControlPlaneJoinInput.Version example_join_input = ControlPlaneInput.Version example_init_input"
    by (simp add: example_join_input_def example_init_input_def)
  show ?thesis
    using example_init_version v example_init_no_brace
      builders_render_same_channel [OF example_init_version v example_init_no_brace] by blast
qed

text \<open>
  C28: whatever the outcome, every file directive a builder leaves in
  \<open>WriteFiles\<close> is one of the caller's additional files or a certificate file
  with content and the mode of a certificate (\<open>0640\<close>) or a key (\<open>0600\<close>):
  the builders never write a certificate file that is empty or readable by all.
\<close>

theorem builders_write_files_typed:
  "list_all (\<lambda>f. f \<in> set (AdditionalFiles i) \<or> cert_file_ok f) (WriteFiles (snd (NewInitControlPlane_with gen i))) \<and>
   list_all (\<lambda>f. f \<in> set (AdditionalFiles j) \<or> cert_file_ok f)
     (WriteFiles (snd (NewJoinControlPlane_with prepare gen' j)))"
proof
  show "list_all (\<lambda>f. f \<in> set (AdditionalFiles i) \<or> cert_file_ok f) (WriteFiles (snd (NewInitControlPlane_with gen i)))"
    by (cases rule: NewInitControlPlane_with_cases [of gen i]) simp_all
  show "list_all (\<lambda>f. f \<in> set (AdditionalFiles j) \<or> cert_file_ok f)
     (WriteFiles (snd (NewJoinControlPlane_with prepare gen' j)))"
    by (cases rule: NewJoinControlPlane_with_cases [of gen' j]) (simp_all add: prepare_def)
qed

text \<open>
  C34: what the endpoint classification is for. Both documents append the
  control-plane endpoint to the certificate request template of the API server
  as \<open>IP.100 = endpoint\<close> when \<open>net.ParseIP\<close> accepts it and as
  \<open>DNS.100 = endpoint\<close> otherwise, so the serving certificate names the
  endpoint under the right kind of subject alternative name.
\<close>

theorem builders_csr_endpoint:
  assumes "extractVersionParts (ControlPlaneInput.Version i) = Inr (a, b)"
    and "extractVersionParts (ControlPlaneJoinInput.Version j) = Inr (c, d)"
    and "CHR ''{'' \<notin> set (concat (ensure_dns_addon (Addons i)))"
  shows "\<exists>x y. fst (NewInitControlPlane i) = Inr x \<and> fst (NewJoinControlPlane j) = Inr y \<and>
     sublist (''/^DNS.1 = kubernetes/a '' @
       (if ParseIP (ControlPlaneInput.ControlPlaneEndpoint i) \<noteq> None then ''IP'' else ''DNS'') @ ''.100 = '' @
       ControlPlaneInput.ControlPlaneEndpoint i) x \<and>
     sublist (''/^DNS.1 = kubernetes/a '' @
       (if ParseIP (ControlPlaneJoinInput.ControlPlaneEndpoint j) \<noteq> None then ''IP'' else ''DNS'') @ ''.100 = '' @
       ControlPlaneJoinInput.ControlPlaneEndpoint j) y"
proof -
  let ?si = "snd (NewInitControlPlane i)" and ?sj = "snd (NewJoinControlPlane j)"
  let ?A = "addons_string (ensure_dns_addon (Addons i))"
  note ri = NewInitControlPlane_generate [OF assms(1)] and rj = NewJoinControlPlane_generate [OF assms(2)]
  show ?thesis
  proof (intro exI conjI)
    show "fst (NewInitControlPlane i) = Inr (cloud_config (Header ?si) (init_files ?si) (init_runcmd ?si ?A))"
      using ri(1) generate_init_template [OF assms(3)] by simp
    show "fst (NewJoinControlPlane j) = Inr (cloud_config (Header ?sj) [] (join_runcmd ?sj))"
      using rj(1) generate_join_template by simp
  qed (rule init_runcmd_csr [of ?si, unfolded ri(8,9)], rule join_runcmd_csr [of ?sj, unfolded rj(7,8)])
qed

theorem builders_csr_endpoint_witness:
  "extractVersionParts (ControlPlaneInput.Version example_init_input) = Inr (1, 21) \<and>
   extractVersionParts (ControlPlaneJoinInput.Version example_join_input) = Inr (1, 21) \<and>
   CHR ''{'' \<notin> set (concat (ensure_dns_addon (Addons example_init_input))) \<and>
   (\<exists>x y. fst (NewInitControlPlane example_init_input) = Inr x \<and> fst (NewJoinControlPlane example_join_input) = Inr y \<and>
     sublist (''/^DNS.1 = kubernetes/a IP.100 = 10.0.0.5'') x \<and>
     sublist (''/^DNS.1 = kubernetes/a DNS.100 = cluster.example.com'') y)"
proof -
  have e: "ControlPlaneInput.ControlPlaneEndpoint example_init_input = ''10.0.0.5''"
    "ControlPlaneJoinInput.ControlPlaneEndpoint example_join_input = ''cluster.example.com''"
    by (simp_all add: example_init_input_def example_join_input_def)
  have p: "(if ParseIP ''10.0.0.5'' \<noteq> None then ''IP'' else ''DNS'') = ''IP''"
    "(if ParseIP ''cluster.example.com'' \<noteq> None then ''IP'' else ''DNS'') = ''DNS''"
    by (simp_all add: model_simps ipv6_loop.simps)
  show ?thesis
    using example_init_version example_join_version example_init_no_brace
      builders_csr_endpoint [OF example_init_version example_join_version example_init_no_brace]
    unfolding e p by simp
qed

end
